theory Spec2Isabelle
  imports Main "HOL-Library.Sublist"
begin

unbundle bit_operations_syntax

section \<open>Data model of \<open>vm_version_aarch64.cpp\<close>\<close>

text \<open>
  Modelled from the spec: \<open>enum Family\<close> (the implementer code held in \<open>_cpu\<close>; the spec's
  ``vendor: enum''). It is declared in \<open>vm_version_aarch64.hpp\<close>, which is not among the
  sources. The enumerators are the ones the source names; \<open>CPU_OTHER\<close> stands for every other
  implementer code.
\<close>

datatype Family =
    CPU_AMPERE | CPU_ARM | CPU_BROADCOM | CPU_CAVIUM | CPU_HISILICON | CPU_AMCC
  | CPU_OTHER int

text \<open>
  Modelled from the spec: the feature bits tested on \<open>_features\<close> (the spec's
  ``features: bitset''), declared by \<open>CPU_FEATURE_FLAGS\<close> in the same missing header. Each
  enumerator is one bit, so the bitset is a set of enumerators: \<open>_features & CPU_X\<close> is
  membership and \<open>_features |= CPU_X\<close> is insertion.
\<close>

datatype Feature_Flag =
    CPU_FP | CPU_ASIMD | CPU_EVTSTRM | CPU_AES | CPU_PMULL | CPU_SHA1 | CPU_SHA2
  | CPU_CRC32 | CPU_LSE | CPU_DCPOP | CPU_SHA3 | CPU_SHA512 | CPU_SVE | CPU_SVE2
  | CPU_STXR_PREFETCH | CPU_A53MAC

text \<open>The boolean flags (knobs) that \<open>VM_Version::initialize\<close> reads or writes.\<close>

datatype bool_flag =
    AvoidUnalignedAccesses | UseSIMDForMemoryOps | UseSIMDForArrayEquals
  | UseSignumIntrinsic | UseSimpleArrayEquals | UseCRC32 | UseAdler32Intrinsics
  | UseVectorizedMismatchIntrinsic | UseLSE | UseAES | UseAESIntrinsics
  | UseAESCTRIntrinsics | UseCRC32Intrinsics | UseCRC32CIntrinsics | UseFMA
  | UseMD5Intrinsics | UseSHA | UseSHA1Intrinsics | UseSHA256Intrinsics
  | UseSHA3Intrinsics | UseSHA512Intrinsics | UseGHASHIntrinsics | UseBASE64Intrinsics
  | UseBlockZeroing | UseUnalignedAccesses | UsePopCountInstruction
  | UseMultiplyToLenIntrinsic | UseSquareToLenIntrinsic | UseMulAddIntrinsic
  | UseMontgomeryMultiplyIntrinsic | UseMontgomerySquareIntrinsic | OptoScheduling
  | AlignVector | CriticalJNINatives

text \<open>
  The numeric flags (\<open>intx\<close>, \<open>int\<close> and \<open>uint\<close> in the flag table). Their values are
  modelled as mathematical integers: every value the source computes for them is a small
  multiple of a cache-line or vector size, far from the 64-bit range.
\<close>

datatype int_flag =
    AllocatePrefetchDistance | AllocatePrefetchStepSize | PrefetchScanIntervalInBytes
  | PrefetchCopyIntervalInBytes | SoftwarePrefetchHintDistance | ContendedPaddingWidth
  | OnSpinWaitInstCount | BlockZeroingLowLimit | UseSVE | MaxVectorSize

datatype Inst = NONE | NOP | ISB | YIELD

text \<open>
  Modelled from the spec: \<open>class SpinWait\<close> (\<open>spin_wait_aarch64.hpp\<close>, not among the
  sources), the spec's \<open>SpinWaitDescriptor {kind, repeat_count}\<close>. \<open>SpinWait{}\<close> is the
  descriptor ``no strategy, count 0''.
\<close>

record SpinWait =
  inst :: Inst
  inst_count :: int

definition SpinWait_default :: SpinWait where
  "SpinWait_default = \<lparr>inst = NONE, inst_count = 0\<rparr>"

datatype VirtualizationType = NoDetectedVirtualization | XenPVHVM | KVM | VMWare

text \<open>An argument of a \<open>printf\<close>-style message.\<close>

datatype fmt_arg = Arg_int int | Arg_str string

text \<open>A message is its format string with the arguments passed along.\<close>

type_synonym message = "string \<times> fmt_arg list"

text \<open>
  The process-wide state the file works on: the CPU identity and feature bits left by
  \<open>get_os_cpu_info()\<close>, the static fields of \<open>VM_Version\<close>, and the flag store. For each
  flag the store holds the value and what \<open>FLAG_IS_DEFAULT\<close> (and \<open>FLAG_IS_CMDLINE\<close>)
  answers for it. \<open>warnings\<close> is the log of the calls of \<open>warning()\<close>, in order;
  \<open>opened\<close> is the log of the paths handed to \<open>os::fopen\<close>.

  Not modelled: the five \<open>_supports_*\<close> booleans set at the top of \<open>initialize\<close> and the
  \<open>_features_string\<close>, which nothing else in the file reads.
\<close>

record vm_state =
  cpu :: Family
  model :: int
  model2 :: int
  variant :: int
  revision :: int
  features :: "Feature_Flag set"
  data_cache_line_flush_size :: int
  initial_sve_vector_length :: int
  spin_wait :: SpinWait
  detected_virtualization :: VirtualizationType
  bflag :: "bool_flag \<Rightarrow> bool"
  iflag :: "int_flag \<Rightarrow> int"
  OnSpinWaitInst :: string
  b_default :: "bool_flag \<Rightarrow> bool"
  i_default :: "int_flag \<Rightarrow> bool"
  OnSpinWaitInst_default :: bool
  b_cmdline :: "bool_flag \<Rightarrow> bool"
  warnings :: "message list"
  opened :: "string list"

text \<open>
  What the file takes from its collaborators: the two build switches its preprocessor
  conditionals test, the probes of the operating system, and four model numbers of
  \<open>enum Ampere_CPU_Model\<close> (declared in the missing header; taken as parameters).
  \<open>fgets_lines path\<close> is \<open>None\<close> when \<open>os::fopen\<close> fails, otherwise the successive results
  of \<open>fgets(line, sizeof(line), fp)\<close> up to the end of the file.
\<close>

record env =
  COMPILER2 :: bool
  LINUX :: bool
  dcache_line_size :: int
  is_zva_enabled :: bool
  zva_length :: int
  supports_map_sync :: bool
  get_current_sve_vector_length :: int
  set_and_get_current_sve_vector_length :: "int \<Rightarrow> int"
  CPU_MODEL_EMAG :: int
  CPU_MODEL_AMPERE_1 :: int
  CPU_MODEL_AMPERE_1A :: int
  CPU_MODEL_AMPERE_1B :: int
  fgets_lines :: "string \<Rightarrow> string list option"

text \<open>
  The two ways the source ends the process: \<open>guarantee(...)\<close> and
  \<open>vm_exit_during_initialization(...)\<close>, each with its message. A run of \<open>initialize\<close> is
  \<open>Inl\<close> of the fatal error with the state at the moment of the exit, or \<open>Inr\<close> of the
  final state.
\<close>

datatype fatal = Guarantee_failed string | Vm_exit message

type_synonym result = "(fatal \<times> vm_state) + vm_state"

text \<open>
  Statements one after the other (\<open>in_order\<close>), and a step taken only if the process has
  not ended before it (\<open>and_then\<close>).
\<close>

fun in_order :: "(vm_state \<Rightarrow> vm_state) list \<Rightarrow> vm_state \<Rightarrow> vm_state" where
  "in_order [] s = s"
| "in_order (f # fs) s = in_order fs (f s)"

fun and_then :: "result \<Rightarrow> (vm_state \<Rightarrow> result) \<Rightarrow> result" where
  "and_then (Inl err) f = Inl err"
| "and_then (Inr s) f = f s"

subsection \<open>The flag store\<close>

text \<open>
  Modelled from the spec: the flag store's macros (\<open>globals_extension.hpp\<close>, not among the
  sources), the spec's ``is this knob still at its default?'' and ``set this knob's
  value''. \<open>FLAG_SET_DEFAULT(name, value)\<close> is the plain assignment \<open>name = value\<close>: it
  stores the value and leaves the answer of \<open>FLAG_IS_DEFAULT\<close> as it was.
\<close>

definition assign_b :: "bool_flag \<Rightarrow> bool \<Rightarrow> vm_state \<Rightarrow> vm_state" where
  "assign_b k v s = s\<lparr>bflag := (bflag s)(k := v)\<rparr>"

definition assign_i :: "int_flag \<Rightarrow> int \<Rightarrow> vm_state \<Rightarrow> vm_state" where
  "assign_i k v s = s\<lparr>iflag := (iflag s)(k := v)\<rparr>"

abbreviation FLAG_SET_DEFAULT_b :: "bool_flag \<Rightarrow> bool \<Rightarrow> vm_state \<Rightarrow> vm_state" where
  "FLAG_SET_DEFAULT_b \<equiv> assign_b"

abbreviation FLAG_SET_DEFAULT_i :: "int_flag \<Rightarrow> int \<Rightarrow> vm_state \<Rightarrow> vm_state" where
  "FLAG_SET_DEFAULT_i \<equiv> assign_i"

definition assign_OnSpinWaitInst :: "string \<Rightarrow> vm_state \<Rightarrow> vm_state" where
  "assign_OnSpinWaitInst v s = s\<lparr>OnSpinWaitInst := v\<rparr>"

definition warning :: "message \<Rightarrow> vm_state \<Rightarrow> vm_state" where
  "warning m s = s\<lparr>warnings := warnings s @ [m]\<rparr>"

text \<open>
  Modelled from the spec: \<open>is_power_of_2\<close> (\<open>utilities/powerOfTwo.hpp\<close>, not among the
  sources): a positive value with a single bit set.
\<close>

definition is_power_of_2 :: "int \<Rightarrow> bool" where
  "is_power_of_2 x \<longleftrightarrow> 0 < x \<and> x AND (x - 1) = 0"

text \<open>
  Modelled from the spec: \<open>FloatRegisterImpl::sve_vl_min\<close> (\<open>register_aarch64.hpp\<close>, not
  among the sources), the architecture's minimum vector length of 16 bytes.
\<close>

definition sve_vl_min :: int where
  "sve_vl_min = 16"

section \<open>\<open>get_spin_wait_desc\<close>\<close>

definition get_spin_wait_desc :: "vm_state \<Rightarrow> (fatal \<times> vm_state) + SpinWait" where
  "get_spin_wait_desc s =
     (if OnSpinWaitInst s = ''nop'' then
        Inr \<lparr>inst = NOP, inst_count = iflag s OnSpinWaitInstCount\<rparr>
      else if OnSpinWaitInst s = ''isb'' then
        Inr \<lparr>inst = ISB, inst_count = iflag s OnSpinWaitInstCount\<rparr>
      else if OnSpinWaitInst s = ''yield'' then
        Inr \<lparr>inst = YIELD, inst_count = iflag s OnSpinWaitInstCount\<rparr>
      else if OnSpinWaitInst s \<noteq> ''none'' then
        Inl (Vm_exit (''The options for OnSpinWaitInst are nop, isb, yield, and none'',
                      [Arg_str (OnSpinWaitInst s)]), s)
      else if \<not> i_default s OnSpinWaitInstCount \<and> 0 < iflag s OnSpinWaitInstCount then
        Inl (Vm_exit (''OnSpinWaitInstCount cannot be used for OnSpinWaitInst ''
                        @ [CHR 0x27] @ ''none'' @ [CHR 0x27], []), s)
      else Inr SpinWait_default)"

section \<open>\<open>VM_Version::initialize\<close>\<close>

text \<open>
  Two shapes recur in the source and are written once:
  \<^item> \<open>if (FLAG_IS_DEFAULT(k)) FLAG_SET_DEFAULT(k, v)\<close> (\<open>default_b\<close>, \<open>default_i\<close>,
    \<open>default_OnSpinWaitInst\<close>);
  \<^item> \<open>if (k) { warning(m); FLAG_SET_DEFAULT(k, false); }\<close> (\<open>unsupported_b\<close>).
\<close>

definition default_b :: "bool_flag \<Rightarrow> bool \<Rightarrow> vm_state \<Rightarrow> vm_state" where
  "default_b k v s = (if b_default s k then FLAG_SET_DEFAULT_b k v s else s)"

definition default_i :: "int_flag \<Rightarrow> int \<Rightarrow> vm_state \<Rightarrow> vm_state" where
  "default_i k v s = (if i_default s k then FLAG_SET_DEFAULT_i k v s else s)"

definition default_OnSpinWaitInst :: "string \<Rightarrow> vm_state \<Rightarrow> vm_state" where
  "default_OnSpinWaitInst v s =
     (if OnSpinWaitInst_default s then assign_OnSpinWaitInst v s else s)"

definition unsupported_b :: "bool_flag \<Rightarrow> message \<Rightarrow> vm_state \<Rightarrow> vm_state" where
  "unsupported_b k m s =
     (if bflag s k then FLAG_SET_DEFAULT_b k False (warning m s) else s)"

subsection \<open>Prefetch distances and padding (lines 79--130)\<close>

definition prefetch_defaults :: "env \<Rightarrow> vm_state \<Rightarrow> vm_state" where
  "prefetch_defaults e =
     in_order
      [default_i AllocatePrefetchDistance (min 512 (3 * dcache_line_size e)),
       default_i AllocatePrefetchStepSize (dcache_line_size e),
       default_i PrefetchScanIntervalInBytes (3 * dcache_line_size e),
       default_i PrefetchCopyIntervalInBytes (3 * dcache_line_size e),
       default_i SoftwarePrefetchHintDistance (3 * dcache_line_size e)]"

definition mask_PrefetchCopyIntervalInBytes :: "vm_state \<Rightarrow> vm_state" where
  "mask_PrefetchCopyIntervalInBytes s =
     assign_i PrefetchCopyIntervalInBytes (iflag s PrefetchCopyIntervalInBytes AND NOT 7) s"

definition cap_PrefetchCopyIntervalInBytes :: "vm_state \<Rightarrow> vm_state" where
  "cap_PrefetchCopyIntervalInBytes s =
     (if 32768 \<le> iflag s PrefetchCopyIntervalInBytes
      then assign_i PrefetchCopyIntervalInBytes 32760 s else s)"

definition align_PrefetchCopyIntervalInBytes :: "vm_state \<Rightarrow> vm_state" where
  "align_PrefetchCopyIntervalInBytes s =
     (if iflag s PrefetchCopyIntervalInBytes \<noteq> - 1 \<and>
         (iflag s PrefetchCopyIntervalInBytes AND 7 \<noteq> 0 \<or>
          32768 \<le> iflag s PrefetchCopyIntervalInBytes)
      then
        in_order [warning (''PrefetchCopyIntervalInBytes must be -1, or a multiple of 8 and < 32768'', []),
                  mask_PrefetchCopyIntervalInBytes,
                  cap_PrefetchCopyIntervalInBytes] s
      else s)"

definition align_AllocatePrefetchDistance :: "vm_state \<Rightarrow> vm_state" where
  "align_AllocatePrefetchDistance s =
     (if iflag s AllocatePrefetchDistance \<noteq> - 1 \<and> iflag s AllocatePrefetchDistance AND 7 \<noteq> 0
      then assign_i AllocatePrefetchDistance (iflag s AllocatePrefetchDistance AND NOT 7)
             (warning (''AllocatePrefetchDistance must be multiple of 8'', []) s)
      else s)"

definition align_AllocatePrefetchStepSize :: "vm_state \<Rightarrow> vm_state" where
  "align_AllocatePrefetchStepSize s =
     (if iflag s AllocatePrefetchStepSize AND 7 \<noteq> 0
      then assign_i AllocatePrefetchStepSize (iflag s AllocatePrefetchStepSize AND NOT 7)
             (warning (''AllocatePrefetchStepSize must be multiple of 8'', []) s)
      else s)"

definition align_SoftwarePrefetchHintDistance :: "vm_state \<Rightarrow> vm_state" where
  "align_SoftwarePrefetchHintDistance s =
     (if iflag s SoftwarePrefetchHintDistance \<noteq> - 1 \<and>
         iflag s SoftwarePrefetchHintDistance AND 7 \<noteq> 0
      then assign_i SoftwarePrefetchHintDistance (iflag s SoftwarePrefetchHintDistance AND NOT 7)
             (warning (''SoftwarePrefetchHintDistance must be -1, or a multiple of 8'', []) s)
      else s)"

definition widen_ContendedPaddingWidth :: "env \<Rightarrow> vm_state \<Rightarrow> vm_state" where
  "widen_ContendedPaddingWidth e s =
     (if i_default s ContendedPaddingWidth \<and> iflag s ContendedPaddingWidth < dcache_line_size e
      then assign_i ContendedPaddingWidth (dcache_line_size e) s else s)"

definition publish_flush_size :: "env \<Rightarrow> vm_state \<Rightarrow> vm_state" where
  "publish_flush_size e s =
     (if supports_map_sync e \<and> CPU_DCPOP \<in> features s
      then s\<lparr>data_cache_line_flush_size := dcache_line_size e\<rparr> else s)"

definition prefetch_rules :: "env \<Rightarrow> vm_state \<Rightarrow> vm_state" where
  "prefetch_rules e =
     in_order
      [prefetch_defaults e,
       align_PrefetchCopyIntervalInBytes,
       align_AllocatePrefetchDistance,
       align_AllocatePrefetchStepSize,
       align_SoftwarePrefetchHintDistance,
       widen_ContendedPaddingWidth e,
       publish_flush_size e]"

subsection \<open>Vendor specific features (lines 132--241)\<close>

text \<open>
  Modelled from the spec: \<open>model_is\<close> (declared in the missing header): the model number is
  in \<open>_model\<close> or in the secondary identifier \<open>_model2\<close>, as the source spells out itself for
  the Cortex cores.
\<close>

definition model_is :: "vm_state \<Rightarrow> int \<Rightarrow> bool" where
  "model_is s m \<longleftrightarrow> model s = m \<or> model2 s = m"

definition rule_eMAG :: "env \<Rightarrow> vm_state \<Rightarrow> vm_state" where
  "rule_eMAG e s =
     (if cpu s = CPU_AMCC \<and> model s = CPU_MODEL_EMAG e \<and> variant s = 3 then
        in_order [default_b AvoidUnalignedAccesses True,
                  default_b UseSIMDForMemoryOps True,
                  default_b UseSIMDForArrayEquals (\<not> (revision s = 1 \<or> revision s = 2))] s
      else s)"

definition rule_Ampere :: "env \<Rightarrow> vm_state \<Rightarrow> vm_state" where
  "rule_Ampere e s =
     (if cpu s = CPU_AMPERE \<and>
         (model s = CPU_MODEL_AMPERE_1 e \<or> model s = CPU_MODEL_AMPERE_1A e \<or>
          model s = CPU_MODEL_AMPERE_1B e) then
        in_order [default_b UseSIMDForMemoryOps True,
                  default_OnSpinWaitInst ''isb'',
                  default_i OnSpinWaitInstCount 2,
                  default_b UseSignumIntrinsic True] s
      else s)"

definition rule_ThunderX :: "vm_state \<Rightarrow> result" where
  "rule_ThunderX s =
     (if cpu s = CPU_CAVIUM \<and> model s = 0xA1 then
        if variant s \<noteq> 0 then
          Inr (in_order [default_b AvoidUnalignedAccesses True,
                         default_b UseSIMDForMemoryOps (0 < variant s),
                         default_b UseSIMDForArrayEquals False] s)
        else Inl (Guarantee_failed ''Pre-release hardware no longer supported.'', s)
      else Inr s)"

definition rule_ThunderX2 :: "vm_state \<Rightarrow> vm_state" where
  "rule_ThunderX2 s =
     (if (cpu s = CPU_CAVIUM \<and> model s = 0xAF) \<or> (cpu s = CPU_BROADCOM \<and> model s = 0x516) then
        in_order [default_b AvoidUnalignedAccesses True,
                  default_b UseSIMDForMemoryOps True] s
      else s)"

definition rule_TSV110 :: "vm_state \<Rightarrow> vm_state" where
  "rule_TSV110 s =
     (if cpu s = CPU_HISILICON \<and> model s = 0xd01 then
        in_order [default_b AvoidUnalignedAccesses True,
                  default_b UseSIMDForMemoryOps True] s
      else s)"

definition rule_A53 :: "vm_state \<Rightarrow> vm_state" where
  "rule_A53 s =
     (if cpu s = CPU_ARM \<and> (model s = 0xd03 \<or> model2 s = 0xd03) then
        default_b UseSIMDForArrayEquals False (s\<lparr>features := insert CPU_A53MAC (features s)\<rparr>)
      else s)"

definition rule_A73 :: "vm_state \<Rightarrow> vm_state" where
  "rule_A73 s =
     (if cpu s = CPU_ARM \<and> (model s = 0xd09 \<or> model2 s = 0xd09) then
        in_order [default_i SoftwarePrefetchHintDistance (- 1),
                  default_b UseSimpleArrayEquals True] s
      else s)"

definition rule_Neoverse :: "vm_state \<Rightarrow> vm_state" where
  "rule_Neoverse s =
     (if cpu s = CPU_ARM \<and>
         (model_is s 0xd0c \<or> model_is s 0xd49 \<or> model_is s 0xd40 \<or> model_is s 0xd4f) then
        in_order [default_b UseSIMDForMemoryOps True,
                  default_OnSpinWaitInst ''isb'',
                  default_i OnSpinWaitInstCount 1] s
      else s)"

definition rule_ARM_signum :: "vm_state \<Rightarrow> vm_state" where
  "rule_ARM_signum s =
     (if cpu s = CPU_ARM then default_b UseSignumIntrinsic True s else s)"

definition rule_STXR_PREFETCH :: "vm_state \<Rightarrow> vm_state" where
  "rule_STXR_PREFETCH s =
     (if cpu s = CPU_ARM \<and> (model s = 0xd07 \<or> model2 s = 0xd07)
      then s\<lparr>features := insert CPU_STXR_PREFETCH (features s)\<rparr> else s)"

definition vendor_rules_after_ThunderX :: "vm_state \<Rightarrow> vm_state" where
  "vendor_rules_after_ThunderX =
     in_order
      [rule_ThunderX2,
       rule_TSV110,
       rule_A53,
       rule_A73,
       rule_Neoverse,
       rule_ARM_signum,
       rule_STXR_PREFETCH]"

definition vendor_rules :: "env \<Rightarrow> vm_state \<Rightarrow> result" where
  "vendor_rules e s =
     and_then (rule_ThunderX (in_order [rule_eMAG e,
                                        rule_Ampere e] s))
       (\<lambda>s. Inr (vendor_rules_after_ThunderX s))"

subsection \<open>Feature bits against flags (lines 252--401)\<close>

definition default_UseCRC32 :: "vm_state \<Rightarrow> vm_state" where
  "default_UseCRC32 s =
     (if b_default s UseCRC32 then assign_b UseCRC32 (CPU_CRC32 \<in> features s) s else s)"

definition check_UseCRC32 :: "vm_state \<Rightarrow> vm_state" where
  "check_UseCRC32 s =
     (if bflag s UseCRC32 \<and> CPU_CRC32 \<notin> features s
      then FLAG_SET_DEFAULT_b UseCRC32 False
             (warning (''UseCRC32 specified, but not supported on this CPU'', []) s)
      else s)"

definition rule_UseCRC32 :: "vm_state \<Rightarrow> vm_state" where
  "rule_UseCRC32 =
     in_order
      [default_UseCRC32,
       check_UseCRC32]"

definition rule_UseLSE :: "vm_state \<Rightarrow> vm_state" where
  "rule_UseLSE s =
     (if CPU_LSE \<in> features s then default_b UseLSE True s
      else unsupported_b UseLSE (''UseLSE specified, but not supported on this CPU'', []) s)"

definition enable_UseAES :: "vm_state \<Rightarrow> vm_state" where
  "enable_UseAES s = assign_b UseAES (bflag s UseAES \<or> b_default s UseAES) s"

definition enable_UseAESIntrinsics :: "vm_state \<Rightarrow> vm_state" where
  "enable_UseAESIntrinsics s =
     assign_b UseAESIntrinsics
       (bflag s UseAESIntrinsics \<or> (bflag s UseAES \<and> b_default s UseAESIntrinsics)) s"

definition force_UseAES :: "vm_state \<Rightarrow> vm_state" where
  "force_UseAES s =
     (if bflag s UseAESIntrinsics \<and> \<not> bflag s UseAES
      then assign_b UseAES True
             (warning (''UseAESIntrinsics enabled, but UseAES not, enabling'', []) s)
      else s)"

definition rule_AES :: "vm_state \<Rightarrow> vm_state" where
  "rule_AES s =
     (if CPU_AES \<in> features s then
        in_order [enable_UseAES,
                  enable_UseAESIntrinsics,
                  force_UseAES,
                  default_b UseAESCTRIntrinsics True] s
      else
        in_order [unsupported_b UseAES (''AES instructions are not available on this CPU'', []),
                  unsupported_b UseAESIntrinsics (''AES intrinsics are not available on this CPU'', []),
                  unsupported_b UseAESCTRIntrinsics
           (''AES/CTR intrinsics are not available on this CPU'', [])] s)"

definition rule_UseCRC32CIntrinsics :: "vm_state \<Rightarrow> vm_state" where
  "rule_UseCRC32CIntrinsics s =
     (if CPU_CRC32 \<in> features s then default_b UseCRC32CIntrinsics True s
      else unsupported_b UseCRC32CIntrinsics (''CRC32C is not available on the CPU'', []) s)"

definition rule_UseSHA :: "vm_state \<Rightarrow> vm_state" where
  "rule_UseSHA s =
     (if features s \<inter> {CPU_SHA1, CPU_SHA2, CPU_SHA3, CPU_SHA512} \<noteq> {}
      then default_b UseSHA True s
      else unsupported_b UseSHA (''SHA instructions are not available on this CPU'', []) s)"

definition rule_UseSHA1Intrinsics :: "vm_state \<Rightarrow> vm_state" where
  "rule_UseSHA1Intrinsics s =
     (if bflag s UseSHA \<and> CPU_SHA1 \<in> features s then default_b UseSHA1Intrinsics True s
      else unsupported_b UseSHA1Intrinsics
             (''Intrinsics for SHA-1 crypto hash functions not available on this CPU.'', []) s)"

definition rule_UseSHA256Intrinsics :: "vm_state \<Rightarrow> vm_state" where
  "rule_UseSHA256Intrinsics s =
     (if bflag s UseSHA \<and> CPU_SHA2 \<in> features s then default_b UseSHA256Intrinsics True s
      else unsupported_b UseSHA256Intrinsics
             (''Intrinsics for SHA-224 and SHA-256 crypto hash functions not available on this CPU.'',
              []) s)"

definition rule_UseSHA3Intrinsics :: "vm_state \<Rightarrow> vm_state" where
  "rule_UseSHA3Intrinsics s =
     (if bflag s UseSHA \<and> CPU_SHA3 \<in> features s then s
      else unsupported_b UseSHA3Intrinsics
             (''Intrinsics for SHA3-224, SHA3-256, SHA3-384 and SHA3-512 crypto hash functions not available on this CPU.'',
              []) s)"

definition rule_UseSHA512Intrinsics :: "vm_state \<Rightarrow> vm_state" where
  "rule_UseSHA512Intrinsics s =
     (if bflag s UseSHA \<and> CPU_SHA512 \<in> features s then s
      else unsupported_b UseSHA512Intrinsics
             (''Intrinsics for SHA-384 and SHA-512 crypto hash functions not available on this CPU.'',
              []) s)"

definition reset_UseSHA :: "vm_state \<Rightarrow> vm_state" where
  "reset_UseSHA s =
     (if \<not> (bflag s UseSHA1Intrinsics \<or> bflag s UseSHA256Intrinsics \<or>
             bflag s UseSHA3Intrinsics \<or> bflag s UseSHA512Intrinsics)
      then FLAG_SET_DEFAULT_b UseSHA False s else s)"

definition rule_UseGHASHIntrinsics :: "vm_state \<Rightarrow> vm_state" where
  "rule_UseGHASHIntrinsics s =
     (if CPU_PMULL \<in> features s then default_b UseGHASHIntrinsics True s
      else unsupported_b UseGHASHIntrinsics
             (''GHASH intrinsics are not available on this CPU'', []) s)"

definition rule_UseBlockZeroing :: "env \<Rightarrow> vm_state \<Rightarrow> vm_state" where
  "rule_UseBlockZeroing e s =
     (if is_zva_enabled e then
        in_order [default_b UseBlockZeroing True,
                  default_i BlockZeroingLowLimit (4 * zva_length e)] s
      else unsupported_b UseBlockZeroing (''DC ZVA is not available on this CPU'', []) s)"

definition feature_rules :: "env \<Rightarrow> vm_state \<Rightarrow> vm_state" where
  "feature_rules e =
     in_order
      [rule_UseCRC32,
       default_b UseAdler32Intrinsics True,
       unsupported_b UseVectorizedMismatchIntrinsic
       (''UseVectorizedMismatchIntrinsic specified, but not available on this CPU.'', []),
       rule_UseLSE,
       rule_AES,
       default_b UseCRC32Intrinsics True,
       rule_UseCRC32CIntrinsics,
       default_b UseFMA True,
       default_b UseMD5Intrinsics True,
       rule_UseSHA,
       rule_UseSHA1Intrinsics,
       rule_UseSHA256Intrinsics,
       rule_UseSHA3Intrinsics,
       rule_UseSHA512Intrinsics,
       reset_UseSHA,
       rule_UseGHASHIntrinsics,
       default_b UseBASE64Intrinsics True,
       rule_UseBlockZeroing e]"

subsection \<open>SVE detection (lines 403--426)\<close>

definition rule_UseSVE :: "vm_state \<Rightarrow> vm_state" where
  "rule_UseSVE s =
     (if CPU_SVE \<in> features s then
        default_i UseSVE (if CPU_SVE2 \<in> features s then 2 else 1) s
      else if 0 < iflag s UseSVE then
        FLAG_SET_DEFAULT_i UseSVE 0
          (warning (''UseSVE specified, but not supported on current CPU. Disabling SVE.'', []) s)
      else s)"

definition detect_sve_vector_length :: "env \<Rightarrow> vm_state \<Rightarrow> vm_state" where
  "detect_sve_vector_length e s =
     (if 0 < iflag s UseSVE then
        if get_current_sve_vector_length e < 0 then
          FLAG_SET_DEFAULT_i UseSVE 0
            (warning (''Unable to get SVE vector length on this system. Disabling SVE. Specify -XX:UseSVE=0 to shun this warning.'',
                      []) s)
        else if get_current_sve_vector_length e = 0 \<or>
                get_current_sve_vector_length e mod sve_vl_min \<noteq> 0 \<or>
                \<not> is_power_of_2 (get_current_sve_vector_length e) then
          FLAG_SET_DEFAULT_i UseSVE 0
            (warning (''Detected SVE vector length (%d) should be a power of two and a multiple of %d. Disabling SVE. Specify -XX:UseSVE=0 to shun this warning.'',
                      [Arg_int (get_current_sve_vector_length e), Arg_int sve_vl_min]) s)
        else s\<lparr>initial_sve_vector_length := get_current_sve_vector_length e\<rparr>
      else s)"

subsection \<open>Unaligned accesses and population count (lines 428--440)\<close>

definition force_UsePopCountInstruction :: "vm_state \<Rightarrow> vm_state" where
  "force_UsePopCountInstruction s =
     (if \<not> bflag s UsePopCountInstruction
      then assign_b UsePopCountInstruction True
             (warning (''UsePopCountInstruction is always enabled on this CPU'', []) s)
      else s)"

definition rule_UsePopCountInstruction :: "vm_state \<Rightarrow> vm_state" where
  "rule_UsePopCountInstruction =
     in_order
      [default_b UsePopCountInstruction True,
       force_UsePopCountInstruction]"

subsection \<open>The \<open>COMPILER2\<close> block (lines 442--511)\<close>

definition c2_intrinsics :: "vm_state \<Rightarrow> vm_state" where
  "c2_intrinsics =
     in_order
      [default_b UseMultiplyToLenIntrinsic True,
       default_b UseSquareToLenIntrinsic True,
       default_b UseMulAddIntrinsic True,
       default_b UseMontgomeryMultiplyIntrinsic True,
       default_b UseMontgomerySquareIntrinsic True]"

definition MaxVectorSize_sve :: "env \<Rightarrow> vm_state \<Rightarrow> result" where
  "MaxVectorSize_sve e s =
     (if 0 < iflag s UseSVE then
        if i_default s MaxVectorSize then
          Inr (assign_i MaxVectorSize (initial_sve_vector_length s) s)
        else if iflag s MaxVectorSize < 16 then
          Inr (assign_i UseSVE 0
                 (warning (''SVE does not support vector length less than 16 bytes. Disabling SVE.'',
                           []) s))
        else if iflag s MaxVectorSize mod 16 = 0 \<and> is_power_of_2 (iflag s MaxVectorSize) then
          (let new_vl = set_and_get_current_sve_vector_length e (iflag s MaxVectorSize);
               s1 = s\<lparr>initial_sve_vector_length := new_vl\<rparr>
           in if new_vl < 0 then
                Inl (Vm_exit (''Current system does not support SVE vector length for MaxVectorSize: %d'',
                              [Arg_int (iflag s MaxVectorSize)]), s1)
              else
                Inr (assign_i MaxVectorSize new_vl
                       (if new_vl \<noteq> iflag s MaxVectorSize then
                          warning (''Current system only supports max SVE vector length %d. Set MaxVectorSize to %d'',
                                   [Arg_int new_vl, Arg_int new_vl]) s1
                        else s1)))
        else Inl (Vm_exit (''Unsupported MaxVectorSize: %d'', [Arg_int (iflag s MaxVectorSize)]), s)
      else Inr s)"

definition MaxVectorSize_neon :: "vm_state \<Rightarrow> result" where
  "MaxVectorSize_neon s =
     (if iflag s UseSVE = 0 then
        if \<not> i_default s MaxVectorSize then
          if \<not> is_power_of_2 (iflag s MaxVectorSize) then
            Inl (Vm_exit (''Unsupported MaxVectorSize: %d'', [Arg_int (iflag s MaxVectorSize)]), s)
          else if iflag s MaxVectorSize < 8 then
            Inr (FLAG_SET_DEFAULT_i MaxVectorSize 8
                   (warning (''MaxVectorSize must be at least %i on this platform'', [Arg_int 8]) s))
          else if 16 < iflag s MaxVectorSize then
            Inr (FLAG_SET_DEFAULT_i MaxVectorSize 16
                   (warning (''MaxVectorSize must be at most %i on this platform'', [Arg_int 16]) s))
          else Inr s
        else Inr (FLAG_SET_DEFAULT_i MaxVectorSize 16 s)
      else Inr s)"

definition default_AlignVector :: "vm_state \<Rightarrow> vm_state" where
  "default_AlignVector s = default_b AlignVector (bflag s AvoidUnalignedAccesses) s"

definition c2_tail :: "vm_state \<Rightarrow> vm_state" where
  "c2_tail =
     in_order
      [default_b OptoScheduling True,
       default_AlignVector]"

definition c2_rules :: "env \<Rightarrow> vm_state \<Rightarrow> result" where
  "c2_rules e s =
     (if COMPILER2 e then
        and_then (and_then (MaxVectorSize_sve e (c2_intrinsics s)) MaxVectorSize_neon)
          (\<lambda>s. Inr (c2_tail s))
      else Inr s)"

subsection \<open>Spin wait, virtualization, unsupported options (lines 513--517)\<close>

definition set_spin_wait :: "vm_state \<Rightarrow> result" where
  "set_spin_wait s =
     (case get_spin_wait_desc s of
        Inl err \<Rightarrow> Inl err
      | Inr d \<Rightarrow> Inr (s\<lparr>spin_wait := d\<rparr>))"

text \<open>
  \<open>strcasestr(line, virt) != 0\<close>: \<open>virt\<close> occurs in \<open>line\<close> as a contiguous piece, letters
  compared without regard to case (the C library's function, on ASCII letters).
\<close>

definition tolower :: "char \<Rightarrow> char" where
  "tolower c =
     (case map_of (zip ''ABCDEFGHIJKLMNOPQRSTUVWXYZ'' ''abcdefghijklmnopqrstuvwxyz'') c of
        None \<Rightarrow> c
      | Some l \<Rightarrow> l)"

definition strcasestr :: "string \<Rightarrow> string \<Rightarrow> bool" where
  "strcasestr line virt \<longleftrightarrow> sublist (map tolower virt) (map tolower line)"

fun scan_lines ::
  "string \<Rightarrow> VirtualizationType \<Rightarrow> string option \<Rightarrow> VirtualizationType \<Rightarrow>
   string list \<Rightarrow> vm_state \<Rightarrow> bool \<times> vm_state" where
  "scan_lines virt1 vt1 virt2 vt2 [] s = (False, s)"
| "scan_lines virt1 vt1 virt2 vt2 (line # rest) s =
     (if strcasestr line virt1 then (True, s\<lparr>detected_virtualization := vt1\<rparr>)
      else if virt2 \<noteq> None \<and> strcasestr line (the virt2)
      then (True, s\<lparr>detected_virtualization := vt2\<rparr>)
      else scan_lines virt1 vt1 virt2 vt2 rest s)"

definition check_info_file ::
  "env \<Rightarrow> string \<Rightarrow> string \<Rightarrow> VirtualizationType \<Rightarrow> string option \<Rightarrow> VirtualizationType \<Rightarrow>
   vm_state \<Rightarrow> bool \<times> vm_state" where
  "check_info_file e fpath virt1 vt1 virt2 vt2 s =
     (case fgets_lines e fpath of
        None \<Rightarrow> (False, s\<lparr>opened := opened s @ [fpath]\<rparr>)
      | Some ls \<Rightarrow> scan_lines virt1 vt1 virt2 vt2 ls (s\<lparr>opened := opened s @ [fpath]\<rparr>))"

definition pname_file :: string where
  "pname_file = ''/sys/devices/virtual/dmi/id/product_name''"

definition tname_file :: string where
  "tname_file = ''/sys/hypervisor/type''"

definition check_virtualizations :: "env \<Rightarrow> vm_state \<Rightarrow> vm_state" where
  "check_virtualizations e s =
     (if LINUX e then
        (case check_info_file e pname_file ''KVM'' KVM (Some ''VMWare'') VMWare s of
           (True, s1) \<Rightarrow> s1
         | (False, s1) \<Rightarrow>
             snd (check_info_file e tname_file ''Xen'' XenPVHVM None NoDetectedVirtualization s1))
      else s)"

text \<open>
  Modelled from the spec: \<open>UNSUPPORTED_OPTION\<close> (a macro of \<open>arguments.hpp\<close>, not among the
  sources), the spec's rule for a knob that was requested but is not supported: the knob is
  forced to false, with an advisory when the request came from the command line.
\<close>

definition UNSUPPORTED_OPTION :: "bool_flag \<Rightarrow> message \<Rightarrow> vm_state \<Rightarrow> vm_state" where
  "UNSUPPORTED_OPTION k m s =
     (if bflag s k then FLAG_SET_DEFAULT_b k False (if b_cmdline s k then warning m s else s)
      else s)"

subsection \<open>The whole of \<open>initialize\<close>\<close>

definition flag_rules :: "env \<Rightarrow> vm_state \<Rightarrow> vm_state" where
  "flag_rules e =
     in_order
      [feature_rules e,
       rule_UseSVE,
       detect_sve_vector_length e,
       default_b UseUnalignedAccesses True,
       rule_UsePopCountInstruction]"

definition finish :: "env \<Rightarrow> vm_state \<Rightarrow> vm_state" where
  "finish e =
     in_order
      [check_virtualizations e,
       UNSUPPORTED_OPTION CriticalJNINatives (''-XX:+CriticalJNINatives not supported in this VM'', [])]"

definition initialize :: "env \<Rightarrow> vm_state \<Rightarrow> result" where
  "initialize e s =
     and_then (and_then (and_then (vendor_rules e (prefetch_rules e s))
       (\<lambda>s. c2_rules e (flag_rules e s)))
       set_spin_wait)
       (\<lambda>s. Inr (finish e s))"

section \<open>Auxiliary definitions for the proofs\<close>

text \<open>
  \<open>changes_only B I s t\<close>: going from \<open>s\<close> to \<open>t\<close>, the CPU identity and the origins of
  the flags are the same, feature bits are only added (and only the two that the vendor
  rules add), boolean flags outside \<open>B\<close> and numeric flags outside \<open>I\<close> keep their values,
  the recorded SVE vector length is the same unless \<open>UseSVE\<close> is in \<open>I\<close>,
  \<open>OnSpinWaitInst\<close> is the same or had its default replaced by \<open>isb\<close>,
  a boolean flag that was set to false explicitly is still false (but for
  \<open>UsePopCountInstruction\<close> and \<open>UseAES\<close>), and no warning is lost.
\<close>

definition changes_only :: "bool_flag set \<Rightarrow> int_flag set \<Rightarrow> vm_state \<Rightarrow> vm_state \<Rightarrow> bool" where
  "changes_only B I s t \<longleftrightarrow>
     cpu t = cpu s \<and> model t = model s \<and> model2 t = model2 s \<and> variant t = variant s \<and>
     revision t = revision s \<and>
     b_default t = b_default s \<and> i_default t = i_default s \<and>
     OnSpinWaitInst_default t = OnSpinWaitInst_default s \<and> b_cmdline t = b_cmdline s \<and>
     features s \<subseteq> features t \<and> features t \<subseteq> features s \<union> {CPU_A53MAC, CPU_STXR_PREFETCH} \<and>
     (\<forall>k. k \<notin> B \<longrightarrow> bflag t k = bflag s k) \<and>
     (\<forall>k. k \<notin> I \<longrightarrow> iflag t k = iflag s k) \<and>
     (UseSVE \<notin> I \<longrightarrow> initial_sve_vector_length t = initial_sve_vector_length s) \<and>
     (OnSpinWaitInst t = OnSpinWaitInst s \<or>
      OnSpinWaitInst_default s \<and> OnSpinWaitInst t = ''isb'') \<and>
     (\<forall>k. \<not> b_default s k \<and> \<not> bflag s k \<and> k \<noteq> UsePopCountInstruction \<and> k \<noteq> UseAES
          \<longrightarrow> \<not> bflag t k) \<and>
     set (warnings s) \<subseteq> set (warnings t)"

text \<open>The same for a run that may have ended in a fatal error: about the state it ended in.\<close>

fun final_state :: "result \<Rightarrow> vm_state" where
  "final_state (Inl (err, st)) = st"
| "final_state (Inr t) = t"

text \<open>
  The part of the state that the boolean flags have no say in: \<open>core s\<close> is \<open>s\<close> with
  the boolean flags, their origins, the log of warnings, and the fields that nothing in
  \<open>initialize\<close> reads, blanked.
\<close>

definition core :: "vm_state \<Rightarrow> vm_state" where
  "core s = s\<lparr>bflag := (\<lambda>_. False), b_default := (\<lambda>_. False), b_cmdline := (\<lambda>_. False),
     warnings := [], data_cache_line_flush_size := 0, spin_wait := SpinWait_default,
     detected_virtualization := NoDetectedVirtualization, opened := []\<rparr>"

fun core_result :: "result \<Rightarrow> (fatal \<times> vm_state) + vm_state" where
  "core_result (Inl (err, st)) = Inl (err, core st)"
| "core_result (Inr s) = Inr (core s)"

text \<open>
  A machine and a command line to run the rules on: an unknown CPU without any optional
  feature, every flag at its default, a 64-byte cache line, an SVE vector length of 32
  bytes that the system grants as asked, and no readable file.
\<close>

definition plain_state :: vm_state where
  "plain_state = \<lparr>cpu = CPU_OTHER 0, model = 0, model2 = 0, variant = 0, revision = 0,
     features = {}, data_cache_line_flush_size = 0, initial_sve_vector_length = 0,
     spin_wait = SpinWait_default, detected_virtualization = NoDetectedVirtualization,
     bflag = (\<lambda>_. False), iflag = (\<lambda>_. 0), OnSpinWaitInst = ''none'',
     b_default = (\<lambda>_. True), i_default = (\<lambda>_. True), OnSpinWaitInst_default = True,
     b_cmdline = (\<lambda>_. False), warnings = [], opened = []\<rparr>"

definition plain_env :: env where
  "plain_env = \<lparr>COMPILER2 = True, LINUX = True, dcache_line_size = 64, is_zva_enabled = True,
     zva_length = 64, supports_map_sync = True, get_current_sve_vector_length = 32,
     set_and_get_current_sve_vector_length = (\<lambda>n. n), CPU_MODEL_EMAG = 0,
     CPU_MODEL_AMPERE_1 = 0xac3, CPU_MODEL_AMPERE_1A = 0xac4, CPU_MODEL_AMPERE_1B = 0xac5,
     fgets_lines = (\<lambda>_. None)\<rparr>"

text \<open>
  A system whose SVE vector length is 64 bytes but which grants 48 bytes whatever is asked,
  and a command line that asks for \<open>MaxVectorSize=64\<close> on a CPU with SVE.
\<close>

definition grants_48 :: env where
  "grants_48 = plain_env\<lparr>get_current_sve_vector_length := 64,
     set_and_get_current_sve_vector_length := (\<lambda>n. 48)\<rparr>"

definition asks_64 :: vm_state where
  "asks_64 = plain_state\<lparr>features := {CPU_SVE},
     iflag := (iflag plain_state)(MaxVectorSize := 64),
     i_default := (i_default plain_state)(MaxVectorSize := False)\<rparr>"



text \<open>
  A command line that switches \<open>UseAESIntrinsics\<close> on, for a CPU without the AES bit.
\<close>

definition wants_AES_intrinsics :: vm_state where
  "wants_AES_intrinsics =
     plain_state\<lparr>bflag := (bflag plain_state)(UseAESIntrinsics := True),
       b_default := (b_default plain_state)(UseAESIntrinsics := False)\<rparr>"

text \<open>
  The two warnings that announce the override of a flag the user has switched off.
  \<open>quiet s t\<close>: going from \<open>s\<close> to \<open>t\<close>, neither of them has been added to the log.
\<close>

definition override_warnings :: "message set" where
  "override_warnings =
     {(''UsePopCountInstruction is always enabled on this CPU'', []),
      (''UseAESIntrinsics enabled, but UseAES not, enabling'', [])}"

definition quiet :: "vm_state \<Rightarrow> vm_state \<Rightarrow> bool" where
  "quiet s t \<longleftrightarrow> set (warnings t) \<inter> override_warnings \<subseteq> set (warnings s)"

text \<open>
  The rules of lines 252--278 that run before the AES rule, and the rules of lines 306--431
  that run between the AES rule and the rule of \<open>UsePopCountInstruction\<close>, in the order of
  \<open>feature_rules\<close> and \<open>flag_rules\<close>.
\<close>

definition before_AES :: "vm_state \<Rightarrow> vm_state" where
  "before_AES =
     in_order
      [rule_UseCRC32,
       default_b UseAdler32Intrinsics True,
       unsupported_b UseVectorizedMismatchIntrinsic
       (''UseVectorizedMismatchIntrinsic specified, but not available on this CPU.'', []),
       rule_UseLSE]"

definition after_AES :: "env \<Rightarrow> vm_state \<Rightarrow> vm_state" where
  "after_AES e =
     in_order
      [default_b UseCRC32Intrinsics True,
       rule_UseCRC32CIntrinsics,
       default_b UseFMA True,
       default_b UseMD5Intrinsics True,
       rule_UseSHA,
       rule_UseSHA1Intrinsics,
       rule_UseSHA256Intrinsics,
       rule_UseSHA3Intrinsics,
       rule_UseSHA512Intrinsics,
       reset_UseSHA,
       rule_UseGHASHIntrinsics,
       default_b UseBASE64Intrinsics True,
       rule_UseBlockZeroing e,
       rule_UseSVE,
       detect_sve_vector_length e,
       default_b UseUnalignedAccesses True]"

section \<open>Running the rules on a concrete input\<close>

lemma and_then_cong [cong]: "r = r' \<Longrightarrow> and_then r f = and_then r' f"
  by simp

lemmas run_defs =
  initialize_def vendor_rules_def prefetch_rules_def prefetch_defaults_def
  align_PrefetchCopyIntervalInBytes_def mask_PrefetchCopyIntervalInBytes_def
  cap_PrefetchCopyIntervalInBytes_def align_AllocatePrefetchDistance_def
  align_AllocatePrefetchStepSize_def align_SoftwarePrefetchHintDistance_def
  widen_ContendedPaddingWidth_def publish_flush_size_def
  rule_eMAG_def rule_Ampere_def rule_ThunderX_def vendor_rules_after_ThunderX_def
  rule_ThunderX2_def rule_TSV110_def rule_A53_def rule_A73_def rule_ARM_signum_def
  rule_STXR_PREFETCH_def rule_Neoverse_def model_is_def
  default_b_def default_i_def default_OnSpinWaitInst_def assign_b_def assign_i_def
  assign_OnSpinWaitInst_def unsupported_b_def warning_def
  flag_rules_def feature_rules_def rule_UseCRC32_def default_UseCRC32_def check_UseCRC32_def
  rule_UseLSE_def rule_AES_def enable_UseAES_def enable_UseAESIntrinsics_def force_UseAES_def
  rule_UseCRC32CIntrinsics_def rule_UseSHA_def rule_UseSHA1Intrinsics_def
  rule_UseSHA256Intrinsics_def rule_UseSHA3Intrinsics_def rule_UseSHA512Intrinsics_def
  reset_UseSHA_def rule_UseGHASHIntrinsics_def rule_UseBlockZeroing_def
  rule_UseSVE_def detect_sve_vector_length_def rule_UsePopCountInstruction_def
  force_UsePopCountInstruction_def
  c2_rules_def c2_intrinsics_def MaxVectorSize_sve_def MaxVectorSize_neon_def c2_tail_def
  default_AlignVector_def
  set_spin_wait_def get_spin_wait_desc_def finish_def check_virtualizations_def
  check_info_file_def UNSUPPORTED_OPTION_def is_power_of_2_def sve_vl_min_def
  pname_file_def tname_file_def SpinWait_default_def plain_state_def plain_env_def

section \<open>What each rule leaves alone\<close>

named_theorems keeps

lemma changes_only_refl [keeps]: "changes_only B I s s"
  by (auto simp: changes_only_def)

lemma changes_only_assign_b [keeps]:
  "changes_only B I s0 s \<Longrightarrow> k \<in> B \<Longrightarrow>
   (\<not> b_default s k \<Longrightarrow> \<not> bflag s k \<Longrightarrow> k \<noteq> UsePopCountInstruction \<Longrightarrow> k \<noteq> UseAES \<Longrightarrow> \<not> v) \<Longrightarrow>
   changes_only B I s0 (assign_b k v s)"
  unfolding changes_only_def assign_b_def by auto

lemma changes_only_assign_i [keeps]:
  "changes_only B I s0 s \<Longrightarrow> k \<in> I \<Longrightarrow> changes_only B I s0 (assign_i k v s)"
  unfolding changes_only_def assign_i_def by auto

lemma changes_only_warning [keeps]:
  "changes_only B I s0 s \<Longrightarrow> changes_only B I s0 (warning m s)"
  unfolding changes_only_def warning_def by auto

lemma changes_only_default_b [keeps]:
  "changes_only B I s0 s \<Longrightarrow> k \<in> B \<Longrightarrow> changes_only B I s0 (default_b k v s)"
  unfolding default_b_def by (auto intro: changes_only_assign_b)

lemma changes_only_default_i [keeps]:
  "changes_only B I s0 s \<Longrightarrow> k \<in> I \<Longrightarrow> changes_only B I s0 (default_i k v s)"
  unfolding default_i_def by (auto intro: keeps)

lemma changes_only_default_OnSpinWaitInst [keeps]:
  "changes_only B I s0 s \<Longrightarrow> changes_only B I s0 (default_OnSpinWaitInst ''isb'' s)"
  unfolding changes_only_def default_OnSpinWaitInst_def assign_OnSpinWaitInst_def by auto

lemma changes_only_unsupported_b [keeps]:
  "changes_only B I s0 s \<Longrightarrow> k \<in> B \<Longrightarrow> changes_only B I s0 (unsupported_b k m s)"
  unfolding unsupported_b_def by (auto intro!: keeps)

lemma changes_only_field_updates [keeps]:
  "changes_only B I s0 s \<Longrightarrow> changes_only B I s0 (s\<lparr>data_cache_line_flush_size := x\<rparr>)"
  "changes_only B I s0 s \<Longrightarrow> UseSVE \<in> I \<Longrightarrow>
   changes_only B I s0 (s\<lparr>initial_sve_vector_length := y\<rparr>)"
  "changes_only B I s0 s \<Longrightarrow> changes_only B I s0 (s\<lparr>spin_wait := z\<rparr>)"
  "changes_only B I s0 s \<Longrightarrow> changes_only B I s0 (s\<lparr>detected_virtualization := u\<rparr>)"
  "changes_only B I s0 s \<Longrightarrow> changes_only B I s0 (s\<lparr>opened := v\<rparr>)"
  "changes_only B I s0 s \<Longrightarrow> changes_only B I s0 (s\<lparr>features := insert CPU_A53MAC (features s)\<rparr>)"
  "changes_only B I s0 s \<Longrightarrow> changes_only B I s0 (s\<lparr>features := insert CPU_STXR_PREFETCH (features s)\<rparr>)"
  unfolding changes_only_def by auto

lemma changes_only_prefetch_defaults [keeps]:
  "changes_only B I s0 s \<Longrightarrow> {AllocatePrefetchDistance, AllocatePrefetchStepSize, PrefetchScanIntervalInBytes, PrefetchCopyIntervalInBytes, SoftwarePrefetchHintDistance} \<subseteq> I \<Longrightarrow>
   changes_only B I s0 (prefetch_defaults e s)"
  unfolding prefetch_defaults_def by (auto intro!: keeps)

lemma changes_only_mask_PrefetchCopyIntervalInBytes [keeps]:
  "changes_only B I s0 s \<Longrightarrow> {PrefetchCopyIntervalInBytes} \<subseteq> I \<Longrightarrow>
   changes_only B I s0 (mask_PrefetchCopyIntervalInBytes s)"
  unfolding mask_PrefetchCopyIntervalInBytes_def by (auto intro!: keeps)

lemma changes_only_cap_PrefetchCopyIntervalInBytes [keeps]:
  "changes_only B I s0 s \<Longrightarrow> {PrefetchCopyIntervalInBytes} \<subseteq> I \<Longrightarrow>
   changes_only B I s0 (cap_PrefetchCopyIntervalInBytes s)"
  unfolding cap_PrefetchCopyIntervalInBytes_def by (auto intro!: keeps)

lemma changes_only_align_PrefetchCopyIntervalInBytes [keeps]:
  "changes_only B I s0 s \<Longrightarrow> {PrefetchCopyIntervalInBytes} \<subseteq> I \<Longrightarrow>
   changes_only B I s0 (align_PrefetchCopyIntervalInBytes s)"
  unfolding align_PrefetchCopyIntervalInBytes_def by (auto intro!: keeps)

lemma changes_only_align_AllocatePrefetchDistance [keeps]:
  "changes_only B I s0 s \<Longrightarrow> {AllocatePrefetchDistance} \<subseteq> I \<Longrightarrow>
   changes_only B I s0 (align_AllocatePrefetchDistance s)"
  unfolding align_AllocatePrefetchDistance_def by (auto intro!: keeps)

lemma changes_only_align_AllocatePrefetchStepSize [keeps]:
  "changes_only B I s0 s \<Longrightarrow> {AllocatePrefetchStepSize} \<subseteq> I \<Longrightarrow>
   changes_only B I s0 (align_AllocatePrefetchStepSize s)"
  unfolding align_AllocatePrefetchStepSize_def by (auto intro!: keeps)

lemma changes_only_align_SoftwarePrefetchHintDistance [keeps]:
  "changes_only B I s0 s \<Longrightarrow> {SoftwarePrefetchHintDistance} \<subseteq> I \<Longrightarrow>
   changes_only B I s0 (align_SoftwarePrefetchHintDistance s)"
  unfolding align_SoftwarePrefetchHintDistance_def by (auto intro!: keeps)

lemma changes_only_widen_ContendedPaddingWidth [keeps]:
  "changes_only B I s0 s \<Longrightarrow> {ContendedPaddingWidth} \<subseteq> I \<Longrightarrow>
   changes_only B I s0 (widen_ContendedPaddingWidth e s)"
  unfolding widen_ContendedPaddingWidth_def by (auto intro!: keeps)

lemma changes_only_publish_flush_size [keeps]:
  "changes_only B I s0 s \<Longrightarrow>
   changes_only B I s0 (publish_flush_size e s)"
  unfolding publish_flush_size_def by (auto intro!: keeps)

lemma changes_only_prefetch_rules [keeps]:
  "changes_only B I s0 s \<Longrightarrow> {AllocatePrefetchDistance, AllocatePrefetchStepSize, PrefetchScanIntervalInBytes, PrefetchCopyIntervalInBytes, SoftwarePrefetchHintDistance, ContendedPaddingWidth} \<subseteq> I \<Longrightarrow>
   changes_only B I s0 (prefetch_rules e s)"
  unfolding prefetch_rules_def by (auto intro!: keeps)

lemma changes_only_rule_eMAG [keeps]:
  "changes_only B I s0 s \<Longrightarrow> {AvoidUnalignedAccesses, UseSIMDForMemoryOps, UseSIMDForArrayEquals} \<subseteq> B \<Longrightarrow>
   changes_only B I s0 (rule_eMAG e s)"
  unfolding rule_eMAG_def by (auto intro!: keeps)

lemma changes_only_rule_Ampere [keeps]:
  "changes_only B I s0 s \<Longrightarrow> {UseSIMDForMemoryOps, UseSignumIntrinsic} \<subseteq> B \<Longrightarrow> {OnSpinWaitInstCount} \<subseteq> I \<Longrightarrow>
   changes_only B I s0 (rule_Ampere e s)"
  unfolding rule_Ampere_def by (auto intro!: keeps)

lemma changes_only_rule_ThunderX2 [keeps]:
  "changes_only B I s0 s \<Longrightarrow> {AvoidUnalignedAccesses, UseSIMDForMemoryOps} \<subseteq> B \<Longrightarrow>
   changes_only B I s0 (rule_ThunderX2 s)"
  unfolding rule_ThunderX2_def by (auto intro!: keeps)

lemma changes_only_rule_TSV110 [keeps]:
  "changes_only B I s0 s \<Longrightarrow> {AvoidUnalignedAccesses, UseSIMDForMemoryOps} \<subseteq> B \<Longrightarrow>
   changes_only B I s0 (rule_TSV110 s)"
  unfolding rule_TSV110_def by (auto intro!: keeps)

lemma changes_only_rule_A53 [keeps]:
  "changes_only B I s0 s \<Longrightarrow> {UseSIMDForArrayEquals} \<subseteq> B \<Longrightarrow>
   changes_only B I s0 (rule_A53 s)"
  unfolding rule_A53_def by (auto intro!: keeps)

lemma changes_only_rule_A73 [keeps]:
  "changes_only B I s0 s \<Longrightarrow> {UseSimpleArrayEquals} \<subseteq> B \<Longrightarrow> {SoftwarePrefetchHintDistance} \<subseteq> I \<Longrightarrow>
   changes_only B I s0 (rule_A73 s)"
  unfolding rule_A73_def by (auto intro!: keeps)

lemma changes_only_rule_Neoverse [keeps]:
  "changes_only B I s0 s \<Longrightarrow> {UseSIMDForMemoryOps} \<subseteq> B \<Longrightarrow> {OnSpinWaitInstCount} \<subseteq> I \<Longrightarrow>
   changes_only B I s0 (rule_Neoverse s)"
  unfolding rule_Neoverse_def by (auto intro!: keeps)

lemma changes_only_rule_ARM_signum [keeps]:
  "changes_only B I s0 s \<Longrightarrow> {UseSignumIntrinsic} \<subseteq> B \<Longrightarrow>
   changes_only B I s0 (rule_ARM_signum s)"
  unfolding rule_ARM_signum_def by (auto intro!: keeps)

lemma changes_only_rule_STXR_PREFETCH [keeps]:
  "changes_only B I s0 s \<Longrightarrow>
   changes_only B I s0 (rule_STXR_PREFETCH s)"
  unfolding rule_STXR_PREFETCH_def by (auto intro!: keeps)

lemma changes_only_vendor_rules_after_ThunderX [keeps]:
  "changes_only B I s0 s \<Longrightarrow> {AvoidUnalignedAccesses, UseSIMDForMemoryOps, UseSIMDForArrayEquals, UseSimpleArrayEquals, UseSignumIntrinsic} \<subseteq> B \<Longrightarrow> {SoftwarePrefetchHintDistance, OnSpinWaitInstCount} \<subseteq> I \<Longrightarrow>
   changes_only B I s0 (vendor_rules_after_ThunderX s)"
  unfolding vendor_rules_after_ThunderX_def by (auto intro!: keeps)

lemma changes_only_default_UseCRC32 [keeps]:
  "changes_only B I s0 s \<Longrightarrow> {UseCRC32} \<subseteq> B \<Longrightarrow>
   changes_only B I s0 (default_UseCRC32 s)"
  unfolding default_UseCRC32_def by (auto intro!: keeps)

lemma changes_only_check_UseCRC32 [keeps]:
  "changes_only B I s0 s \<Longrightarrow> {UseCRC32} \<subseteq> B \<Longrightarrow>
   changes_only B I s0 (check_UseCRC32 s)"
  unfolding check_UseCRC32_def by (auto intro!: keeps)

lemma changes_only_rule_UseCRC32 [keeps]:
  "changes_only B I s0 s \<Longrightarrow> {UseCRC32} \<subseteq> B \<Longrightarrow>
   changes_only B I s0 (rule_UseCRC32 s)"
  unfolding rule_UseCRC32_def by (auto intro!: keeps)

lemma changes_only_rule_UseLSE [keeps]:
  "changes_only B I s0 s \<Longrightarrow> {UseLSE} \<subseteq> B \<Longrightarrow>
   changes_only B I s0 (rule_UseLSE s)"
  unfolding rule_UseLSE_def by (auto intro!: keeps)

lemma changes_only_enable_UseAES [keeps]:
  "changes_only B I s0 s \<Longrightarrow> {UseAES} \<subseteq> B \<Longrightarrow>
   changes_only B I s0 (enable_UseAES s)"
  unfolding enable_UseAES_def by (auto intro!: keeps)

lemma changes_only_enable_UseAESIntrinsics [keeps]:
  "changes_only B I s0 s \<Longrightarrow> {UseAESIntrinsics} \<subseteq> B \<Longrightarrow>
   changes_only B I s0 (enable_UseAESIntrinsics s)"
  unfolding enable_UseAESIntrinsics_def by (auto intro!: keeps)

lemma changes_only_force_UseAES [keeps]:
  "changes_only B I s0 s \<Longrightarrow> {UseAES} \<subseteq> B \<Longrightarrow>
   changes_only B I s0 (force_UseAES s)"
  unfolding force_UseAES_def by (auto intro!: keeps)

lemma changes_only_rule_AES [keeps]:
  "changes_only B I s0 s \<Longrightarrow> {UseAES, UseAESIntrinsics, UseAESCTRIntrinsics} \<subseteq> B \<Longrightarrow>
   changes_only B I s0 (rule_AES s)"
  unfolding rule_AES_def by (auto intro!: keeps)

lemma changes_only_rule_UseCRC32CIntrinsics [keeps]:
  "changes_only B I s0 s \<Longrightarrow> {UseCRC32CIntrinsics} \<subseteq> B \<Longrightarrow>
   changes_only B I s0 (rule_UseCRC32CIntrinsics s)"
  unfolding rule_UseCRC32CIntrinsics_def by (auto intro!: keeps)

lemma changes_only_rule_UseSHA [keeps]:
  "changes_only B I s0 s \<Longrightarrow> {UseSHA} \<subseteq> B \<Longrightarrow>
   changes_only B I s0 (rule_UseSHA s)"
  unfolding rule_UseSHA_def by (auto intro!: keeps)

lemma changes_only_rule_UseSHA1Intrinsics [keeps]:
  "changes_only B I s0 s \<Longrightarrow> {UseSHA1Intrinsics} \<subseteq> B \<Longrightarrow>
   changes_only B I s0 (rule_UseSHA1Intrinsics s)"
  unfolding rule_UseSHA1Intrinsics_def by (auto intro!: keeps)

lemma changes_only_rule_UseSHA256Intrinsics [keeps]:
  "changes_only B I s0 s \<Longrightarrow> {UseSHA256Intrinsics} \<subseteq> B \<Longrightarrow>
   changes_only B I s0 (rule_UseSHA256Intrinsics s)"
  unfolding rule_UseSHA256Intrinsics_def by (auto intro!: keeps)

lemma changes_only_rule_UseSHA3Intrinsics [keeps]:
  "changes_only B I s0 s \<Longrightarrow> {UseSHA3Intrinsics} \<subseteq> B \<Longrightarrow>
   changes_only B I s0 (rule_UseSHA3Intrinsics s)"
  unfolding rule_UseSHA3Intrinsics_def by (auto intro!: keeps)

lemma changes_only_rule_UseSHA512Intrinsics [keeps]:
  "changes_only B I s0 s \<Longrightarrow> {UseSHA512Intrinsics} \<subseteq> B \<Longrightarrow>
   changes_only B I s0 (rule_UseSHA512Intrinsics s)"
  unfolding rule_UseSHA512Intrinsics_def by (auto intro!: keeps)

lemma changes_only_reset_UseSHA [keeps]:
  "changes_only B I s0 s \<Longrightarrow> {UseSHA} \<subseteq> B \<Longrightarrow>
   changes_only B I s0 (reset_UseSHA s)"
  unfolding reset_UseSHA_def by (auto intro!: keeps)

lemma changes_only_rule_UseGHASHIntrinsics [keeps]:
  "changes_only B I s0 s \<Longrightarrow> {UseGHASHIntrinsics} \<subseteq> B \<Longrightarrow>
   changes_only B I s0 (rule_UseGHASHIntrinsics s)"
  unfolding rule_UseGHASHIntrinsics_def by (auto intro!: keeps)

lemma changes_only_rule_UseBlockZeroing [keeps]:
  "changes_only B I s0 s \<Longrightarrow> {UseBlockZeroing} \<subseteq> B \<Longrightarrow> {BlockZeroingLowLimit} \<subseteq> I \<Longrightarrow>
   changes_only B I s0 (rule_UseBlockZeroing e s)"
  unfolding rule_UseBlockZeroing_def by (auto intro!: keeps)

lemma changes_only_feature_rules [keeps]:
  "changes_only B I s0 s \<Longrightarrow> {UseCRC32, UseAdler32Intrinsics, UseVectorizedMismatchIntrinsic, UseLSE, UseAES, UseAESIntrinsics, UseAESCTRIntrinsics, UseCRC32Intrinsics, UseCRC32CIntrinsics, UseFMA, UseMD5Intrinsics, UseSHA, UseSHA1Intrinsics, UseSHA256Intrinsics, UseSHA3Intrinsics, UseSHA512Intrinsics, UseGHASHIntrinsics, UseBASE64Intrinsics, UseBlockZeroing} \<subseteq> B \<Longrightarrow> {BlockZeroingLowLimit} \<subseteq> I \<Longrightarrow>
   changes_only B I s0 (feature_rules e s)"
  unfolding feature_rules_def by (auto intro!: keeps)

lemma changes_only_rule_UseSVE [keeps]:
  "changes_only B I s0 s \<Longrightarrow> {UseSVE} \<subseteq> I \<Longrightarrow>
   changes_only B I s0 (rule_UseSVE s)"
  unfolding rule_UseSVE_def by (auto intro!: keeps)

lemma changes_only_detect_sve_vector_length [keeps]:
  "changes_only B I s0 s \<Longrightarrow> {UseSVE} \<subseteq> I \<Longrightarrow>
   changes_only B I s0 (detect_sve_vector_length e s)"
  unfolding detect_sve_vector_length_def by (auto intro!: keeps)

lemma changes_only_force_UsePopCountInstruction [keeps]:
  "changes_only B I s0 s \<Longrightarrow> {UsePopCountInstruction} \<subseteq> B \<Longrightarrow>
   changes_only B I s0 (force_UsePopCountInstruction s)"
  unfolding force_UsePopCountInstruction_def by (auto intro!: keeps)

lemma changes_only_rule_UsePopCountInstruction [keeps]:
  "changes_only B I s0 s \<Longrightarrow> {UsePopCountInstruction} \<subseteq> B \<Longrightarrow>
   changes_only B I s0 (rule_UsePopCountInstruction s)"
  unfolding rule_UsePopCountInstruction_def by (auto intro!: keeps)

lemma changes_only_flag_rules [keeps]:
  "changes_only B I s0 s \<Longrightarrow> {UseCRC32, UseAdler32Intrinsics, UseVectorizedMismatchIntrinsic, UseLSE, UseAES, UseAESIntrinsics, UseAESCTRIntrinsics, UseCRC32Intrinsics, UseCRC32CIntrinsics, UseFMA, UseMD5Intrinsics, UseSHA, UseSHA1Intrinsics, UseSHA256Intrinsics, UseSHA3Intrinsics, UseSHA512Intrinsics, UseGHASHIntrinsics, UseBASE64Intrinsics, UseBlockZeroing, UseUnalignedAccesses, UsePopCountInstruction} \<subseteq> B \<Longrightarrow> {BlockZeroingLowLimit, UseSVE} \<subseteq> I \<Longrightarrow>
   changes_only B I s0 (flag_rules e s)"
  unfolding flag_rules_def by (auto intro!: keeps)

lemma changes_only_c2_intrinsics [keeps]:
  "changes_only B I s0 s \<Longrightarrow> {UseMultiplyToLenIntrinsic, UseSquareToLenIntrinsic, UseMulAddIntrinsic, UseMontgomeryMultiplyIntrinsic, UseMontgomerySquareIntrinsic} \<subseteq> B \<Longrightarrow>
   changes_only B I s0 (c2_intrinsics s)"
  unfolding c2_intrinsics_def by (auto intro!: keeps)

lemma changes_only_default_AlignVector [keeps]:
  "changes_only B I s0 s \<Longrightarrow> {AlignVector} \<subseteq> B \<Longrightarrow>
   changes_only B I s0 (default_AlignVector s)"
  unfolding default_AlignVector_def by (auto intro!: keeps)

lemma changes_only_c2_tail [keeps]:
  "changes_only B I s0 s \<Longrightarrow> {OptoScheduling, AlignVector} \<subseteq> B \<Longrightarrow>
   changes_only B I s0 (c2_tail s)"
  unfolding c2_tail_def by (auto intro!: keeps)

lemma changes_only_UNSUPPORTED_OPTION [keeps]:
  "changes_only B I s0 s \<Longrightarrow> k \<in> B \<Longrightarrow>
   changes_only B I s0 (UNSUPPORTED_OPTION k m s)"
  unfolding UNSUPPORTED_OPTION_def by (auto intro!: keeps)

lemma changes_only_and_then:
  "changes_only B I s0 (final_state r) \<Longrightarrow>
   (\<And>s. changes_only B I s0 s \<Longrightarrow> changes_only B I s0 (final_state (f s))) \<Longrightarrow>
   changes_only B I s0 (final_state (and_then r f))"
  by (cases r) auto

lemma changes_only_rule_ThunderX:
  "changes_only B I s0 s \<Longrightarrow>
   {AvoidUnalignedAccesses, UseSIMDForMemoryOps, UseSIMDForArrayEquals} \<subseteq> B \<Longrightarrow>
   changes_only B I s0 (final_state (rule_ThunderX s))"
  unfolding rule_ThunderX_def by (auto intro!: keeps)

lemma changes_only_vendor_rules:
  "changes_only B I s0 s \<Longrightarrow>
   {AvoidUnalignedAccesses, UseSIMDForMemoryOps, UseSIMDForArrayEquals, UseSimpleArrayEquals,
    UseSignumIntrinsic} \<subseteq> B \<Longrightarrow>
   {SoftwarePrefetchHintDistance, OnSpinWaitInstCount} \<subseteq> I \<Longrightarrow>
   changes_only B I s0 (final_state (vendor_rules e s))"
  unfolding vendor_rules_def
  by (intro changes_only_and_then changes_only_rule_ThunderX) (auto intro!: keeps)

lemma changes_only_MaxVectorSize_sve:
  "changes_only B I s0 s \<Longrightarrow> {UseSVE, MaxVectorSize} \<subseteq> I \<Longrightarrow>
   changes_only B I s0 (final_state (MaxVectorSize_sve e s))"
  unfolding MaxVectorSize_sve_def by (auto simp: Let_def intro!: keeps)

lemma changes_only_MaxVectorSize_neon:
  "changes_only B I s0 s \<Longrightarrow> {MaxVectorSize} \<subseteq> I \<Longrightarrow>
   changes_only B I s0 (final_state (MaxVectorSize_neon s))"
  unfolding MaxVectorSize_neon_def by (auto intro!: keeps)

lemma changes_only_c2_rules:
  "changes_only B I s0 s \<Longrightarrow>
   {UseMultiplyToLenIntrinsic, UseSquareToLenIntrinsic, UseMulAddIntrinsic,
    UseMontgomeryMultiplyIntrinsic, UseMontgomerySquareIntrinsic, OptoScheduling,
    AlignVector} \<subseteq> B \<Longrightarrow>
   {UseSVE, MaxVectorSize} \<subseteq> I \<Longrightarrow>
   changes_only B I s0 (final_state (c2_rules e s))"
  unfolding c2_rules_def
  by (auto intro!: changes_only_and_then changes_only_MaxVectorSize_sve
        changes_only_MaxVectorSize_neon keeps)

lemma changes_only_set_spin_wait:
  "changes_only B I s0 s \<Longrightarrow> changes_only B I s0 (final_state (set_spin_wait s))"
  unfolding set_spin_wait_def get_spin_wait_desc_def by (auto intro!: keeps)

lemma changes_only_scan_lines:
  "changes_only B I s0 s \<Longrightarrow> changes_only B I s0 (snd (scan_lines virt1 vt1 virt2 vt2 ls s))"
  by (induction ls) (auto intro!: keeps)

lemma changes_only_check_info_file:
  "changes_only B I s0 s \<Longrightarrow>
   changes_only B I s0 (snd (check_info_file e fpath virt1 vt1 virt2 vt2 s))"
  unfolding check_info_file_def
  by (auto split: option.splits intro!: changes_only_scan_lines keeps)

lemma changes_only_check_virtualizations [keeps]:
  "changes_only B I s0 s \<Longrightarrow> changes_only B I s0 (check_virtualizations e s)"
proof -
  assume a: "changes_only B I s0 s"
  have 1: "changes_only B I s0
             (snd (check_info_file e pname_file ''KVM'' KVM (Some ''VMWare'') VMWare s))"
    using a by (rule changes_only_check_info_file)
  show ?thesis
    unfolding check_virtualizations_def
    using a 1
    by (auto split: prod.splits bool.splits intro!: changes_only_check_info_file)
qed

lemma changes_only_finish [keeps]:
  "changes_only B I s0 s \<Longrightarrow> {CriticalJNINatives} \<subseteq> B \<Longrightarrow>
   changes_only B I s0 (finish e s)"
  unfolding finish_def by (auto intro!: keeps)

lemma changes_only_initialize:
  "changes_only UNIV UNIV s (final_state (initialize e s))"
  unfolding initialize_def
  by (intro changes_only_and_then changes_only_vendor_rules changes_only_c2_rules
        changes_only_set_spin_wait)
     (auto intro!: keeps)

lemma initialize_InrE:
  assumes "initialize e s = Inr s'"
  obtains s1 s2 s3 where
    "vendor_rules e (prefetch_rules e s) = Inr s1"
    "c2_rules e (flag_rules e s1) = Inr s2"
    "set_spin_wait s2 = Inr s3"
    "s' = finish e s3"
proof (cases "vendor_rules e (prefetch_rules e s)")
  case (Inl x)
  with assms show ?thesis by (simp add: initialize_def)
next
  case s1: (Inr s1)
  show ?thesis
  proof (cases "c2_rules e (flag_rules e s1)")
    case (Inl x)
    with assms s1 show ?thesis by (simp add: initialize_def)
  next
    case s2: (Inr s2)
    show ?thesis
    proof (cases "set_spin_wait s2")
      case (Inl x)
      with assms s1 s2 show ?thesis by (simp add: initialize_def)
    next
      case (Inr s3)
      with assms s1 s2 that show ?thesis by (simp add: initialize_def)
    qed
  qed
qed

lemma initialize_InlE:
  assumes "initialize e s = Inl x"
  obtains
    (vendor) "vendor_rules e (prefetch_rules e s) = Inl x"
  | (c2) s1 where "vendor_rules e (prefetch_rules e s) = Inr s1"
      "c2_rules e (flag_rules e s1) = Inl x"
  | (spin) s1 s2 where "vendor_rules e (prefetch_rules e s) = Inr s1"
      "c2_rules e (flag_rules e s1) = Inr s2" "set_spin_wait s2 = Inl x"
proof (cases "vendor_rules e (prefetch_rules e s)")
  case (Inl y)
  with assms vendor show ?thesis by (simp add: initialize_def)
next
  case s1: (Inr s1)
  show ?thesis
  proof (cases "c2_rules e (flag_rules e s1)")
    case (Inl y)
    with assms s1 c2 show ?thesis by (simp add: initialize_def)
  next
    case s2: (Inr s2)
    show ?thesis
    proof (cases "set_spin_wait s2")
      case (Inl y)
      with assms s1 s2 spin show ?thesis by (simp add: initialize_def)
    next
      case (Inr s3)
      with assms s1 s2 show ?thesis by (simp add: initialize_def)
    qed
  qed
qed

subsection \<open>How the flags flow through \<open>initialize\<close>\<close>

lemma changes_only_trans:
  assumes st: "changes_only B I s t" and tu: "changes_only B' I' t u"
  shows "changes_only (B \<union> B') (I \<union> I') s u"
proof -
  from st have s1: "features s \<subseteq> features t"
    "features t \<subseteq> features s \<union> {CPU_A53MAC, CPU_STXR_PREFETCH}"
    "set (warnings s) \<subseteq> set (warnings t)" "b_default t = b_default s"
    and s2: "\<And>k. \<not> b_default s k \<Longrightarrow> \<not> bflag s k \<Longrightarrow> k \<noteq> UsePopCountInstruction \<Longrightarrow>
      k \<noteq> UseAES \<Longrightarrow> \<not> bflag t k"
    unfolding changes_only_def by simp_all
  from tu have t1: "features t \<subseteq> features u"
    "features u \<subseteq> features t \<union> {CPU_A53MAC, CPU_STXR_PREFETCH}"
    "set (warnings t) \<subseteq> set (warnings u)"
    and t2: "\<And>k. \<not> b_default t k \<Longrightarrow> \<not> bflag t k \<Longrightarrow> k \<noteq> UsePopCountInstruction \<Longrightarrow>
      k \<noteq> UseAES \<Longrightarrow> \<not> bflag u k"
    unfolding changes_only_def by simp_all
  have 1: "features s \<subseteq> features u"
    using s1(1) t1(1) by (rule subset_trans)
  have 2: "features u \<subseteq> features s \<union> {CPU_A53MAC, CPU_STXR_PREFETCH}"
    using s1(2) t1(2) by blast
  have 3: "set (warnings s) \<subseteq> set (warnings u)"
    using s1(3) t1(3) by (rule subset_trans)
  have 4: "\<forall>k. \<not> b_default s k \<and> \<not> bflag s k \<and> k \<noteq> UsePopCountInstruction \<and> k \<noteq> UseAES
          \<longrightarrow> \<not> bflag u k"
    using s2 t2 s1(4) by simp
  from st tu have 5: "\<forall>k. k \<notin> B \<union> B' \<longrightarrow> bflag u k = bflag s k"
    "\<forall>k. k \<notin> I \<union> I' \<longrightarrow> iflag u k = iflag s k"
    "UseSVE \<notin> I \<union> I' \<longrightarrow> initial_sve_vector_length u = initial_sve_vector_length s"
    unfolding changes_only_def by simp_all
  from st tu have 7: "OnSpinWaitInst u = OnSpinWaitInst s \<or>
      OnSpinWaitInst_default s \<and> OnSpinWaitInst u = ''isb''"
    unfolding changes_only_def by auto
  from st tu have 6: "cpu u = cpu s" "model u = model s" "model2 u = model2 s"
    "variant u = variant s" "revision u = revision s" "b_default u = b_default s"
    "i_default u = i_default s" "OnSpinWaitInst_default u = OnSpinWaitInst_default s"
    "b_cmdline u = b_cmdline s"
    unfolding changes_only_def by simp_all
  from 1 2 3 4 5 6 7 show ?thesis
    unfolding changes_only_def by (intro conjI)
qed

lemma before_flag_rules:
  assumes "vendor_rules e (prefetch_rules e s) = Inr s1"
  shows "changes_only
     {AvoidUnalignedAccesses, UseSIMDForMemoryOps, UseSIMDForArrayEquals, UseSimpleArrayEquals,
      UseSignumIntrinsic}
     {AllocatePrefetchDistance, AllocatePrefetchStepSize, PrefetchScanIntervalInBytes,
      PrefetchCopyIntervalInBytes, SoftwarePrefetchHintDistance, ContendedPaddingWidth,
      OnSpinWaitInstCount} s s1"
proof -
  have "changes_only
     {AvoidUnalignedAccesses, UseSIMDForMemoryOps, UseSIMDForArrayEquals, UseSimpleArrayEquals,
      UseSignumIntrinsic}
     {AllocatePrefetchDistance, AllocatePrefetchStepSize, PrefetchScanIntervalInBytes,
      PrefetchCopyIntervalInBytes, SoftwarePrefetchHintDistance, ContendedPaddingWidth,
      OnSpinWaitInstCount} s (final_state (vendor_rules e (prefetch_rules e s)))"
    by (intro changes_only_vendor_rules) (auto intro!: keeps)
  with assms show ?thesis by simp
qed

section \<open>The claims\<close>

subsection \<open>C6: the spin-wait descriptor\<close>

text \<open>
  C6. \<open>get_spin_wait_desc\<close> ends the process for any \<open>OnSpinWaitInst\<close> other than
  \<open>nop\<close>, \<open>isb\<close>, \<open>yield\<close>, \<open>none\<close>, with the message that names the four options; it
  ends the process when \<open>OnSpinWaitInst\<close> is \<open>none\<close> while \<open>OnSpinWaitInstCount\<close> was set
  explicitly to a positive value; and for \<open>nop\<close> it returns the descriptor of \<open>NOP\<close> with
  the current value of \<open>OnSpinWaitInstCount\<close>, whatever that value is and whether or not
  the count was left at its default (so the count is 0 only if the flag holds 0).
\<close>

theorem get_spin_wait_desc_contract:
  "(OnSpinWaitInst s \<notin> {''nop'', ''isb'', ''yield'', ''none''} \<longrightarrow>
      get_spin_wait_desc s =
        Inl (Vm_exit (''The options for OnSpinWaitInst are nop, isb, yield, and none'',
                      [Arg_str (OnSpinWaitInst s)]), s)) \<and>
   (OnSpinWaitInst s = ''none'' \<and> \<not> i_default s OnSpinWaitInstCount \<and>
    0 < iflag s OnSpinWaitInstCount \<longrightarrow>
      get_spin_wait_desc s =
        Inl (Vm_exit (''OnSpinWaitInstCount cannot be used for OnSpinWaitInst ''
                        @ [CHR 0x27] @ ''none'' @ [CHR 0x27], []), s)) \<and>
   (OnSpinWaitInst s = ''nop'' \<longrightarrow>
      get_spin_wait_desc s = Inr \<lparr>inst = NOP, inst_count = iflag s OnSpinWaitInstCount\<rparr>)"
  by (simp add: get_spin_wait_desc_def)

theorem get_spin_wait_desc_contract_witness:
  "get_spin_wait_desc (plain_state\<lparr>OnSpinWaitInst := ''pause''\<rparr>) =
     Inl (Vm_exit (''The options for OnSpinWaitInst are nop, isb, yield, and none'',
                   [Arg_str ''pause'']), plain_state\<lparr>OnSpinWaitInst := ''pause''\<rparr>) \<and>
   get_spin_wait_desc
     (plain_state\<lparr>iflag := (iflag plain_state)(OnSpinWaitInstCount := 2),
                  i_default := (i_default plain_state)(OnSpinWaitInstCount := False)\<rparr>) =
     Inl (Vm_exit (''OnSpinWaitInstCount cannot be used for OnSpinWaitInst ''
                     @ [CHR 0x27] @ ''none'' @ [CHR 0x27], []),
          plain_state\<lparr>iflag := (iflag plain_state)(OnSpinWaitInstCount := 2),
                      i_default := (i_default plain_state)(OnSpinWaitInstCount := False)\<rparr>) \<and>
   get_spin_wait_desc (plain_state\<lparr>OnSpinWaitInst := ''nop''\<rparr>) =
     Inr \<lparr>inst = NOP, inst_count = 0\<rparr>"
  using get_spin_wait_desc_contract [of "plain_state\<lparr>OnSpinWaitInst := ''pause''\<rparr>"]
    get_spin_wait_desc_contract
      [of "plain_state\<lparr>iflag := (iflag plain_state)(OnSpinWaitInstCount := 2),
                       i_default := (i_default plain_state)(OnSpinWaitInstCount := False)\<rparr>"]
    get_spin_wait_desc_contract [of "plain_state\<lparr>OnSpinWaitInst := ''nop''\<rparr>"]
  by (simp add: plain_state_def)

text \<open>
  The claim as stated (count left at default, hence descriptor \<open>{NOP, 0}\<close>) fails. On a
  Neoverse N1 (\<open>CPU_ARM\<close>, model \<open>0xd0c\<close>) with \<open>-XX:OnSpinWaitInst=nop\<close> and the count not
  given, the vendor rule stores 1 in the count, which stays ``at default'', and
  \<open>initialize\<close> ends with the descriptor \<open>{NOP, 1}\<close>; likewise \<open>get_spin_wait_desc\<close> itself
  on a state whose count is at default and holds 1.
\<close>

theorem spin_wait_nop_count_counterexample:
  "i_default (plain_state\<lparr>cpu := CPU_ARM, model := 0xd0c, OnSpinWaitInst := ''nop'',
                          OnSpinWaitInst_default := False\<rparr>) OnSpinWaitInstCount \<and>
   \<not> isl (initialize plain_env
            (plain_state\<lparr>cpu := CPU_ARM, model := 0xd0c, OnSpinWaitInst := ''nop'',
                         OnSpinWaitInst_default := False\<rparr>)) \<and>
   spin_wait (projr (initialize plain_env
            (plain_state\<lparr>cpu := CPU_ARM, model := 0xd0c, OnSpinWaitInst := ''nop'',
                         OnSpinWaitInst_default := False\<rparr>))) = \<lparr>inst = NOP, inst_count = 1\<rparr> \<and>
   i_default (plain_state\<lparr>OnSpinWaitInst := ''nop'',
                  iflag := (iflag plain_state)(OnSpinWaitInstCount := 1)\<rparr>) OnSpinWaitInstCount \<and>
   get_spin_wait_desc
     (plain_state\<lparr>OnSpinWaitInst := ''nop'',
                  iflag := (iflag plain_state)(OnSpinWaitInstCount := 1)\<rparr>) \<noteq>
     Inr \<lparr>inst = NOP, inst_count = 0\<rparr>"
  by (simp add: run_defs)

subsection \<open>C8: the virtualization probe\<close>

lemma scan_lines_found:
  "List.find (\<lambda>l. strcasestr l virt1 \<or> (virt2 \<noteq> None \<and> strcasestr l (the virt2))) ls = Some l \<Longrightarrow>
   scan_lines virt1 vt1 virt2 vt2 ls s =
     (True, s\<lparr>detected_virtualization := (if strcasestr l virt1 then vt1 else vt2)\<rparr>)"
  by (induction ls) (auto split: if_splits)

lemma scan_lines_not_found:
  "List.find (\<lambda>l. strcasestr l virt1 \<or> (virt2 \<noteq> None \<and> strcasestr l (the virt2))) ls = None \<Longrightarrow>
   scan_lines virt1 vt1 virt2 vt2 ls s = (False, s)"
  by (induction ls) (auto split: if_splits)

lemma check_info_file_found:
  "fgets_lines e fpath = Some ls \<Longrightarrow>
   List.find (\<lambda>l. strcasestr l virt1 \<or> (virt2 \<noteq> None \<and> strcasestr l (the virt2))) ls = Some l \<Longrightarrow>
   check_info_file e fpath virt1 vt1 virt2 vt2 s =
     (True, s\<lparr>opened := opened s @ [fpath],
               detected_virtualization := (if strcasestr l virt1 then vt1 else vt2)\<rparr>)"
  by (simp add: check_info_file_def scan_lines_found)

lemma check_info_file_not_found:
  "fgets_lines e fpath = Some ls \<Longrightarrow>
   List.find (\<lambda>l. strcasestr l virt1 \<or> (virt2 \<noteq> None \<and> strcasestr l (the virt2))) ls = None \<Longrightarrow>
   check_info_file e fpath virt1 vt1 virt2 vt2 s = (False, s\<lparr>opened := opened s @ [fpath]\<rparr>)"
  by (simp add: check_info_file_def scan_lines_not_found)

lemma check_info_file_not_opened:
  "fgets_lines e fpath = None \<Longrightarrow>
   check_info_file e fpath virt1 vt1 virt2 vt2 s = (False, s\<lparr>opened := opened s @ [fpath]\<rparr>)"
  by (simp add: check_info_file_def)

lemma check_info_file_Xen:
  "check_info_file e tname_file ''Xen'' XenPVHVM None NoDetectedVirtualization s =
     (if \<exists>ls. fgets_lines e tname_file = Some ls \<and> (\<exists>l \<in> set ls. strcasestr l ''Xen'')
      then (True, s\<lparr>opened := opened s @ [tname_file], detected_virtualization := XenPVHVM\<rparr>)
      else (False, s\<lparr>opened := opened s @ [tname_file]\<rparr>))"
proof (cases "fgets_lines e tname_file")
  case None
  then show ?thesis by (simp add: check_info_file_not_opened)
next
  case (Some ls)
  show ?thesis
  proof (cases "List.find (\<lambda>l. strcasestr l ''Xen'' \<or> (None \<noteq> (None :: string option) \<and> strcasestr l (the None))) ls")
    case None
    then have "\<not> (\<exists>l \<in> set ls. strcasestr l ''Xen'')"
      by (auto simp: find_None_iff)
    with Some None show ?thesis
      by (simp add: check_info_file_not_found)
  next
    case (Some l)
    then have "l \<in> set ls" "strcasestr l ''Xen''"
      by (auto simp: find_Some_iff)
    with \<open>fgets_lines e tname_file = Some ls\<close> Some show ?thesis
      by (auto simp: check_info_file_found)
  qed
qed

text \<open>
  C8. \<open>check_virtualizations\<close> (on Linux): if some line of the product-name file contains
  \<open>KVM\<close> or \<open>VMWare\<close>, letters compared without regard to case, the verdict of the first
  such line is recorded (\<open>KVM\<close> is tested first on each line) and only the product-name
  file is opened, the hypervisor-type file never. Otherwise, which includes the
  product-name file failing to open, the hypervisor-type file is opened and searched for
  \<open>Xen\<close> alone; if it fails to open or has no such line, the verdict stays as it was.
  Nothing but the verdict and the log of opened files changes, and there is no error exit.
  A line is what one call of \<open>fgets\<close> delivers.
\<close>

theorem check_virtualizations_contract:
  "LINUX e \<Longrightarrow>
   (\<forall>ls. fgets_lines e pname_file = Some ls \<and>
         (\<exists>l \<in> set ls. strcasestr l ''KVM'' \<or> strcasestr l ''VMWare'') \<longrightarrow>
     (\<exists>l. List.find (\<lambda>l. strcasestr l ''KVM'' \<or> strcasestr l ''VMWare'') ls = Some l \<and>
       check_virtualizations e s =
         s\<lparr>opened := opened s @ [pname_file],
           detected_virtualization := (if strcasestr l ''KVM'' then KVM else VMWare)\<rparr>)) \<and>
   (fgets_lines e pname_file = None \<or>
     (\<exists>ls. fgets_lines e pname_file = Some ls \<and>
           (\<forall>l \<in> set ls. \<not> strcasestr l ''KVM'' \<and> \<not> strcasestr l ''VMWare'')) \<longrightarrow>
     check_virtualizations e s =
       (if \<exists>ls. fgets_lines e tname_file = Some ls \<and> (\<exists>l \<in> set ls. strcasestr l ''Xen'')
        then s\<lparr>opened := opened s @ [pname_file, tname_file],
               detected_virtualization := XenPVHVM\<rparr>
        else s\<lparr>opened := opened s @ [pname_file, tname_file]\<rparr>))"
proof (intro conjI allI impI)
  fix ls
  assume linux: "LINUX e"
    and h: "fgets_lines e pname_file = Some ls \<and>
            (\<exists>l \<in> set ls. strcasestr l ''KVM'' \<or> strcasestr l ''VMWare'')"
  then obtain l where
    l: "List.find (\<lambda>l. strcasestr l ''KVM'' \<or> strcasestr l ''VMWare'') ls = Some l"
    by (cases "List.find (\<lambda>l. strcasestr l ''KVM'' \<or> strcasestr l ''VMWare'') ls")
       (auto simp: find_None_iff)
  then have "List.find (\<lambda>l. strcasestr l ''KVM'' \<or>
               (Some ''VMWare'' \<noteq> None \<and> strcasestr l (the (Some ''VMWare'')))) ls = Some l"
    by simp
  with h have "check_info_file e pname_file ''KVM'' KVM (Some ''VMWare'') VMWare s =
     (True, s\<lparr>opened := opened s @ [pname_file],
               detected_virtualization := (if strcasestr l ''KVM'' then KVM else VMWare)\<rparr>)"
    by (intro check_info_file_found) auto
  with linux l
  show "\<exists>l. List.find (\<lambda>l. strcasestr l ''KVM'' \<or> strcasestr l ''VMWare'') ls = Some l \<and>
       check_virtualizations e s =
         s\<lparr>opened := opened s @ [pname_file],
           detected_virtualization := (if strcasestr l ''KVM'' then KVM else VMWare)\<rparr>"
    by (simp add: check_virtualizations_def)
next
  assume linux: "LINUX e"
    and h: "fgets_lines e pname_file = None \<or>
     (\<exists>ls. fgets_lines e pname_file = Some ls \<and>
           (\<forall>l \<in> set ls. \<not> strcasestr l ''KVM'' \<and> \<not> strcasestr l ''VMWare''))"
  have "check_info_file e pname_file ''KVM'' KVM (Some ''VMWare'') VMWare s =
          (False, s\<lparr>opened := opened s @ [pname_file]\<rparr>)"
  proof (cases "fgets_lines e pname_file")
    case None
    then show ?thesis by (simp add: check_info_file_not_opened)
  next
    case (Some ls)
    with h have "List.find (\<lambda>l. strcasestr l ''KVM'' \<or>
               (Some ''VMWare'' \<noteq> None \<and> strcasestr l (the (Some ''VMWare'')))) ls = None"
      by (auto simp: find_None_iff)
    with Some show ?thesis by (intro check_info_file_not_found)
  qed
  with linux
  show "check_virtualizations e s =
       (if \<exists>ls. fgets_lines e tname_file = Some ls \<and> (\<exists>l \<in> set ls. strcasestr l ''Xen'')
        then s\<lparr>opened := opened s @ [pname_file, tname_file],
               detected_virtualization := XenPVHVM\<rparr>
        else s\<lparr>opened := opened s @ [pname_file, tname_file]\<rparr>)"
    by (auto simp: check_virtualizations_def check_info_file_Xen)
qed

lemmas str_defs = strcasestr_def tolower_def sublist_Cons_right

theorem check_virtualizations_contract_witness:
  "LINUX plain_env \<and>
   check_virtualizations (plain_env\<lparr>fgets_lines := (\<lambda>p. Some [''Standard PC'', ''kvm'', ''xen''])\<rparr>)
       plain_state =
     plain_state\<lparr>opened := [pname_file], detected_virtualization := KVM\<rparr> \<and>
   check_virtualizations plain_env plain_state =
     plain_state\<lparr>opened := [pname_file, tname_file]\<rparr>"
  using
    check_virtualizations_contract
      [of "plain_env\<lparr>fgets_lines := (\<lambda>p. Some [''Standard PC'', ''kvm'', ''xen''])\<rparr>" plain_state]
    check_virtualizations_contract [of plain_env plain_state]
  by (simp add: str_defs plain_env_def plain_state_def)

subsection \<open>C4: pre-release ThunderX hardware\<close>

lemma and_then_Inr_eq_Inl:
  "and_then r (\<lambda>s. Inr (f s)) = Inl x \<longleftrightarrow> r = Inl x"
  by (cases r) auto

lemma vendor_rules_Inl:
  assumes "vendor_rules e s = Inl (err, st)"
  shows "err = Guarantee_failed ''Pre-release hardware no longer supported.'' \<and>
   cpu s = CPU_CAVIUM \<and> model s = 0xA1 \<and> variant s = 0 \<and> st = s"
proof -
  define t where "t = in_order [rule_eMAG e, rule_Ampere e] s"
  have "changes_only UNIV UNIV s t"
    unfolding t_def by (auto intro!: keeps)
  then have id: "cpu t = cpu s" "model t = model s" "variant t = variant s"
    by (auto simp: changes_only_def)
  from assms have "rule_ThunderX t = Inl (err, st)"
    by (simp add: vendor_rules_def t_def and_then_Inr_eq_Inl)
  then have 1: "err = Guarantee_failed ''Pre-release hardware no longer supported.''"
    "cpu t = CPU_CAVIUM" "model t = 0xA1" "variant t = 0" "st = t"
    by (auto simp: rule_ThunderX_def split: if_splits)
  from 1 id have c: "cpu s = CPU_CAVIUM" "model s = 0xA1" "variant s = 0"
    by simp_all
  from c(1) have "t = s"
    by (simp add: t_def rule_eMAG_def rule_Ampere_def)
  with 1 c show ?thesis by simp
qed

lemma vendor_rules_prerelease:
  "cpu s = CPU_CAVIUM \<Longrightarrow> model s = 0xA1 \<Longrightarrow> variant s = 0 \<Longrightarrow>
   vendor_rules e s = Inl (Guarantee_failed ''Pre-release hardware no longer supported.'', s)"
  unfolding vendor_rules_def rule_ThunderX_def rule_eMAG_def rule_Ampere_def
  by simp

lemma c2_rules_Inl:
  "c2_rules e s = Inl (err, st) \<Longrightarrow> \<exists>m. err = Vm_exit m"
  unfolding c2_rules_def MaxVectorSize_sve_def MaxVectorSize_neon_def
  by (auto simp: Let_def split: if_splits)

lemma set_spin_wait_Inl:
  "set_spin_wait s = Inl (err, st) \<Longrightarrow> \<exists>m. err = Vm_exit m"
  unfolding set_spin_wait_def get_spin_wait_desc_def
  by (auto split: if_splits)

lemma prefetch_rules_keeps:
  "changes_only {} UNIV s (prefetch_rules e s)"
  by (auto intro!: keeps)

text \<open>
  C4. \<open>initialize\<close> ends with the failed guarantee ``Pre-release hardware no longer
  supported.'' exactly when the vendor is Cavium, the model is \<open>0xA1\<close> and the variant is
  zero; no other vendor/model combination fails a guarantee, whatever its variant. At
  that exit none of the overrides of the rule (nor any other boolean flag) has been
  written: every boolean flag still has the value it had on entry.
\<close>

theorem ThunderX_prerelease_abort:
  "((\<exists>st. initialize e s =
           Inl (Guarantee_failed ''Pre-release hardware no longer supported.'', st)) \<longleftrightarrow>
      cpu s = CPU_CAVIUM \<and> model s = 0xA1 \<and> variant s = 0) \<and>
   (\<forall>m st. initialize e s = Inl (Guarantee_failed m, st) \<longrightarrow>
      m = ''Pre-release hardware no longer supported.'' \<and> bflag st = bflag s)"
proof -
  note k = prefetch_rules_keeps [of s e]
  have id: "cpu (prefetch_rules e s) = cpu s" "model (prefetch_rules e s) = model s"
    "variant (prefetch_rules e s) = variant s" "bflag (prefetch_rules e s) = bflag s"
    using k by (auto simp: changes_only_def)
  have fwd: "m = ''Pre-release hardware no longer supported.'' \<and> bflag st = bflag s \<and>
      cpu s = CPU_CAVIUM \<and> model s = 0xA1 \<and> variant s = 0"
    if "initialize e s = Inl (Guarantee_failed m, st)" for m st
    using that
  proof (cases rule: initialize_InlE)
    case vendor
    from vendor_rules_Inl [OF vendor] id show ?thesis by simp
  next
    case (c2 s1)
    from c2_rules_Inl [OF c2(2)] show ?thesis by simp
  next
    case (spin s1 s2)
    from set_spin_wait_Inl [OF spin(3)] show ?thesis by simp
  qed
  have bwd: "initialize e s =
      Inl (Guarantee_failed ''Pre-release hardware no longer supported.'', prefetch_rules e s)"
    if "cpu s = CPU_CAVIUM \<and> model s = 0xA1 \<and> variant s = 0"
    using that id by (simp add: initialize_def vendor_rules_prerelease)
  from fwd bwd show ?thesis by blast
qed

theorem ThunderX_prerelease_abort_witness:
  "initialize plain_env (plain_state\<lparr>cpu := CPU_CAVIUM, model := 0xA1\<rparr>) =
     Inl (Guarantee_failed ''Pre-release hardware no longer supported.'',
          plain_state\<lparr>cpu := CPU_CAVIUM, model := 0xA1,
            iflag := (iflag plain_state)
              (AllocatePrefetchDistance := 192, AllocatePrefetchStepSize := 64,
               PrefetchScanIntervalInBytes := 192, PrefetchCopyIntervalInBytes := 192,
               SoftwarePrefetchHintDistance := 192, ContendedPaddingWidth := 64)\<rparr>) \<and>
   \<not> isl (initialize plain_env (plain_state\<lparr>cpu := CPU_CAVIUM, model := 0xA1, variant := 1\<rparr>)) \<and>
   \<not> isl (initialize plain_env (plain_state\<lparr>cpu := CPU_CAVIUM, model := 0xAF\<rparr>))"
  using ThunderX_prerelease_abort [of plain_env "plain_state\<lparr>cpu := CPU_CAVIUM, model := 0xA1\<rparr>"]
  by (simp add: run_defs)

lemma after_c2_rules:
  assumes "set_spin_wait s2 = Inr s3"
  shows "changes_only {CriticalJNINatives} {} s2 (finish e s3)"
proof -
  have "changes_only {CriticalJNINatives} {} s2 (final_state (set_spin_wait s2))"
    by (intro changes_only_set_spin_wait) (auto intro!: keeps)
  with assms show ?thesis
    by (auto intro!: keeps)
qed

lemma after_flag_rules:
  assumes "c2_rules e t = Inr s2" "set_spin_wait s2 = Inr s3"
  shows "changes_only
     {UseMultiplyToLenIntrinsic, UseSquareToLenIntrinsic, UseMulAddIntrinsic,
      UseMontgomeryMultiplyIntrinsic, UseMontgomerySquareIntrinsic, OptoScheduling,
      AlignVector, CriticalJNINatives}
     {UseSVE, MaxVectorSize} t (finish e s3)"
proof -
  have "changes_only
     {UseMultiplyToLenIntrinsic, UseSquareToLenIntrinsic, UseMulAddIntrinsic,
      UseMontgomeryMultiplyIntrinsic, UseMontgomerySquareIntrinsic, OptoScheduling,
      AlignVector, CriticalJNINatives}
     {UseSVE, MaxVectorSize} t (final_state (c2_rules e t))"
    by (intro changes_only_c2_rules) (auto intro!: keeps)
  with assms(1) have "changes_only
     {UseMultiplyToLenIntrinsic, UseSquareToLenIntrinsic, UseMulAddIntrinsic,
      UseMontgomeryMultiplyIntrinsic, UseMontgomerySquareIntrinsic, OptoScheduling,
      AlignVector, CriticalJNINatives}
     {UseSVE, MaxVectorSize} t s2"
    by simp
  then have "changes_only
     {UseMultiplyToLenIntrinsic, UseSquareToLenIntrinsic, UseMulAddIntrinsic,
      UseMontgomeryMultiplyIntrinsic, UseMontgomerySquareIntrinsic, OptoScheduling,
      AlignVector, CriticalJNINatives}
     {UseSVE, MaxVectorSize} t (final_state (set_spin_wait s2))"
    by (rule changes_only_set_spin_wait)
  with assms(2) show ?thesis
    by (auto intro!: keeps)
qed

lemma flag_rules_around_AES:
  "\<exists>pre. changes_only {UseCRC32, UseAdler32Intrinsics, UseVectorizedMismatchIntrinsic, UseLSE} {}
            s pre \<and>
     changes_only
       {UseCRC32Intrinsics, UseCRC32CIntrinsics, UseFMA, UseMD5Intrinsics, UseSHA,
        UseSHA1Intrinsics, UseSHA256Intrinsics, UseSHA3Intrinsics, UseSHA512Intrinsics,
        UseGHASHIntrinsics, UseBASE64Intrinsics, UseBlockZeroing, UseUnalignedAccesses,
        UsePopCountInstruction}
       {BlockZeroingLowLimit, UseSVE} (rule_AES pre) (flag_rules e s)"
proof (intro exI conjI)
  show "changes_only {UseCRC32, UseAdler32Intrinsics, UseVectorizedMismatchIntrinsic, UseLSE} {}
     s (in_order [rule_UseCRC32, default_b UseAdler32Intrinsics True,
          unsupported_b UseVectorizedMismatchIntrinsic
            (''UseVectorizedMismatchIntrinsic specified, but not available on this CPU.'', []),
          rule_UseLSE] s)"
    by (auto intro!: keeps)
  show "changes_only
       {UseCRC32Intrinsics, UseCRC32CIntrinsics, UseFMA, UseMD5Intrinsics, UseSHA,
        UseSHA1Intrinsics, UseSHA256Intrinsics, UseSHA3Intrinsics, UseSHA512Intrinsics,
        UseGHASHIntrinsics, UseBASE64Intrinsics, UseBlockZeroing, UseUnalignedAccesses,
        UsePopCountInstruction}
       {BlockZeroingLowLimit, UseSVE}
       (rule_AES (in_order [rule_UseCRC32, default_b UseAdler32Intrinsics True,
          unsupported_b UseVectorizedMismatchIntrinsic
            (''UseVectorizedMismatchIntrinsic specified, but not available on this CPU.'', []),
          rule_UseLSE] s))
       (flag_rules e s)"
    unfolding flag_rules_def feature_rules_def
    by (auto intro!: keeps)
qed

lemma flag_rules_after_reset_UseSHA:
  "\<exists>mid. changes_only
       {UseGHASHIntrinsics, UseBASE64Intrinsics, UseBlockZeroing, UseUnalignedAccesses,
        UsePopCountInstruction}
       {BlockZeroingLowLimit, UseSVE} (reset_UseSHA mid) (flag_rules e s)"
proof (intro exI)
  show "changes_only
       {UseGHASHIntrinsics, UseBASE64Intrinsics, UseBlockZeroing, UseUnalignedAccesses,
        UsePopCountInstruction}
       {BlockZeroingLowLimit, UseSVE}
       (reset_UseSHA (in_order
          [rule_UseCRC32, default_b UseAdler32Intrinsics True,
           unsupported_b UseVectorizedMismatchIntrinsic
             (''UseVectorizedMismatchIntrinsic specified, but not available on this CPU.'', []),
           rule_UseLSE, rule_AES, default_b UseCRC32Intrinsics True, rule_UseCRC32CIntrinsics,
           default_b UseFMA True, default_b UseMD5Intrinsics True, rule_UseSHA,
           rule_UseSHA1Intrinsics, rule_UseSHA256Intrinsics, rule_UseSHA3Intrinsics,
           rule_UseSHA512Intrinsics] s))
       (flag_rules e s)"
    unfolding flag_rules_def feature_rules_def
    by (auto intro!: keeps)
qed

lemma rule_AES_effect:
  "bflag (rule_AES s) UseAES =
     (CPU_AES \<in> features s \<and> (bflag s UseAES \<or> b_default s UseAES \<or> bflag s UseAESIntrinsics))"
  "bflag (rule_AES s) UseAESIntrinsics =
     (CPU_AES \<in> features s \<and>
      (bflag s UseAESIntrinsics \<or>
       ((bflag s UseAES \<or> b_default s UseAES) \<and> b_default s UseAESIntrinsics)))"
  "bflag (rule_AES s) UseAESCTRIntrinsics =
     (CPU_AES \<in> features s \<and> (b_default s UseAESCTRIntrinsics \<or> bflag s UseAESCTRIntrinsics))"
  by (auto simp add: rule_AES_def enable_UseAES_def enable_UseAESIntrinsics_def force_UseAES_def
    default_b_def unsupported_b_def assign_b_def warning_def)

lemma rule_AES_warnings:
  "CPU_AES \<in> features s \<Longrightarrow> bflag s UseAESIntrinsics \<Longrightarrow> \<not> bflag s UseAES \<Longrightarrow>
   \<not> b_default s UseAES \<Longrightarrow>
   (''UseAESIntrinsics enabled, but UseAES not, enabling'', []) \<in> set (warnings (rule_AES s))"
  "CPU_AES \<notin> features s \<Longrightarrow> bflag s UseAES \<Longrightarrow>
   (''AES instructions are not available on this CPU'', []) \<in> set (warnings (rule_AES s))"
  "CPU_AES \<notin> features s \<Longrightarrow> bflag s UseAESIntrinsics \<Longrightarrow>
   (''AES intrinsics are not available on this CPU'', []) \<in> set (warnings (rule_AES s))"
  "CPU_AES \<notin> features s \<Longrightarrow> bflag s UseAESCTRIntrinsics \<Longrightarrow>
   (''AES/CTR intrinsics are not available on this CPU'', []) \<in> set (warnings (rule_AES s))"
  by (auto simp add: rule_AES_def enable_UseAES_def enable_UseAESIntrinsics_def force_UseAES_def
    default_b_def unsupported_b_def assign_b_def warning_def)

text \<open>
  A completed run seen from the AES rule: the state \<open>pre\<close> it starts from has the AES flags,
  the origins and the AES feature bit of the entry state, and what it leaves in the AES
  flags and in the log of warnings is still there at the end.
\<close>

lemma initialize_AES:
  assumes "initialize e s = Inr s'"
  obtains pre where
    "bflag pre UseAES = bflag s UseAES"
    "bflag pre UseAESIntrinsics = bflag s UseAESIntrinsics"
    "bflag pre UseAESCTRIntrinsics = bflag s UseAESCTRIntrinsics"
    "b_default pre = b_default s"
    "CPU_AES \<in> features pre \<longleftrightarrow> CPU_AES \<in> features s"
    "bflag s' UseAES = bflag (rule_AES pre) UseAES"
    "bflag s' UseAESIntrinsics = bflag (rule_AES pre) UseAESIntrinsics"
    "bflag s' UseAESCTRIntrinsics = bflag (rule_AES pre) UseAESCTRIntrinsics"
    "set (warnings (rule_AES pre)) \<subseteq> set (warnings s')"
proof -
  from assms obtain s1 s2 s3 where
    s1: "vendor_rules e (prefetch_rules e s) = Inr s1"
    and s2: "c2_rules e (flag_rules e s1) = Inr s2"
    and s3: "set_spin_wait s2 = Inr s3"
    and s': "s' = finish e s3"
    by (rule initialize_InrE)
  from flag_rules_around_AES [of s1 e] obtain pre where
    pre: "changes_only {UseCRC32, UseAdler32Intrinsics, UseVectorizedMismatchIntrinsic, UseLSE} {}
            s1 pre"
    and post: "changes_only
       {UseCRC32Intrinsics, UseCRC32CIntrinsics, UseFMA, UseMD5Intrinsics, UseSHA,
        UseSHA1Intrinsics, UseSHA256Intrinsics, UseSHA3Intrinsics, UseSHA512Intrinsics,
        UseGHASHIntrinsics, UseBASE64Intrinsics, UseBlockZeroing, UseUnalignedAccesses,
        UsePopCountInstruction}
       {BlockZeroingLowLimit, UseSVE} (rule_AES pre) (flag_rules e s1)"
    by blast
  note a = changes_only_trans [OF before_flag_rules [OF s1] pre]
  note b = changes_only_trans [OF post after_flag_rules [OF s2 s3]]
  show ?thesis
  proof (rule that)
    show "bflag pre UseAES = bflag s UseAES"
      "bflag pre UseAESIntrinsics = bflag s UseAESIntrinsics"
      "bflag pre UseAESCTRIntrinsics = bflag s UseAESCTRIntrinsics"
      "b_default pre = b_default s"
      "CPU_AES \<in> features pre \<longleftrightarrow> CPU_AES \<in> features s"
      using a unfolding changes_only_def by auto
    show "bflag s' UseAES = bflag (rule_AES pre) UseAES"
      "bflag s' UseAESIntrinsics = bflag (rule_AES pre) UseAESIntrinsics"
      "bflag s' UseAESCTRIntrinsics = bflag (rule_AES pre) UseAESCTRIntrinsics"
      "set (warnings (rule_AES pre)) \<subseteq> set (warnings s')"
      using b unfolding changes_only_def s' by auto
  qed
qed

lemma reset_UseSHA_effect:
  "bflag (reset_UseSHA s) UseSHA \<longrightarrow>
     bflag (reset_UseSHA s) UseSHA1Intrinsics \<or> bflag (reset_UseSHA s) UseSHA256Intrinsics \<or>
     bflag (reset_UseSHA s) UseSHA3Intrinsics \<or> bflag (reset_UseSHA s) UseSHA512Intrinsics"
  by (simp add: reset_UseSHA_def assign_b_def)

lemma flag_rules_UsePopCountInstruction:
  "bflag (flag_rules e s) UsePopCountInstruction"
  by (simp add: flag_rules_def rule_UsePopCountInstruction_def force_UsePopCountInstruction_def
        assign_b_def warning_def)

subsection \<open>Which rules warn of an override\<close>

named_theorems quiets

lemma quiet_refl [quiets]: "quiet s s"
  by (auto simp: quiet_def)

lemma quiet_trans: "quiet s t \<Longrightarrow> quiet t u \<Longrightarrow> quiet s u"
  by (auto simp: quiet_def)

lemma quiet_assign_b [quiets]: "quiet s0 s \<Longrightarrow> quiet s0 (assign_b k v s)"
  by (simp add: quiet_def assign_b_def)

lemma quiet_assign_i [quiets]: "quiet s0 s \<Longrightarrow> quiet s0 (assign_i k v s)"
  by (simp add: quiet_def assign_i_def)

lemma quiet_assign_OnSpinWaitInst [quiets]:
  "quiet s0 s \<Longrightarrow> quiet s0 (assign_OnSpinWaitInst v s)"
  by (simp add: quiet_def assign_OnSpinWaitInst_def)

lemma quiet_warning [quiets]:
  "quiet s0 s \<Longrightarrow> m \<notin> override_warnings \<Longrightarrow> quiet s0 (warning m s)"
  by (auto simp: quiet_def warning_def)

lemma quiet_default_b [quiets]: "quiet s0 s \<Longrightarrow> quiet s0 (default_b k v s)"
  by (simp add: default_b_def quiet_assign_b)

lemma quiet_default_i [quiets]: "quiet s0 s \<Longrightarrow> quiet s0 (default_i k v s)"
  by (simp add: default_i_def quiet_assign_i)

lemma quiet_default_OnSpinWaitInst [quiets]:
  "quiet s0 s \<Longrightarrow> quiet s0 (default_OnSpinWaitInst v s)"
  by (simp add: default_OnSpinWaitInst_def quiet_assign_OnSpinWaitInst)

lemma quiet_unsupported_b [quiets]:
  "quiet s0 s \<Longrightarrow> m \<notin> override_warnings \<Longrightarrow> quiet s0 (unsupported_b k m s)"
  by (simp add: unsupported_b_def quiet_assign_b quiet_warning)

lemma quiet_UNSUPPORTED_OPTION [quiets]:
  "quiet s0 s \<Longrightarrow> m \<notin> override_warnings \<Longrightarrow> quiet s0 (UNSUPPORTED_OPTION k m s)"
  by (simp add: UNSUPPORTED_OPTION_def quiet_assign_b quiet_warning)

lemma quiet_field_updates [quiets]:
  "quiet s0 s \<Longrightarrow> quiet s0 (s\<lparr>data_cache_line_flush_size := x\<rparr>)"
  "quiet s0 s \<Longrightarrow> quiet s0 (s\<lparr>initial_sve_vector_length := y\<rparr>)"
  "quiet s0 s \<Longrightarrow> quiet s0 (s\<lparr>spin_wait := z\<rparr>)"
  "quiet s0 s \<Longrightarrow> quiet s0 (s\<lparr>detected_virtualization := u\<rparr>)"
  "quiet s0 s \<Longrightarrow> quiet s0 (s\<lparr>opened := v\<rparr>)"
  "quiet s0 s \<Longrightarrow> quiet s0 (s\<lparr>features := F\<rparr>)"
  by (simp_all add: quiet_def)

lemma quiet_prefetch_defaults [quiets]:
  "quiet s0 s \<Longrightarrow> quiet s0 (prefetch_defaults e s)"
  unfolding prefetch_defaults_def by (auto intro!: quiets simp: override_warnings_def)

lemma quiet_mask_PrefetchCopyIntervalInBytes [quiets]:
  "quiet s0 s \<Longrightarrow> quiet s0 (mask_PrefetchCopyIntervalInBytes s)"
  unfolding mask_PrefetchCopyIntervalInBytes_def by (auto intro!: quiets simp: override_warnings_def)

lemma quiet_cap_PrefetchCopyIntervalInBytes [quiets]:
  "quiet s0 s \<Longrightarrow> quiet s0 (cap_PrefetchCopyIntervalInBytes s)"
  unfolding cap_PrefetchCopyIntervalInBytes_def by (auto intro!: quiets simp: override_warnings_def)

lemma quiet_align_PrefetchCopyIntervalInBytes [quiets]:
  "quiet s0 s \<Longrightarrow> quiet s0 (align_PrefetchCopyIntervalInBytes s)"
  unfolding align_PrefetchCopyIntervalInBytes_def by (auto intro!: quiets simp: override_warnings_def)

lemma quiet_align_AllocatePrefetchDistance [quiets]:
  "quiet s0 s \<Longrightarrow> quiet s0 (align_AllocatePrefetchDistance s)"
  unfolding align_AllocatePrefetchDistance_def by (auto intro!: quiets simp: override_warnings_def)

lemma quiet_align_AllocatePrefetchStepSize [quiets]:
  "quiet s0 s \<Longrightarrow> quiet s0 (align_AllocatePrefetchStepSize s)"
  unfolding align_AllocatePrefetchStepSize_def by (auto intro!: quiets simp: override_warnings_def)

lemma quiet_align_SoftwarePrefetchHintDistance [quiets]:
  "quiet s0 s \<Longrightarrow> quiet s0 (align_SoftwarePrefetchHintDistance s)"
  unfolding align_SoftwarePrefetchHintDistance_def by (auto intro!: quiets simp: override_warnings_def)

lemma quiet_widen_ContendedPaddingWidth [quiets]:
  "quiet s0 s \<Longrightarrow> quiet s0 (widen_ContendedPaddingWidth e s)"
  unfolding widen_ContendedPaddingWidth_def by (auto intro!: quiets simp: override_warnings_def)

lemma quiet_publish_flush_size [quiets]:
  "quiet s0 s \<Longrightarrow> quiet s0 (publish_flush_size e s)"
  unfolding publish_flush_size_def by (auto intro!: quiets simp: override_warnings_def)

lemma quiet_prefetch_rules [quiets]:
  "quiet s0 s \<Longrightarrow> quiet s0 (prefetch_rules e s)"
  unfolding prefetch_rules_def by (auto intro!: quiets simp: override_warnings_def)

lemma quiet_rule_eMAG [quiets]:
  "quiet s0 s \<Longrightarrow> quiet s0 (rule_eMAG e s)"
  unfolding rule_eMAG_def by (auto intro!: quiets simp: override_warnings_def)

lemma quiet_rule_Ampere [quiets]:
  "quiet s0 s \<Longrightarrow> quiet s0 (rule_Ampere e s)"
  unfolding rule_Ampere_def by (auto intro!: quiets simp: override_warnings_def)

lemma quiet_rule_ThunderX2 [quiets]:
  "quiet s0 s \<Longrightarrow> quiet s0 (rule_ThunderX2 s)"
  unfolding rule_ThunderX2_def by (auto intro!: quiets simp: override_warnings_def)

lemma quiet_rule_TSV110 [quiets]:
  "quiet s0 s \<Longrightarrow> quiet s0 (rule_TSV110 s)"
  unfolding rule_TSV110_def by (auto intro!: quiets simp: override_warnings_def)

lemma quiet_rule_A53 [quiets]:
  "quiet s0 s \<Longrightarrow> quiet s0 (rule_A53 s)"
  unfolding rule_A53_def by (auto intro!: quiets simp: override_warnings_def)

lemma quiet_rule_A73 [quiets]:
  "quiet s0 s \<Longrightarrow> quiet s0 (rule_A73 s)"
  unfolding rule_A73_def by (auto intro!: quiets simp: override_warnings_def)

lemma quiet_rule_Neoverse [quiets]:
  "quiet s0 s \<Longrightarrow> quiet s0 (rule_Neoverse s)"
  unfolding rule_Neoverse_def by (auto intro!: quiets simp: override_warnings_def)

lemma quiet_rule_ARM_signum [quiets]:
  "quiet s0 s \<Longrightarrow> quiet s0 (rule_ARM_signum s)"
  unfolding rule_ARM_signum_def by (auto intro!: quiets simp: override_warnings_def)

lemma quiet_rule_STXR_PREFETCH [quiets]:
  "quiet s0 s \<Longrightarrow> quiet s0 (rule_STXR_PREFETCH s)"
  unfolding rule_STXR_PREFETCH_def by (auto intro!: quiets simp: override_warnings_def)

lemma quiet_vendor_rules_after_ThunderX [quiets]:
  "quiet s0 s \<Longrightarrow> quiet s0 (vendor_rules_after_ThunderX s)"
  unfolding vendor_rules_after_ThunderX_def by (auto intro!: quiets simp: override_warnings_def)

lemma quiet_default_UseCRC32 [quiets]:
  "quiet s0 s \<Longrightarrow> quiet s0 (default_UseCRC32 s)"
  unfolding default_UseCRC32_def by (auto intro!: quiets simp: override_warnings_def)

lemma quiet_check_UseCRC32 [quiets]:
  "quiet s0 s \<Longrightarrow> quiet s0 (check_UseCRC32 s)"
  unfolding check_UseCRC32_def by (auto intro!: quiets simp: override_warnings_def)

lemma quiet_rule_UseCRC32 [quiets]:
  "quiet s0 s \<Longrightarrow> quiet s0 (rule_UseCRC32 s)"
  unfolding rule_UseCRC32_def by (auto intro!: quiets simp: override_warnings_def)

lemma quiet_rule_UseLSE [quiets]:
  "quiet s0 s \<Longrightarrow> quiet s0 (rule_UseLSE s)"
  unfolding rule_UseLSE_def by (auto intro!: quiets simp: override_warnings_def)

lemma quiet_enable_UseAES [quiets]:
  "quiet s0 s \<Longrightarrow> quiet s0 (enable_UseAES s)"
  unfolding enable_UseAES_def by (auto intro!: quiets simp: override_warnings_def)

lemma quiet_enable_UseAESIntrinsics [quiets]:
  "quiet s0 s \<Longrightarrow> quiet s0 (enable_UseAESIntrinsics s)"
  unfolding enable_UseAESIntrinsics_def by (auto intro!: quiets simp: override_warnings_def)

lemma quiet_rule_UseCRC32CIntrinsics [quiets]:
  "quiet s0 s \<Longrightarrow> quiet s0 (rule_UseCRC32CIntrinsics s)"
  unfolding rule_UseCRC32CIntrinsics_def by (auto intro!: quiets simp: override_warnings_def)

lemma quiet_rule_UseSHA [quiets]:
  "quiet s0 s \<Longrightarrow> quiet s0 (rule_UseSHA s)"
  unfolding rule_UseSHA_def by (auto intro!: quiets simp: override_warnings_def)

lemma quiet_rule_UseSHA1Intrinsics [quiets]:
  "quiet s0 s \<Longrightarrow> quiet s0 (rule_UseSHA1Intrinsics s)"
  unfolding rule_UseSHA1Intrinsics_def by (auto intro!: quiets simp: override_warnings_def)

lemma quiet_rule_UseSHA256Intrinsics [quiets]:
  "quiet s0 s \<Longrightarrow> quiet s0 (rule_UseSHA256Intrinsics s)"
  unfolding rule_UseSHA256Intrinsics_def by (auto intro!: quiets simp: override_warnings_def)

lemma quiet_rule_UseSHA3Intrinsics [quiets]:
  "quiet s0 s \<Longrightarrow> quiet s0 (rule_UseSHA3Intrinsics s)"
  unfolding rule_UseSHA3Intrinsics_def by (auto intro!: quiets simp: override_warnings_def)

lemma quiet_rule_UseSHA512Intrinsics [quiets]:
  "quiet s0 s \<Longrightarrow> quiet s0 (rule_UseSHA512Intrinsics s)"
  unfolding rule_UseSHA512Intrinsics_def by (auto intro!: quiets simp: override_warnings_def)

lemma quiet_reset_UseSHA [quiets]:
  "quiet s0 s \<Longrightarrow> quiet s0 (reset_UseSHA s)"
  unfolding reset_UseSHA_def by (auto intro!: quiets simp: override_warnings_def)

lemma quiet_rule_UseGHASHIntrinsics [quiets]:
  "quiet s0 s \<Longrightarrow> quiet s0 (rule_UseGHASHIntrinsics s)"
  unfolding rule_UseGHASHIntrinsics_def by (auto intro!: quiets simp: override_warnings_def)

lemma quiet_rule_UseBlockZeroing [quiets]:
  "quiet s0 s \<Longrightarrow> quiet s0 (rule_UseBlockZeroing e s)"
  unfolding rule_UseBlockZeroing_def by (auto intro!: quiets simp: override_warnings_def)

lemma quiet_rule_UseSVE [quiets]:
  "quiet s0 s \<Longrightarrow> quiet s0 (rule_UseSVE s)"
  unfolding rule_UseSVE_def by (auto intro!: quiets simp: override_warnings_def)

lemma quiet_detect_sve_vector_length [quiets]:
  "quiet s0 s \<Longrightarrow> quiet s0 (detect_sve_vector_length e s)"
  unfolding detect_sve_vector_length_def by (auto intro!: quiets simp: override_warnings_def)

lemma quiet_before_AES [quiets]:
  "quiet s0 s \<Longrightarrow> quiet s0 (before_AES s)"
  unfolding before_AES_def by (auto intro!: quiets simp: override_warnings_def)

lemma quiet_after_AES [quiets]:
  "quiet s0 s \<Longrightarrow> quiet s0 (after_AES e s)"
  unfolding after_AES_def by (auto intro!: quiets simp: override_warnings_def)

lemma quiet_c2_intrinsics [quiets]:
  "quiet s0 s \<Longrightarrow> quiet s0 (c2_intrinsics s)"
  unfolding c2_intrinsics_def by (auto intro!: quiets simp: override_warnings_def)

lemma quiet_default_AlignVector [quiets]:
  "quiet s0 s \<Longrightarrow> quiet s0 (default_AlignVector s)"
  unfolding default_AlignVector_def by (auto intro!: quiets simp: override_warnings_def)

lemma quiet_c2_tail [quiets]:
  "quiet s0 s \<Longrightarrow> quiet s0 (c2_tail s)"
  unfolding c2_tail_def by (auto intro!: quiets simp: override_warnings_def)

lemma quiet_and_then:
  "quiet s0 (final_state r) \<Longrightarrow> (\<And>s. quiet s0 s \<Longrightarrow> quiet s0 (final_state (f s))) \<Longrightarrow>
   quiet s0 (final_state (and_then r f))"
  by (cases r) auto

lemma quiet_rule_ThunderX:
  "quiet s0 s \<Longrightarrow> quiet s0 (final_state (rule_ThunderX s))"
  unfolding rule_ThunderX_def by (auto intro!: quiets)

lemma quiet_vendor_rules:
  "quiet s0 s \<Longrightarrow> quiet s0 (final_state (vendor_rules e s))"
  unfolding vendor_rules_def
  by (intro quiet_and_then quiet_rule_ThunderX) (auto intro!: quiets)

lemma quiet_MaxVectorSize_sve:
  "quiet s0 s \<Longrightarrow> quiet s0 (final_state (MaxVectorSize_sve e s))"
  unfolding MaxVectorSize_sve_def
  by (auto simp: Let_def override_warnings_def intro!: quiets)

lemma quiet_MaxVectorSize_neon:
  "quiet s0 s \<Longrightarrow> quiet s0 (final_state (MaxVectorSize_neon s))"
  unfolding MaxVectorSize_neon_def
  by (auto simp: override_warnings_def intro!: quiets)

lemma quiet_c2_rules:
  "quiet s0 s \<Longrightarrow> quiet s0 (final_state (c2_rules e s))"
  unfolding c2_rules_def
  by (auto intro!: quiet_and_then quiet_MaxVectorSize_sve quiet_MaxVectorSize_neon quiets)

lemma quiet_set_spin_wait:
  "quiet s0 s \<Longrightarrow> quiet s0 (final_state (set_spin_wait s))"
  unfolding set_spin_wait_def get_spin_wait_desc_def by (auto intro!: quiets)

lemma warnings_scan_lines [simp]:
  "warnings (snd (scan_lines virt1 vt1 virt2 vt2 ls s)) = warnings s"
  by (induction ls) auto

lemma warnings_check_info_file [simp]:
  "warnings (snd (check_info_file e fpath virt1 vt1 virt2 vt2 s)) = warnings s"
  by (simp add: check_info_file_def split: option.splits)

lemma warnings_check_virtualizations [simp]:
  "warnings (check_virtualizations e s) = warnings s"
proof (cases "check_info_file e pname_file ''KVM'' KVM (Some ''VMWare'') VMWare s")
  case (Pair found x2)
  with warnings_check_info_file [of e pname_file "''KVM''" KVM "Some ''VMWare''" VMWare s]
  have "warnings x2 = warnings s" by simp
  with Pair show ?thesis
    by (cases found) (simp_all add: check_virtualizations_def)
qed

lemma quiet_check_virtualizations [quiets]:
  "quiet s0 s \<Longrightarrow> quiet s0 (check_virtualizations e s)"
  by (simp add: quiet_def)

lemma quiet_finish [quiets]:
  "quiet s0 s \<Longrightarrow> quiet s0 (finish e s)"
  unfolding finish_def by (auto intro!: quiets simp: override_warnings_def)

lemma quiet_before_flag_rules:
  assumes "vendor_rules e (prefetch_rules e s) = Inr s1"
  shows "quiet s s1"
proof -
  have "quiet s (final_state (vendor_rules e (prefetch_rules e s)))"
    by (intro quiet_vendor_rules) (auto intro!: quiets)
  with assms show ?thesis by simp
qed

lemma quiet_after_flag_rules:
  assumes "c2_rules e t = Inr s2" "set_spin_wait s2 = Inr s3"
  shows "quiet t (finish e s3)"
proof -
  have "quiet t (final_state (c2_rules e t))"
    by (intro quiet_c2_rules quiet_refl)
  with assms(1) have "quiet t s2" by simp
  then have "quiet t (final_state (set_spin_wait s2))"
    by (rule quiet_set_spin_wait)
  with assms(2) show ?thesis
    by (auto intro!: quiets)
qed

text \<open>
  The two rules that do warn of an override, and when: the AES rule when \<open>UseAES\<close> was
  switched off by the user and \<open>UseAESIntrinsics\<close> is on (not when \<open>UseAES\<close> is at its
  default: line 281 has switched it on before the test of line 284), the rule of
  \<open>UsePopCountInstruction\<close> when that flag was switched off by the user.
\<close>

lemma rule_AES_override_warnings:
  "(''UseAESIntrinsics enabled, but UseAES not, enabling'', []) \<in> set (warnings (rule_AES s)) \<longleftrightarrow>
     (''UseAESIntrinsics enabled, but UseAES not, enabling'', []) \<in> set (warnings s) \<or>
     CPU_AES \<in> features s \<and> bflag s UseAESIntrinsics \<and> \<not> bflag s UseAES \<and> \<not> b_default s UseAES"
  "(''UsePopCountInstruction is always enabled on this CPU'', []) \<in> set (warnings (rule_AES s)) \<longleftrightarrow>
     (''UsePopCountInstruction is always enabled on this CPU'', []) \<in> set (warnings s)"
  by (auto simp add: rule_AES_def enable_UseAES_def enable_UseAESIntrinsics_def force_UseAES_def
    default_b_def unsupported_b_def assign_b_def warning_def)

lemma rule_UsePopCountInstruction_override_warnings:
  "(''UsePopCountInstruction is always enabled on this CPU'', [])
       \<in> set (warnings (rule_UsePopCountInstruction s)) \<longleftrightarrow>
     (''UsePopCountInstruction is always enabled on this CPU'', []) \<in> set (warnings s) \<or>
     \<not> b_default s UsePopCountInstruction \<and> \<not> bflag s UsePopCountInstruction"
  "(''UseAESIntrinsics enabled, but UseAES not, enabling'', [])
       \<in> set (warnings (rule_UsePopCountInstruction s)) \<longleftrightarrow>
     (''UseAESIntrinsics enabled, but UseAES not, enabling'', []) \<in> set (warnings s)"
  by (auto simp add: rule_UsePopCountInstruction_def force_UsePopCountInstruction_def
    default_b_def assign_b_def warning_def)

lemma flag_rules_split:
  "flag_rules e s = rule_UsePopCountInstruction (after_AES e (rule_AES (before_AES s)))"
  by (simp add: flag_rules_def feature_rules_def before_AES_def after_AES_def)

lemma changes_only_before_AES:
  "changes_only {UseCRC32, UseAdler32Intrinsics, UseVectorizedMismatchIntrinsic, UseLSE} {}
     s (before_AES s)"
  unfolding before_AES_def by (auto intro!: keeps)

lemma changes_only_after_AES:
  "changes_only
     {UseCRC32Intrinsics, UseCRC32CIntrinsics, UseFMA, UseMD5Intrinsics, UseSHA,
      UseSHA1Intrinsics, UseSHA256Intrinsics, UseSHA3Intrinsics, UseSHA512Intrinsics,
      UseGHASHIntrinsics, UseBASE64Intrinsics, UseBlockZeroing, UseUnalignedAccesses}
     {BlockZeroingLowLimit, UseSVE} s (after_AES e s)"
  unfolding after_AES_def by (auto intro!: keeps)

lemma quiet_same:
  assumes "changes_only B I s t" "quiet s t"
  shows "(''UsePopCountInstruction is always enabled on this CPU'', []) \<in> set (warnings t) \<longleftrightarrow>
     (''UsePopCountInstruction is always enabled on this CPU'', []) \<in> set (warnings s)"
    "(''UseAESIntrinsics enabled, but UseAES not, enabling'', []) \<in> set (warnings t) \<longleftrightarrow>
     (''UseAESIntrinsics enabled, but UseAES not, enabling'', []) \<in> set (warnings s)"
proof -
  from assms(1) have sub: "set (warnings s) \<subseteq> set (warnings t)"
    unfolding changes_only_def by simp
  from assms(2) have q: "\<And>m. m \<in> override_warnings \<Longrightarrow> m \<in> set (warnings t) \<Longrightarrow> m \<in> set (warnings s)"
    unfolding quiet_def by blast
  have 1: "(''UsePopCountInstruction is always enabled on this CPU'', []) \<in> override_warnings"
    "(''UseAESIntrinsics enabled, but UseAES not, enabling'', []) \<in> override_warnings"
    by (simp_all add: override_warnings_def)
  from q [OF 1(1)] sub
  show "(''UsePopCountInstruction is always enabled on this CPU'', []) \<in> set (warnings t) \<longleftrightarrow>
     (''UsePopCountInstruction is always enabled on this CPU'', []) \<in> set (warnings s)"
    by blast
  from q [OF 1(2)] sub
  show "(''UseAESIntrinsics enabled, but UseAES not, enabling'', []) \<in> set (warnings t) \<longleftrightarrow>
     (''UseAESIntrinsics enabled, but UseAES not, enabling'', []) \<in> set (warnings s)"
    by blast
qed

text \<open>
  When a completed run has warned of an override: exactly when the entry state calls for
  it (or the warning was in the log already).
\<close>

lemma initialize_override_warnings:
  assumes "initialize e s = Inr s'"
  shows
    "(''UsePopCountInstruction is always enabled on this CPU'', []) \<in> set (warnings s') \<longleftrightarrow>
     (''UsePopCountInstruction is always enabled on this CPU'', []) \<in> set (warnings s) \<or>
     \<not> b_default s UsePopCountInstruction \<and> \<not> bflag s UsePopCountInstruction"
    "(''UseAESIntrinsics enabled, but UseAES not, enabling'', []) \<in> set (warnings s') \<longleftrightarrow>
     (''UseAESIntrinsics enabled, but UseAES not, enabling'', []) \<in> set (warnings s) \<or>
     CPU_AES \<in> features s \<and> bflag s UseAESIntrinsics \<and> \<not> bflag s UseAES \<and> \<not> b_default s UseAES"
proof -
  from assms obtain s1 s2 s3 where
    s1: "vendor_rules e (prefetch_rules e s) = Inr s1"
    and s2: "c2_rules e (flag_rules e s1) = Inr s2"
    and s3: "set_spin_wait s2 = Inr s3"
    and s': "s' = finish e s3"
    by (rule initialize_InrE)
  define x2 where "x2 = before_AES s1"
  define x3 where "x3 = rule_AES x2"
  define x4 where "x4 = after_AES e x3"
  define x5 where "x5 = rule_UsePopCountInstruction x4"
  have x5: "flag_rules e s1 = x5"
    by (simp add: flag_rules_split x5_def x4_def x3_def x2_def)
  note c02 = changes_only_trans [OF before_flag_rules [OF s1] changes_only_before_AES [of s1],
    folded x2_def]
  have q02: "quiet s x2"
    unfolding x2_def by (intro quiet_before_AES quiet_before_flag_rules [OF s1])
  have c23: "changes_only {UseAES, UseAESIntrinsics, UseAESCTRIntrinsics} {} x2 x3"
    unfolding x3_def by (auto intro!: keeps)
  note c34 = changes_only_after_AES [of x3 e, folded x4_def]
  have q34: "quiet x3 x4"
    unfolding x4_def by (intro quiet_after_AES quiet_refl)
  note c56 = after_flag_rules [OF s2 s3, unfolded x5, folded s']
  note q56 = quiet_after_flag_rules [OF s2 s3, unfolded x5, folded s']
  note w02 = quiet_same [OF c02 q02]
  note w34 = quiet_same [OF c34 q34]
  note w56 = quiet_same [OF c56 q56]
  note w23 = rule_AES_override_warnings [of x2, folded x3_def]
  note w45 = rule_UsePopCountInstruction_override_warnings [of x4, folded x5_def]
  from c02 have f2: "bflag x2 UseAES = bflag s UseAES"
    "bflag x2 UseAESIntrinsics = bflag s UseAESIntrinsics"
    "bflag x2 UsePopCountInstruction = bflag s UsePopCountInstruction"
    "b_default x2 = b_default s" "CPU_AES \<in> features x2 \<longleftrightarrow> CPU_AES \<in> features s"
    unfolding changes_only_def by auto
  from changes_only_trans [OF c23 c34]
  have f4: "bflag x4 UsePopCountInstruction = bflag x2 UsePopCountInstruction"
    "b_default x4 = b_default x2"
    unfolding changes_only_def by auto
  show "(''UsePopCountInstruction is always enabled on this CPU'', []) \<in> set (warnings s') \<longleftrightarrow>
     (''UsePopCountInstruction is always enabled on this CPU'', []) \<in> set (warnings s) \<or>
     \<not> b_default s UsePopCountInstruction \<and> \<not> bflag s UsePopCountInstruction"
    by (simp add: w56(1) w45(1) w34(1) w23(2) w02(1) f4 f2)
  show "(''UseAESIntrinsics enabled, but UseAES not, enabling'', []) \<in> set (warnings s') \<longleftrightarrow>
     (''UseAESIntrinsics enabled, but UseAES not, enabling'', []) \<in> set (warnings s) \<or>
     CPU_AES \<in> features s \<and> bflag s UseAESIntrinsics \<and> \<not> bflag s UseAES \<and> \<not> b_default s UseAES"
    by (simp add: w56(2) w45(2) w34(2) w23(1) w02(2) f2)
qed

subsection \<open>C1: a flag set to false explicitly\<close>

text \<open>
  C1. Whenever \<open>initialize\<close> completes: every boolean flag other than
  \<open>UsePopCountInstruction\<close> and \<open>UseAES\<close> that was set to false explicitly on entry is still
  false, whatever the feature bits. \<open>UsePopCountInstruction\<close> is true in every case: an
  explicit false is overridden with the warning ``UsePopCountInstruction is always enabled
  on this CPU'', a warning that is logged in that case only. \<open>UseAES\<close> set to false
  explicitly ends true exactly when the AES feature bit is present and \<open>UseAESIntrinsics\<close>
  is on, and it is then, and only then, that the warning ``UseAESIntrinsics enabled, but
  UseAES not, enabling'' is logged.
\<close>

theorem explicit_false_is_kept:
  "initialize e s = Inr s' \<Longrightarrow>
   (\<forall>k. \<not> b_default s k \<and> \<not> bflag s k \<and> k \<noteq> UsePopCountInstruction \<and> k \<noteq> UseAES \<longrightarrow>
        \<not> bflag s' k) \<and>
   bflag s' UsePopCountInstruction \<and>
   (\<not> b_default s UsePopCountInstruction \<and> \<not> bflag s UsePopCountInstruction \<longrightarrow>
      (''UsePopCountInstruction is always enabled on this CPU'', []) \<in> set (warnings s')) \<and>
   ((''UsePopCountInstruction is always enabled on this CPU'', []) \<in> set (warnings s') \<longrightarrow>
      (''UsePopCountInstruction is always enabled on this CPU'', []) \<in> set (warnings s) \<or>
      \<not> b_default s UsePopCountInstruction \<and> \<not> bflag s UsePopCountInstruction) \<and>
   (\<not> b_default s UseAES \<and> \<not> bflag s UseAES \<longrightarrow>
      (bflag s' UseAES \<longleftrightarrow> CPU_AES \<in> features s \<and> bflag s UseAESIntrinsics) \<and>
      (CPU_AES \<in> features s \<and> bflag s UseAESIntrinsics \<longrightarrow>
         (''UseAESIntrinsics enabled, but UseAES not, enabling'', []) \<in> set (warnings s')) \<and>
      ((''UseAESIntrinsics enabled, but UseAES not, enabling'', []) \<in> set (warnings s') \<longrightarrow>
         (''UseAESIntrinsics enabled, but UseAES not, enabling'', []) \<in> set (warnings s) \<or>
         CPU_AES \<in> features s \<and> bflag s UseAESIntrinsics))"
proof -
  assume run: "initialize e s = Inr s'"
  from changes_only_initialize [of s e] run
  have 1: "\<forall>k. \<not> b_default s k \<and> \<not> bflag s k \<and> k \<noteq> UsePopCountInstruction \<and> k \<noteq> UseAES \<longrightarrow>
        \<not> bflag s' k"
    unfolding changes_only_def by simp
  from run obtain s1 s2 s3 where
    s2: "c2_rules e (flag_rules e s1) = Inr s2"
    and s3: "set_spin_wait s2 = Inr s3"
    and s': "s' = finish e s3"
    by (rule initialize_InrE)
  from after_flag_rules [OF s2 s3]
  have "bflag s' UsePopCountInstruction = bflag (flag_rules e s1) UsePopCountInstruction"
    unfolding changes_only_def s' by simp
  then have 2: "bflag s' UsePopCountInstruction"
    by (simp add: flag_rules_UsePopCountInstruction)
  note w = initialize_override_warnings [OF run]
  from w(1) have 3: "\<not> b_default s UsePopCountInstruction \<and> \<not> bflag s UsePopCountInstruction \<longrightarrow>
      (''UsePopCountInstruction is always enabled on this CPU'', []) \<in> set (warnings s')"
    by simp
  from w(1) have 4: "(''UsePopCountInstruction is always enabled on this CPU'', [])
        \<in> set (warnings s') \<longrightarrow>
      (''UsePopCountInstruction is always enabled on this CPU'', []) \<in> set (warnings s) \<or>
      \<not> b_default s UsePopCountInstruction \<and> \<not> bflag s UsePopCountInstruction"
    by simp
  from run obtain pre where
    "bflag pre UseAES = bflag s UseAES"
    "bflag pre UseAESIntrinsics = bflag s UseAESIntrinsics"
    "b_default pre = b_default s"
    "CPU_AES \<in> features pre \<longleftrightarrow> CPU_AES \<in> features s"
    "bflag s' UseAES = bflag (rule_AES pre) UseAES"
    by (rule initialize_AES)
  then have 5: "\<not> b_default s UseAES \<and> \<not> bflag s UseAES \<longrightarrow>
      (bflag s' UseAES \<longleftrightarrow> CPU_AES \<in> features s \<and> bflag s UseAESIntrinsics)"
    by (simp add: rule_AES_effect)
  from w(2) have 6: "\<not> b_default s UseAES \<and> \<not> bflag s UseAES \<longrightarrow>
      (CPU_AES \<in> features s \<and> bflag s UseAESIntrinsics \<longrightarrow>
         (''UseAESIntrinsics enabled, but UseAES not, enabling'', []) \<in> set (warnings s')) \<and>
      ((''UseAESIntrinsics enabled, but UseAES not, enabling'', []) \<in> set (warnings s') \<longrightarrow>
         (''UseAESIntrinsics enabled, but UseAES not, enabling'', []) \<in> set (warnings s) \<or>
         CPU_AES \<in> features s \<and> bflag s UseAESIntrinsics)"
    by simp
  from 1 2 3 4 5 6 show ?thesis
    by simp
qed

theorem explicit_false_is_kept_witness:
  "\<not> isl (initialize plain_env
      (plain_state\<lparr>features := {CPU_LSE},
         b_default := (b_default plain_state)
           (UseLSE := False, UsePopCountInstruction := False)\<rparr>)) \<and>
   \<not> bflag (projr (initialize plain_env
      (plain_state\<lparr>features := {CPU_LSE},
         b_default := (b_default plain_state)
           (UseLSE := False, UsePopCountInstruction := False)\<rparr>))) UseLSE \<and>
   bflag (projr (initialize plain_env
      (plain_state\<lparr>features := {CPU_LSE},
         b_default := (b_default plain_state)
           (UseLSE := False, UsePopCountInstruction := False)\<rparr>))) UsePopCountInstruction \<and>
   (''UsePopCountInstruction is always enabled on this CPU'', []) \<in>
     set (warnings (projr (initialize plain_env
      (plain_state\<lparr>features := {CPU_LSE},
         b_default := (b_default plain_state)
           (UseLSE := False, UsePopCountInstruction := False)\<rparr>))))"
  using explicit_false_is_kept
    [of plain_env "plain_state\<lparr>features := {CPU_LSE},
         b_default := (b_default plain_state)
           (UseLSE := False, UsePopCountInstruction := False)\<rparr>"
      "projr (initialize plain_env
      (plain_state\<lparr>features := {CPU_LSE},
         b_default := (b_default plain_state)
           (UseLSE := False, UsePopCountInstruction := False)\<rparr>))"]
  by (simp add: run_defs)

text \<open>
  The claim as stated fails for \<open>UsePopCountInstruction\<close>: set to false on the command
  line, it is true after \<open>initialize\<close> (lines 437--440).
\<close>

theorem explicit_false_UsePopCountInstruction_counterexample:
  "\<not> b_default (plain_state\<lparr>b_default := (b_default plain_state)(UsePopCountInstruction := False)\<rparr>)
        UsePopCountInstruction \<and>
   \<not> bflag (plain_state\<lparr>b_default := (b_default plain_state)(UsePopCountInstruction := False)\<rparr>)
        UsePopCountInstruction \<and>
   \<not> isl (initialize plain_env
      (plain_state\<lparr>b_default := (b_default plain_state)(UsePopCountInstruction := False)\<rparr>)) \<and>
   bflag (projr (initialize plain_env
      (plain_state\<lparr>b_default := (b_default plain_state)(UsePopCountInstruction := False)\<rparr>)))
     UsePopCountInstruction"
  by (simp add: run_defs)

subsection \<open>C3: a master flag and its sub flags\<close>

lemma initialize_SHA:
  assumes "initialize e s = Inr s'"
  shows "bflag s' UseSHA \<longrightarrow>
     bflag s' UseSHA1Intrinsics \<or> bflag s' UseSHA256Intrinsics \<or>
     bflag s' UseSHA3Intrinsics \<or> bflag s' UseSHA512Intrinsics"
proof -
  from assms obtain s1 s2 s3 where
    s2: "c2_rules e (flag_rules e s1) = Inr s2"
    and s3: "set_spin_wait s2 = Inr s3"
    and s': "s' = finish e s3"
    by (rule initialize_InrE)
  from flag_rules_after_reset_UseSHA [of e s1] obtain mid where
    "changes_only
       {UseGHASHIntrinsics, UseBASE64Intrinsics, UseBlockZeroing, UseUnalignedAccesses,
        UsePopCountInstruction}
       {BlockZeroingLowLimit, UseSVE} (reset_UseSHA mid) (flag_rules e s1)"
    by blast
  from changes_only_trans [OF this after_flag_rules [OF s2 s3]]
  have "bflag s' UseSHA = bflag (reset_UseSHA mid) UseSHA"
    "bflag s' UseSHA1Intrinsics = bflag (reset_UseSHA mid) UseSHA1Intrinsics"
    "bflag s' UseSHA256Intrinsics = bflag (reset_UseSHA mid) UseSHA256Intrinsics"
    "bflag s' UseSHA3Intrinsics = bflag (reset_UseSHA mid) UseSHA3Intrinsics"
    "bflag s' UseSHA512Intrinsics = bflag (reset_UseSHA mid) UseSHA512Intrinsics"
    unfolding changes_only_def s' by auto
  with reset_UseSHA_effect [of mid] show ?thesis
    by simp
qed

text \<open>
  C3. Whenever \<open>initialize\<close> completes, the SHA family has no dangling master: if \<open>UseSHA\<close>
  is true then one of \<open>UseSHA1Intrinsics\<close>, \<open>UseSHA256Intrinsics\<close>, \<open>UseSHA3Intrinsics\<close>,
  \<open>UseSHA512Intrinsics\<close> is true (if all four are false, \<open>UseSHA\<close> is false). The AES
  family has no such reset. Without the AES feature bit all of \<open>UseAES\<close>,
  \<open>UseAESIntrinsics\<close>, \<open>UseAESCTRIntrinsics\<close> end false; with it, \<open>UseAES\<close> ends true
  exactly when it was true or at its default on entry or \<open>UseAESIntrinsics\<close> was on,
  whatever becomes of the two intrinsics flags.
\<close>

theorem no_dangling_master:
  "initialize e s = Inr s' \<Longrightarrow>
   (bflag s' UseSHA \<longrightarrow>
      bflag s' UseSHA1Intrinsics \<or> bflag s' UseSHA256Intrinsics \<or>
      bflag s' UseSHA3Intrinsics \<or> bflag s' UseSHA512Intrinsics) \<and>
   (CPU_AES \<notin> features s \<longrightarrow>
      \<not> bflag s' UseAES \<and> \<not> bflag s' UseAESIntrinsics \<and> \<not> bflag s' UseAESCTRIntrinsics) \<and>
   (CPU_AES \<in> features s \<longrightarrow>
      (bflag s' UseAES \<longleftrightarrow> bflag s UseAES \<or> b_default s UseAES \<or> bflag s UseAESIntrinsics))"
proof (intro conjI)
  assume run: "initialize e s = Inr s'"
  then show "bflag s' UseSHA \<longrightarrow>
      bflag s' UseSHA1Intrinsics \<or> bflag s' UseSHA256Intrinsics \<or>
      bflag s' UseSHA3Intrinsics \<or> bflag s' UseSHA512Intrinsics"
    by (rule initialize_SHA)
  from run obtain pre where pre:
    "bflag pre UseAES = bflag s UseAES"
    "bflag pre UseAESIntrinsics = bflag s UseAESIntrinsics"
    "bflag pre UseAESCTRIntrinsics = bflag s UseAESCTRIntrinsics"
    "b_default pre = b_default s"
    "CPU_AES \<in> features pre \<longleftrightarrow> CPU_AES \<in> features s"
    "bflag s' UseAES = bflag (rule_AES pre) UseAES"
    "bflag s' UseAESIntrinsics = bflag (rule_AES pre) UseAESIntrinsics"
    "bflag s' UseAESCTRIntrinsics = bflag (rule_AES pre) UseAESCTRIntrinsics"
    by (rule initialize_AES)
  then show "CPU_AES \<notin> features s \<longrightarrow>
      \<not> bflag s' UseAES \<and> \<not> bflag s' UseAESIntrinsics \<and> \<not> bflag s' UseAESCTRIntrinsics"
    by (simp add: rule_AES_effect)
  from pre show "CPU_AES \<in> features s \<longrightarrow>
      (bflag s' UseAES \<longleftrightarrow> bflag s UseAES \<or> b_default s UseAES \<or> bflag s UseAESIntrinsics)"
    by (simp add: rule_AES_effect)
qed

theorem no_dangling_master_witness:
  "\<not> isl (initialize plain_env
      (plain_state\<lparr>features := {CPU_SHA3},
         bflag := (bflag plain_state)(UseSHA3Intrinsics := True),
         b_default := (b_default plain_state)(UseSHA3Intrinsics := False)\<rparr>)) \<and>
   bflag (projr (initialize plain_env
      (plain_state\<lparr>features := {CPU_SHA3},
         bflag := (bflag plain_state)(UseSHA3Intrinsics := True),
         b_default := (b_default plain_state)(UseSHA3Intrinsics := False)\<rparr>))) UseSHA \<and>
   bflag (projr (initialize plain_env
      (plain_state\<lparr>features := {CPU_SHA3},
         bflag := (bflag plain_state)(UseSHA3Intrinsics := True),
         b_default := (b_default plain_state)(UseSHA3Intrinsics := False)\<rparr>))) UseSHA3Intrinsics \<and>
   \<not> bflag (projr (initialize plain_env
      (plain_state\<lparr>features := {CPU_SHA3},
         bflag := (bflag plain_state)(UseSHA3Intrinsics := True),
         b_default := (b_default plain_state)(UseSHA3Intrinsics := False)\<rparr>))) UseAES"
  using no_dangling_master
    [of plain_env "plain_state\<lparr>features := {CPU_SHA3},
         bflag := (bflag plain_state)(UseSHA3Intrinsics := True),
         b_default := (b_default plain_state)(UseSHA3Intrinsics := False)\<rparr>"
      "projr (initialize plain_env
      (plain_state\<lparr>features := {CPU_SHA3},
         bflag := (bflag plain_state)(UseSHA3Intrinsics := True),
         b_default := (b_default plain_state)(UseSHA3Intrinsics := False)\<rparr>))"]
  by (simp add: run_defs)

text \<open>
  The claim as stated fails for the AES family: with the AES feature bit, \<open>UseAES\<close> at its
  default and both \<open>UseAESIntrinsics\<close> and \<open>UseAESCTRIntrinsics\<close> set to false on the
  command line, \<open>initialize\<close> ends with \<open>UseAES\<close> true and both sub flags false.
\<close>

theorem dangling_UseAES_counterexample:
  "\<not> isl (initialize plain_env
      (plain_state\<lparr>features := {CPU_AES},
         b_default := (b_default plain_state)
           (UseAESIntrinsics := False, UseAESCTRIntrinsics := False)\<rparr>)) \<and>
   bflag (projr (initialize plain_env
      (plain_state\<lparr>features := {CPU_AES},
         b_default := (b_default plain_state)
           (UseAESIntrinsics := False, UseAESCTRIntrinsics := False)\<rparr>))) UseAES \<and>
   \<not> bflag (projr (initialize plain_env
      (plain_state\<lparr>features := {CPU_AES},
         b_default := (b_default plain_state)
           (UseAESIntrinsics := False, UseAESCTRIntrinsics := False)\<rparr>))) UseAESIntrinsics \<and>
   \<not> bflag (projr (initialize plain_env
      (plain_state\<lparr>features := {CPU_AES},
         b_default := (b_default plain_state)
           (UseAESIntrinsics := False, UseAESCTRIntrinsics := False)\<rparr>))) UseAESCTRIntrinsics"
  by (simp add: run_defs)

subsection \<open>C10: \<open>UseAESIntrinsics\<close> implies \<open>UseAES\<close>\<close>

text \<open>
  C10. Whenever \<open>initialize\<close> completes, \<open>UseAESIntrinsics\<close> implies \<open>UseAES\<close>. When the AES
  feature bit is present and \<open>UseAESIntrinsics\<close> is on while \<open>UseAES\<close> is false on entry,
  both end true: \<open>UseAES\<close> is switched on, with the warning ``UseAESIntrinsics enabled, but
  UseAES not, enabling'' when \<open>UseAES\<close> had been set to false explicitly (line 285), and
  silently by line 281 when \<open>UseAES\<close> was false by default: that warning is then in the log
  only if it was there on entry. In all, the warning is logged exactly when the AES
  feature bit is present, \<open>UseAESIntrinsics\<close> is on and \<open>UseAES\<close> was set to false explicitly.
\<close>

theorem UseAESIntrinsics_implies_UseAES:
  "initialize e s = Inr s' \<Longrightarrow>
   (bflag s' UseAESIntrinsics \<longrightarrow> bflag s' UseAES) \<and>
   (CPU_AES \<in> features s \<and> bflag s UseAESIntrinsics \<and> \<not> bflag s UseAES \<longrightarrow>
      bflag s' UseAES \<and> bflag s' UseAESIntrinsics \<and>
      (\<not> b_default s UseAES \<longrightarrow>
         (''UseAESIntrinsics enabled, but UseAES not, enabling'', []) \<in> set (warnings s')) \<and>
      (b_default s UseAES \<longrightarrow>
         ((''UseAESIntrinsics enabled, but UseAES not, enabling'', []) \<in> set (warnings s') \<longrightarrow>
          (''UseAESIntrinsics enabled, but UseAES not, enabling'', []) \<in> set (warnings s)))) \<and>
   ((''UseAESIntrinsics enabled, but UseAES not, enabling'', []) \<in> set (warnings s') \<longleftrightarrow>
      (''UseAESIntrinsics enabled, but UseAES not, enabling'', []) \<in> set (warnings s) \<or>
      CPU_AES \<in> features s \<and> bflag s UseAESIntrinsics \<and> \<not> bflag s UseAES \<and>
      \<not> b_default s UseAES)"
proof -
  assume run: "initialize e s = Inr s'"
  from run obtain pre where pre:
    "bflag pre UseAES = bflag s UseAES"
    "bflag pre UseAESIntrinsics = bflag s UseAESIntrinsics"
    "b_default pre = b_default s"
    "CPU_AES \<in> features pre \<longleftrightarrow> CPU_AES \<in> features s"
    "bflag s' UseAES = bflag (rule_AES pre) UseAES"
    "bflag s' UseAESIntrinsics = bflag (rule_AES pre) UseAESIntrinsics"
    by (rule initialize_AES)
  then have 1: "bflag s' UseAESIntrinsics \<longrightarrow> bflag s' UseAES"
    "CPU_AES \<in> features s \<and> bflag s UseAESIntrinsics \<and> \<not> bflag s UseAES \<longrightarrow>
      bflag s' UseAES \<and> bflag s' UseAESIntrinsics"
    by (auto simp: rule_AES_effect)
  note w = initialize_override_warnings(2) [OF run]
  from w have 2: "CPU_AES \<in> features s \<and> bflag s UseAESIntrinsics \<and> \<not> bflag s UseAES \<longrightarrow>
      (\<not> b_default s UseAES \<longrightarrow>
         (''UseAESIntrinsics enabled, but UseAES not, enabling'', []) \<in> set (warnings s')) \<and>
      (b_default s UseAES \<longrightarrow>
         ((''UseAESIntrinsics enabled, but UseAES not, enabling'', []) \<in> set (warnings s') \<longrightarrow>
          (''UseAESIntrinsics enabled, but UseAES not, enabling'', []) \<in> set (warnings s)))"
    by simp
  from 1 2 w show ?thesis
    by simp
qed

theorem UseAESIntrinsics_implies_UseAES_witness:
  "\<not> isl (initialize plain_env
      (plain_state\<lparr>features := {CPU_AES},
         bflag := (bflag plain_state)(UseAESIntrinsics := True),
         b_default := (b_default plain_state)(UseAESIntrinsics := False, UseAES := False)\<rparr>)) \<and>
   bflag (projr (initialize plain_env
      (plain_state\<lparr>features := {CPU_AES},
         bflag := (bflag plain_state)(UseAESIntrinsics := True),
         b_default := (b_default plain_state)(UseAESIntrinsics := False, UseAES := False)\<rparr>)))
     UseAES \<and>
   (''UseAESIntrinsics enabled, but UseAES not, enabling'', []) \<in>
     set (warnings (projr (initialize plain_env
      (plain_state\<lparr>features := {CPU_AES},
         bflag := (bflag plain_state)(UseAESIntrinsics := True),
         b_default := (b_default plain_state)(UseAESIntrinsics := False, UseAES := False)\<rparr>)))) \<and>
   \<not> isl (initialize plain_env
      (plain_state\<lparr>features := {CPU_AES},
         bflag := (bflag plain_state)(UseAESIntrinsics := True),
         b_default := (b_default plain_state)(UseAESIntrinsics := False)\<rparr>)) \<and>
   bflag (projr (initialize plain_env
      (plain_state\<lparr>features := {CPU_AES},
         bflag := (bflag plain_state)(UseAESIntrinsics := True),
         b_default := (b_default plain_state)(UseAESIntrinsics := False)\<rparr>))) UseAES \<and>
   (''UseAESIntrinsics enabled, but UseAES not, enabling'', []) \<notin>
     set (warnings (projr (initialize plain_env
      (plain_state\<lparr>features := {CPU_AES},
         bflag := (bflag plain_state)(UseAESIntrinsics := True),
         b_default := (b_default plain_state)(UseAESIntrinsics := False)\<rparr>))))"
  using
    UseAESIntrinsics_implies_UseAES
    [of plain_env "plain_state\<lparr>features := {CPU_AES},
         bflag := (bflag plain_state)(UseAESIntrinsics := True),
         b_default := (b_default plain_state)(UseAESIntrinsics := False, UseAES := False)\<rparr>"
      "projr (initialize plain_env
      (plain_state\<lparr>features := {CPU_AES},
         bflag := (bflag plain_state)(UseAESIntrinsics := True),
         b_default := (b_default plain_state)(UseAESIntrinsics := False, UseAES := False)\<rparr>))"]
    UseAESIntrinsics_implies_UseAES
    [of plain_env "plain_state\<lparr>features := {CPU_AES},
         bflag := (bflag plain_state)(UseAESIntrinsics := True),
         b_default := (b_default plain_state)(UseAESIntrinsics := False)\<rparr>"
      "projr (initialize plain_env
      (plain_state\<lparr>features := {CPU_AES},
         bflag := (bflag plain_state)(UseAESIntrinsics := True),
         b_default := (b_default plain_state)(UseAESIntrinsics := False)\<rparr>))"]
  by (simp add: run_defs)

text \<open>
  The claim as stated (forced to true with a warning whenever \<open>UseAES\<close> is false) fails when
  \<open>UseAES\<close> is false by default: with the AES feature bit and only \<open>UseAESIntrinsics\<close> given
  on the command line, \<open>UseAES\<close> ends true and no warning at all is emitted.
\<close>

theorem UseAES_enabled_silently_counterexample:
  "\<not> bflag (plain_state\<lparr>features := {CPU_AES},
         bflag := (bflag plain_state)(UseAESIntrinsics := True),
         b_default := (b_default plain_state)(UseAESIntrinsics := False)\<rparr>) UseAES \<and>
   \<not> isl (initialize plain_env
      (plain_state\<lparr>features := {CPU_AES},
         bflag := (bflag plain_state)(UseAESIntrinsics := True),
         b_default := (b_default plain_state)(UseAESIntrinsics := False)\<rparr>)) \<and>
   bflag (projr (initialize plain_env
      (plain_state\<lparr>features := {CPU_AES},
         bflag := (bflag plain_state)(UseAESIntrinsics := True),
         b_default := (b_default plain_state)(UseAESIntrinsics := False)\<rparr>))) UseAES \<and>
   warnings (projr (initialize plain_env
      (plain_state\<lparr>features := {CPU_AES},
         bflag := (bflag plain_state)(UseAESIntrinsics := True),
         b_default := (b_default plain_state)(UseAESIntrinsics := False)\<rparr>))) = []"
  by (simp add: run_defs)

subsection \<open>Vector length negotiation\<close>

lemma pow2_and_pred: "(2::int) ^ n AND (2 ^ n - 1) = 0"
proof -
  have "(2::int) ^ n AND mask n = take_bit n (2 ^ n)"
    by (simp add: take_bit_eq_mask)
  also have "\<dots> = 0"
    by (simp add: take_bit_eq_mod)
  finally show ?thesis
    by (simp add: mask_eq_exp_minus_1)
qed

lemma and_pred_pow2:
  fixes x :: int
  shows "0 < x \<Longrightarrow> x AND (x - 1) = 0 \<Longrightarrow> \<exists>n. x = 2 ^ n"
proof (induction "nat x" arbitrary: x rule: less_induct)
  case less
  show ?case
  proof (cases "even x")
    case True
    then obtain y where y: "x = 2 * y" by (elim evenE)
    with less.prems have ypos: "0 < y" by simp
    have "(x - 1) div 2 = y - 1" using y by simp
    with y have "x AND (x - 1) = 2 * (y AND (y - 1))"
      using and_int_rec [of x "x - 1"] by simp
    with less.prems have "y AND (y - 1) = 0" by simp
    moreover have "nat y < nat x" using y ypos by simp
    ultimately obtain n where "y = 2 ^ n"
      using less.hyps [of y] ypos by blast
    with y have "x = 2 ^ Suc n" by simp
    then show ?thesis ..
  next
    case False
    then obtain y where y: "x = 2 * y + 1" by (elim oddE)
    have "x AND (x - 1) = 2 * (y AND y)"
      using and_int_rec [of x "x - 1"] y by simp
    with less.prems have "y = 0" by simp
    with y have "x = 2 ^ 0" by simp
    then show ?thesis ..
  qed
qed

lemma is_power_of_2_iff: "is_power_of_2 x \<longleftrightarrow> (\<exists>n. x = 2 ^ n)"
  unfolding is_power_of_2_def
  using and_pred_pow2 [of x] pow2_and_pred by auto

lemma is_power_of_2_pos: "is_power_of_2 x \<Longrightarrow> 0 < x"
  by (simp add: is_power_of_2_def)


lemma default_b_keeps [simp]:
  "iflag (default_b k v s) = iflag s"
  "i_default (default_b k v s) = i_default s"
  "initial_sve_vector_length (default_b k v s) = initial_sve_vector_length s"
  "warnings (default_b k v s) = warnings s"
  by (simp_all add: default_b_def assign_b_def)

lemma c2_intrinsics_keeps [simp]:
  "iflag (c2_intrinsics s) = iflag s"
  "i_default (c2_intrinsics s) = i_default s"
  "initial_sve_vector_length (c2_intrinsics s) = initial_sve_vector_length s"
  "warnings (c2_intrinsics s) = warnings s"
  by (simp_all add: c2_intrinsics_def)

lemma c2_tail_keeps [simp]:
  "iflag (c2_tail s) = iflag s"
  "i_default (c2_tail s) = i_default s"
  "initial_sve_vector_length (c2_tail s) = initial_sve_vector_length s"
  "warnings (c2_tail s) = warnings s"
  by (simp_all add: c2_tail_def default_AlignVector_def)

lemma rule_UseSVE_effect:
  "iflag (rule_UseSVE f) UseSVE =
     (if CPU_SVE \<in> features f then
        if i_default f UseSVE then (if CPU_SVE2 \<in> features f then 2 else 1)
        else iflag f UseSVE
      else if 0 < iflag f UseSVE then 0 else iflag f UseSVE)"
  by (simp add: rule_UseSVE_def default_i_def assign_i_def warning_def)

lemma detect_sve_vector_length_effect:
  "iflag (detect_sve_vector_length e y) UseSVE =
     (if 0 < iflag y UseSVE \<and>
         \<not> (is_power_of_2 (get_current_sve_vector_length e) \<and>
            get_current_sve_vector_length e mod sve_vl_min = 0)
      then 0 else iflag y UseSVE)"
  "0 < iflag (detect_sve_vector_length e y) UseSVE \<Longrightarrow>
     initial_sve_vector_length (detect_sve_vector_length e y) = get_current_sve_vector_length e"
  using is_power_of_2_pos [of "get_current_sve_vector_length e"]
  by (auto simp: detect_sve_vector_length_def assign_i_def warning_def split: if_splits)

lemma sve_detection:
  "0 < iflag (detect_sve_vector_length e (rule_UseSVE f)) UseSVE \<longleftrightarrow>
     CPU_SVE \<in> features f \<and> (i_default f UseSVE \<or> 0 < iflag f UseSVE) \<and>
     is_power_of_2 (get_current_sve_vector_length e) \<and>
     get_current_sve_vector_length e mod sve_vl_min = 0"
  "0 < iflag (detect_sve_vector_length e (rule_UseSVE f)) UseSVE \<Longrightarrow>
     initial_sve_vector_length (detect_sve_vector_length e (rule_UseSVE f)) =
       get_current_sve_vector_length e"
  "0 \<le> iflag f UseSVE \<Longrightarrow> 0 \<le> iflag (detect_sve_vector_length e (rule_UseSVE f)) UseSVE"
  by (auto simp: detect_sve_vector_length_effect rule_UseSVE_effect split: if_splits)

lemma flag_rules_sve:
  "0 < iflag (flag_rules e s) UseSVE \<longleftrightarrow>
     CPU_SVE \<in> features s \<and> (i_default s UseSVE \<or> 0 < iflag s UseSVE) \<and>
     is_power_of_2 (get_current_sve_vector_length e) \<and>
     get_current_sve_vector_length e mod sve_vl_min = 0"
  "0 < iflag (flag_rules e s) UseSVE \<Longrightarrow>
     initial_sve_vector_length (flag_rules e s) = get_current_sve_vector_length e"
  "0 \<le> iflag s UseSVE \<Longrightarrow> 0 \<le> iflag (flag_rules e s) UseSVE"
  "iflag (flag_rules e s) MaxVectorSize = iflag s MaxVectorSize"
  "i_default (flag_rules e s) = i_default s"
proof -
  define f where "f = feature_rules e s"
  define x where "x = detect_sve_vector_length e (rule_UseSVE f)"
  have t: "flag_rules e s =
      in_order [default_b UseUnalignedAccesses True, rule_UsePopCountInstruction] x"
    by (simp add: flag_rules_def x_def f_def)
  have "changes_only UNIV {BlockZeroingLowLimit} s f"
    unfolding f_def by (auto intro!: keeps)
  then have f: "iflag f UseSVE = iflag s UseSVE" "iflag f MaxVectorSize = iflag s MaxVectorSize"
    "i_default f = i_default s" "CPU_SVE \<in> features f \<longleftrightarrow> CPU_SVE \<in> features s"
    unfolding changes_only_def by auto
  have "changes_only {} {UseSVE} f x"
    unfolding x_def by (auto intro!: keeps)
  then have x: "iflag x MaxVectorSize = iflag f MaxVectorSize" "i_default x = i_default f"
    unfolding changes_only_def by auto
  have "changes_only UNIV {} x (flag_rules e s)"
    unfolding t by (auto intro!: keeps)
  then have 1: "iflag (flag_rules e s) = iflag x" "i_default (flag_rules e s) = i_default x"
    "initial_sve_vector_length (flag_rules e s) = initial_sve_vector_length x"
    unfolding changes_only_def by auto
  show "0 < iflag (flag_rules e s) UseSVE \<longleftrightarrow>
     CPU_SVE \<in> features s \<and> (i_default s UseSVE \<or> 0 < iflag s UseSVE) \<and>
     is_power_of_2 (get_current_sve_vector_length e) \<and>
     get_current_sve_vector_length e mod sve_vl_min = 0"
    using sve_detection(1) [of e f] f by (simp add: 1 x_def)
  show "0 < iflag (flag_rules e s) UseSVE \<Longrightarrow>
     initial_sve_vector_length (flag_rules e s) = get_current_sve_vector_length e"
    using sve_detection(2) [of e f] by (simp add: 1 x_def)
  show "0 \<le> iflag s UseSVE \<Longrightarrow> 0 \<le> iflag (flag_rules e s) UseSVE"
    using sve_detection(3) [of f e] f by (simp add: 1 x_def)
  show "iflag (flag_rules e s) MaxVectorSize = iflag s MaxVectorSize"
    using x f by (simp add: 1)
  show "i_default (flag_rules e s) = i_default s"
    using x f by (simp add: 1)
qed

lemmas vec_defs = MaxVectorSize_sve_def MaxVectorSize_neon_def assign_i_def warning_def Let_def

lemma MaxVectorSize_Inr:
  assumes "and_then (MaxVectorSize_sve e u) MaxVectorSize_neon = Inr v"
  shows
    "0 < iflag u UseSVE \<Longrightarrow> i_default u MaxVectorSize \<Longrightarrow>
       iflag v UseSVE = iflag u UseSVE \<and> iflag v MaxVectorSize = initial_sve_vector_length u \<and>
       initial_sve_vector_length v = initial_sve_vector_length u"
    "0 < iflag u UseSVE \<Longrightarrow> \<not> i_default u MaxVectorSize \<Longrightarrow> iflag u MaxVectorSize < 16 \<Longrightarrow>
       iflag v UseSVE = 0 \<and> is_power_of_2 (iflag u MaxVectorSize) \<and>
       iflag v MaxVectorSize = max 8 (iflag u MaxVectorSize) \<and>
       (''SVE does not support vector length less than 16 bytes. Disabling SVE.'', [])
         \<in> set (warnings v)"
    "0 < iflag u UseSVE \<Longrightarrow> \<not> i_default u MaxVectorSize \<Longrightarrow> 16 \<le> iflag u MaxVectorSize \<Longrightarrow>
       iflag v UseSVE = iflag u UseSVE \<and>
       iflag v MaxVectorSize = set_and_get_current_sve_vector_length e (iflag u MaxVectorSize) \<and>
       initial_sve_vector_length v =
         set_and_get_current_sve_vector_length e (iflag u MaxVectorSize) \<and>
       0 \<le> set_and_get_current_sve_vector_length e (iflag u MaxVectorSize)"
    "iflag u UseSVE = 0 \<Longrightarrow> i_default u MaxVectorSize \<Longrightarrow>
       iflag v UseSVE = 0 \<and> iflag v MaxVectorSize = 16"
    "iflag u UseSVE = 0 \<Longrightarrow> \<not> i_default u MaxVectorSize \<Longrightarrow>
       iflag v UseSVE = 0 \<and> is_power_of_2 (iflag u MaxVectorSize) \<and>
       iflag v MaxVectorSize = max 8 (min 16 (iflag u MaxVectorSize))"
    "iflag u UseSVE < 0 \<Longrightarrow> v = u"
    "i_default v = i_default u"
    "set (warnings u) \<subseteq> set (warnings v)"
    "iflag u MaxVectorSize < 8 \<Longrightarrow> \<not> i_default u MaxVectorSize \<Longrightarrow> iflag v UseSVE = 0 \<Longrightarrow>
       (''MaxVectorSize must be at least %i on this platform'', [Arg_int 8]) \<in> set (warnings v)"
    "16 < iflag u MaxVectorSize \<Longrightarrow> \<not> i_default u MaxVectorSize \<Longrightarrow> iflag v UseSVE = 0 \<Longrightarrow>
       (''MaxVectorSize must be at most %i on this platform'', [Arg_int 16]) \<in> set (warnings v)"
    "0 < iflag v UseSVE \<Longrightarrow> 0 < iflag u UseSVE"
  using assms by (auto simp: vec_defs split: if_splits)

lemma c2_rules_Inr:
  assumes "c2_rules e t = Inr s2" "COMPILER2 e"
  shows
    "0 < iflag t UseSVE \<Longrightarrow> i_default t MaxVectorSize \<Longrightarrow>
       iflag s2 UseSVE = iflag t UseSVE \<and> iflag s2 MaxVectorSize = initial_sve_vector_length t \<and>
       initial_sve_vector_length s2 = initial_sve_vector_length t"
    "0 < iflag t UseSVE \<Longrightarrow> \<not> i_default t MaxVectorSize \<Longrightarrow> iflag t MaxVectorSize < 16 \<Longrightarrow>
       iflag s2 UseSVE = 0 \<and> is_power_of_2 (iflag t MaxVectorSize) \<and>
       iflag s2 MaxVectorSize = max 8 (iflag t MaxVectorSize) \<and>
       (''SVE does not support vector length less than 16 bytes. Disabling SVE.'', [])
         \<in> set (warnings s2)"
    "0 < iflag t UseSVE \<Longrightarrow> \<not> i_default t MaxVectorSize \<Longrightarrow> 16 \<le> iflag t MaxVectorSize \<Longrightarrow>
       iflag s2 UseSVE = iflag t UseSVE \<and>
       iflag s2 MaxVectorSize = set_and_get_current_sve_vector_length e (iflag t MaxVectorSize) \<and>
       initial_sve_vector_length s2 =
         set_and_get_current_sve_vector_length e (iflag t MaxVectorSize) \<and>
       0 \<le> set_and_get_current_sve_vector_length e (iflag t MaxVectorSize)"
    "iflag t UseSVE = 0 \<Longrightarrow> i_default t MaxVectorSize \<Longrightarrow>
       iflag s2 UseSVE = 0 \<and> iflag s2 MaxVectorSize = 16"
    "iflag t UseSVE = 0 \<Longrightarrow> \<not> i_default t MaxVectorSize \<Longrightarrow>
       iflag s2 UseSVE = 0 \<and> is_power_of_2 (iflag t MaxVectorSize) \<and>
       iflag s2 MaxVectorSize = max 8 (min 16 (iflag t MaxVectorSize))"
    "iflag t UseSVE < 0 \<Longrightarrow> iflag s2 = iflag t"
    "set (warnings t) \<subseteq> set (warnings s2)"
    "iflag t MaxVectorSize < 8 \<Longrightarrow> \<not> i_default t MaxVectorSize \<Longrightarrow> iflag s2 UseSVE = 0 \<Longrightarrow>
       (''MaxVectorSize must be at least %i on this platform'', [Arg_int 8]) \<in> set (warnings s2)"
    "16 < iflag t MaxVectorSize \<Longrightarrow> \<not> i_default t MaxVectorSize \<Longrightarrow> iflag s2 UseSVE = 0 \<Longrightarrow>
       (''MaxVectorSize must be at most %i on this platform'', [Arg_int 16]) \<in> set (warnings s2)"
    "0 < iflag s2 UseSVE \<Longrightarrow> 0 < iflag t UseSVE"
proof -
  from assms obtain v where
    v: "and_then (MaxVectorSize_sve e (c2_intrinsics t)) MaxVectorSize_neon = Inr v"
    and s2: "s2 = c2_tail v"
    by (cases "and_then (MaxVectorSize_sve e (c2_intrinsics t)) MaxVectorSize_neon")
       (auto simp: c2_rules_def)
  note m = MaxVectorSize_Inr [OF v]
  show "0 < iflag t UseSVE \<Longrightarrow> i_default t MaxVectorSize \<Longrightarrow>
       iflag s2 UseSVE = iflag t UseSVE \<and> iflag s2 MaxVectorSize = initial_sve_vector_length t \<and>
       initial_sve_vector_length s2 = initial_sve_vector_length t"
    using m(1) by (simp add: s2)
  show "0 < iflag t UseSVE \<Longrightarrow> \<not> i_default t MaxVectorSize \<Longrightarrow> iflag t MaxVectorSize < 16 \<Longrightarrow>
       iflag s2 UseSVE = 0 \<and> is_power_of_2 (iflag t MaxVectorSize) \<and>
       iflag s2 MaxVectorSize = max 8 (iflag t MaxVectorSize) \<and>
       (''SVE does not support vector length less than 16 bytes. Disabling SVE.'', [])
         \<in> set (warnings s2)"
    using m(2) by (simp add: s2)
  show "0 < iflag t UseSVE \<Longrightarrow> \<not> i_default t MaxVectorSize \<Longrightarrow> 16 \<le> iflag t MaxVectorSize \<Longrightarrow>
       iflag s2 UseSVE = iflag t UseSVE \<and>
       iflag s2 MaxVectorSize = set_and_get_current_sve_vector_length e (iflag t MaxVectorSize) \<and>
       initial_sve_vector_length s2 =
         set_and_get_current_sve_vector_length e (iflag t MaxVectorSize) \<and>
       0 \<le> set_and_get_current_sve_vector_length e (iflag t MaxVectorSize)"
    using m(3) by (simp add: s2)
  show "iflag t UseSVE = 0 \<Longrightarrow> i_default t MaxVectorSize \<Longrightarrow>
       iflag s2 UseSVE = 0 \<and> iflag s2 MaxVectorSize = 16"
    using m(4) by (simp add: s2)
  show "iflag t UseSVE = 0 \<Longrightarrow> \<not> i_default t MaxVectorSize \<Longrightarrow>
       iflag s2 UseSVE = 0 \<and> is_power_of_2 (iflag t MaxVectorSize) \<and>
       iflag s2 MaxVectorSize = max 8 (min 16 (iflag t MaxVectorSize))"
    using m(5) by (simp add: s2)
  show "iflag t UseSVE < 0 \<Longrightarrow> iflag s2 = iflag t"
    using m(6) by (simp add: s2)
  show "set (warnings t) \<subseteq> set (warnings s2)"
    using m(8) by (simp add: s2)
  show "iflag t MaxVectorSize < 8 \<Longrightarrow> \<not> i_default t MaxVectorSize \<Longrightarrow> iflag s2 UseSVE = 0 \<Longrightarrow>
       (''MaxVectorSize must be at least %i on this platform'', [Arg_int 8]) \<in> set (warnings s2)"
    using m(9) by (simp add: s2)
  show "16 < iflag t MaxVectorSize \<Longrightarrow> \<not> i_default t MaxVectorSize \<Longrightarrow> iflag s2 UseSVE = 0 \<Longrightarrow>
       (''MaxVectorSize must be at most %i on this platform'', [Arg_int 16]) \<in> set (warnings s2)"
    using m(10) by (simp add: s2)
  show "0 < iflag s2 UseSVE \<Longrightarrow> 0 < iflag t UseSVE"
    using m(11) by (simp add: s2)
qed



lemma c2_rules_default:
  assumes "i_default t MaxVectorSize"
  shows "\<exists>s2. c2_rules e t = Inr s2"
  using assms by (auto simp: c2_rules_def vec_defs)


lemma set_spin_wait_valid:
  "OnSpinWaitInst s \<in> {''nop'', ''isb'', ''yield'', ''none''} \<Longrightarrow>
   i_default s OnSpinWaitInstCount \<Longrightarrow> \<exists>s3. set_spin_wait s = Inr s3"
  by (auto simp: set_spin_wait_def get_spin_wait_desc_def)

lemma vendor_rules_cases:
  "(\<exists>st. vendor_rules e s =
      Inl (Guarantee_failed ''Pre-release hardware no longer supported.'', st)) \<or>
   (\<exists>s1. vendor_rules e s = Inr s1)"
  using vendor_rules_Inl [of e s] by (cases "vendor_rules e s") auto

subsection \<open>C9: \<open>MaxVectorSize\<close> on the NEON path\<close>

text \<open>
  What a completed run leaves in the numeric flags, seen from the state \<open>t\<close> on which the
  \<open>COMPILER2\<close> block starts.
\<close>

lemma initialize_Inr_vector:
  assumes "initialize e s = Inr s'"
  obtains s1 s2 where
    "c2_rules e (flag_rules e s1) = Inr s2"
    "iflag s1 UseSVE = iflag s UseSVE"
    "iflag s1 MaxVectorSize = iflag s MaxVectorSize"
    "i_default s1 = i_default s"
    "CPU_SVE \<in> features s1 \<longleftrightarrow> CPU_SVE \<in> features s"
    "iflag s' = iflag s2"
    "initial_sve_vector_length s' = initial_sve_vector_length s2"
    "set (warnings s2) \<subseteq> set (warnings s')"
proof -
  from assms obtain s1 s2 s3 where
    s1: "vendor_rules e (prefetch_rules e s) = Inr s1"
    and s2: "c2_rules e (flag_rules e s1) = Inr s2"
    and s3: "set_spin_wait s2 = Inr s3"
    and s': "s' = finish e s3"
    by (rule initialize_InrE)
  from before_flag_rules [OF s1]
  have a: "iflag s1 UseSVE = iflag s UseSVE" "iflag s1 MaxVectorSize = iflag s MaxVectorSize"
    "i_default s1 = i_default s" "CPU_SVE \<in> features s1 \<longleftrightarrow> CPU_SVE \<in> features s"
    unfolding changes_only_def by auto
  from after_c2_rules [OF s3, of e]
  have b: "iflag s' = iflag s2" "initial_sve_vector_length s' = initial_sve_vector_length s2"
    "set (warnings s2) \<subseteq> set (warnings s')"
    unfolding changes_only_def s' by auto
  from s2 a b show ?thesis by (rule that)
qed






subsection \<open>C5: the recorded SVE vector length\<close>

text \<open>
  C5. Whenever \<open>initialize\<close> completes with \<open>UseSVE\<close> above 0: if \<open>MaxVectorSize\<close> was left
  at its default (or the build is without \<open>COMPILER2\<close>), \<open>_initial_sve_vector_length\<close> is
  the length reported by \<open>get_current_sve_vector_length\<close>, a power of two and a multiple
  of \<open>sve_vl_min\<close>. If \<open>MaxVectorSize\<close> was set by the user, it is the length granted by
  \<open>set_and_get_current_sve_vector_length\<close> for that request, which is not negative and is
  taken as it is (also into \<open>MaxVectorSize\<close>): it is a power of two and a multiple of
  \<open>sve_vl_min\<close> if and only if the granted length is.
\<close>

theorem initial_sve_vector_length_valid:
  "initialize e s = Inr s' \<Longrightarrow> 0 < iflag s' UseSVE \<Longrightarrow>
   (\<not> (COMPILER2 e \<and> \<not> i_default s MaxVectorSize) \<longrightarrow>
      initial_sve_vector_length s' = get_current_sve_vector_length e \<and>
      (\<exists>n. initial_sve_vector_length s' = 2 ^ n) \<and>
      initial_sve_vector_length s' mod sve_vl_min = 0) \<and>
   (COMPILER2 e \<and> \<not> i_default s MaxVectorSize \<longrightarrow>
      initial_sve_vector_length s' =
        set_and_get_current_sve_vector_length e (iflag s MaxVectorSize) \<and>
      iflag s' MaxVectorSize = initial_sve_vector_length s' \<and>
      0 \<le> initial_sve_vector_length s')"
proof -
  assume run: "initialize e s = Inr s'" and sve: "0 < iflag s' UseSVE"
  from run obtain s1 s2 where
    s2: "c2_rules e (flag_rules e s1) = Inr s2"
    and a: "iflag s1 MaxVectorSize = iflag s MaxVectorSize" "i_default s1 = i_default s"
    and b: "iflag s' = iflag s2" "initial_sve_vector_length s' = initial_sve_vector_length s2"
    by (rule initialize_Inr_vector)
  define t where "t = flag_rules e s1"
  have t: "iflag t MaxVectorSize = iflag s MaxVectorSize" "i_default t = i_default s"
    by (simp_all add: t_def flag_rules_sve a)
  from sve b have sve2: "0 < iflag s2 UseSVE" by simp
  show ?thesis
  proof (cases "COMPILER2 e")
    case False
    with s2 have "s2 = t" by (simp add: c2_rules_def t_def)
    with sve2 have "0 < iflag t UseSVE" by simp
    with flag_rules_sve(1,2) [of e s1]
    have "initial_sve_vector_length t = get_current_sve_vector_length e"
      "is_power_of_2 (get_current_sve_vector_length e)"
      "get_current_sve_vector_length e mod sve_vl_min = 0"
      by (simp_all add: t_def)
    with False b \<open>s2 = t\<close> show ?thesis
      by (simp add: is_power_of_2_iff)
  next
    case True
    note r = c2_rules_Inr [OF s2 [folded t_def] True]
    from r(10) sve2 have pos: "0 < iflag t UseSVE" by simp
    with flag_rules_sve(1,2) [of e s1]
    have vl: "initial_sve_vector_length t = get_current_sve_vector_length e"
      "is_power_of_2 (get_current_sve_vector_length e)"
      "get_current_sve_vector_length e mod sve_vl_min = 0"
      by (simp_all add: t_def)
    show ?thesis
    proof (cases "i_default s MaxVectorSize")
      case True
      with r(1) pos t vl b show ?thesis
        by (simp add: is_power_of_2_iff)
    next
      case False
      with r(2) r(3) pos t sve2 \<open>COMPILER2 e\<close> b show ?thesis
        by (cases "iflag s MaxVectorSize < 16") auto
    qed
  qed
qed

theorem initial_sve_vector_length_valid_witness:
  "\<not> isl (initialize plain_env asks_64) \<and>
   0 < iflag (projr (initialize plain_env asks_64)) UseSVE \<and>
   initial_sve_vector_length (projr (initialize plain_env asks_64)) = 64 \<and>
   iflag (projr (initialize plain_env asks_64)) MaxVectorSize = 64 \<and>
   \<not> isl (initialize plain_env (plain_state\<lparr>features := {CPU_SVE}\<rparr>)) \<and>
   initial_sve_vector_length (projr (initialize plain_env (plain_state\<lparr>features := {CPU_SVE}\<rparr>)))
     = 32 \<and>
   initial_sve_vector_length (projr (initialize plain_env (plain_state\<lparr>features := {CPU_SVE}\<rparr>)))
     mod sve_vl_min = 0"
  using
    initial_sve_vector_length_valid
      [of plain_env asks_64 "projr (initialize plain_env asks_64)"]
    initial_sve_vector_length_valid
      [of plain_env "plain_state\<lparr>features := {CPU_SVE}\<rparr>"
        "projr (initialize plain_env (plain_state\<lparr>features := {CPU_SVE}\<rparr>))"]
  by (simp add: run_defs asks_64_def)

text \<open>
  The claim as stated fails on the path through
  \<open>set_and_get_current_sve_vector_length\<close>: on a system that reports a length of 64 and
  grants 48 for the request \<open>MaxVectorSize=64\<close>, \<open>initialize\<close> completes with \<open>UseSVE\<close> above
  0 and records 48, which is not a power of two.
\<close>

theorem granted_length_unchecked_counterexample:
  "\<not> isl (initialize grants_48 asks_64) \<and>
   0 < iflag (projr (initialize grants_48 asks_64)) UseSVE \<and>
   initial_sve_vector_length (projr (initialize grants_48 asks_64)) = 48 \<and>
   \<not> is_power_of_2 (initial_sve_vector_length (projr (initialize grants_48 asks_64)))"
  by (simp add: run_defs asks_64_def grants_48_def)

subsection \<open>C2: a small \<open>MaxVectorSize\<close> under SVE\<close>





subsection \<open>What the boolean flags cannot influence\<close>

named_theorems cores

lemma core_eqD:
  "core s = core t \<Longrightarrow>
   cpu s = cpu t \<and> model s = model t \<and> model2 s = model2 t \<and> variant s = variant t \<and>
   revision s = revision t \<and> features s = features t \<and> iflag s = iflag t \<and>
   i_default s = i_default t \<and> OnSpinWaitInst s = OnSpinWaitInst t \<and>
   OnSpinWaitInst_default s = OnSpinWaitInst_default t \<and>
   initial_sve_vector_length s = initial_sve_vector_length t"
  unfolding core_def
  by (cases s, cases t) simp

lemma core_assign_b [simp]: "core (assign_b k v s) = core s"
  by (simp add: core_def assign_b_def)

lemma core_warning [simp]: "core (warning m s) = core s"
  by (simp add: core_def warning_def)

lemma core_default_b [simp]: "core (default_b k v s) = core s"
  by (simp add: default_b_def)

lemma core_unsupported_b [simp]: "core (unsupported_b k m s) = core s"
  by (simp add: unsupported_b_def)

lemma core_field_updates [simp]:
  "core (s\<lparr>data_cache_line_flush_size := x\<rparr>) = core s"
  "core (s\<lparr>spin_wait := z\<rparr>) = core s"
  "core (s\<lparr>detected_virtualization := u\<rparr>) = core s"
  "core (s\<lparr>opened := v\<rparr>) = core s"
  by (simp_all add: core_def)

lemma core_assign_i [cores]:
  "core s = core t \<Longrightarrow> core (assign_i k v s) = core (assign_i k v t)"
  by (frule core_eqD) (cases s, cases t, simp add: core_def assign_i_def)

lemma core_assign_OnSpinWaitInst [cores]:
  "core s = core t \<Longrightarrow> core (assign_OnSpinWaitInst v s) = core (assign_OnSpinWaitInst v t)"
  by (cases s, cases t, simp add: core_def assign_OnSpinWaitInst_def)

lemma core_features_update [cores]:
  "core s = core t \<Longrightarrow> core (s\<lparr>features := F\<rparr>) = core (t\<lparr>features := F\<rparr>)"
  by (cases s, cases t, simp add: core_def)

lemma core_initial_sve_update [cores]:
  "core s = core t \<Longrightarrow>
   core (s\<lparr>initial_sve_vector_length := x\<rparr>) = core (t\<lparr>initial_sve_vector_length := x\<rparr>)"
  by (cases s, cases t, simp add: core_def)

lemma core_default_i [cores]:
  "core s = core t \<Longrightarrow> core (default_i k v s) = core (default_i k v t)"
  by (frule core_eqD) (auto simp: default_i_def intro!: cores)

lemma core_default_OnSpinWaitInst [cores]:
  "core s = core t \<Longrightarrow> core (default_OnSpinWaitInst v s) = core (default_OnSpinWaitInst v t)"
  by (frule core_eqD) (auto simp: default_OnSpinWaitInst_def intro!: cores)

lemma core_prefetch_defaults [cores]:
  "core s = core t \<Longrightarrow> core (prefetch_defaults e s) = core (prefetch_defaults e t)"
  by (simp add: prefetch_defaults_def, (rule cores | simp)+)

lemma core_mask_PrefetchCopyIntervalInBytes [cores]:
  "core s = core t \<Longrightarrow> core (mask_PrefetchCopyIntervalInBytes s) = core (mask_PrefetchCopyIntervalInBytes t)"
  by (frule core_eqD) (auto simp: mask_PrefetchCopyIntervalInBytes_def intro!: cores)

lemma core_cap_PrefetchCopyIntervalInBytes [cores]:
  "core s = core t \<Longrightarrow> core (cap_PrefetchCopyIntervalInBytes s) = core (cap_PrefetchCopyIntervalInBytes t)"
  by (frule core_eqD) (auto simp: cap_PrefetchCopyIntervalInBytes_def intro!: cores)

lemma core_align_PrefetchCopyIntervalInBytes [cores]:
  "core s = core t \<Longrightarrow> core (align_PrefetchCopyIntervalInBytes s) = core (align_PrefetchCopyIntervalInBytes t)"
  by (frule core_eqD) (auto simp: align_PrefetchCopyIntervalInBytes_def intro!: cores)

lemma core_align_AllocatePrefetchDistance [cores]:
  "core s = core t \<Longrightarrow> core (align_AllocatePrefetchDistance s) = core (align_AllocatePrefetchDistance t)"
  by (frule core_eqD) (auto simp: align_AllocatePrefetchDistance_def intro!: cores)

lemma core_align_AllocatePrefetchStepSize [cores]:
  "core s = core t \<Longrightarrow> core (align_AllocatePrefetchStepSize s) = core (align_AllocatePrefetchStepSize t)"
  by (frule core_eqD) (auto simp: align_AllocatePrefetchStepSize_def intro!: cores)

lemma core_align_SoftwarePrefetchHintDistance [cores]:
  "core s = core t \<Longrightarrow> core (align_SoftwarePrefetchHintDistance s) = core (align_SoftwarePrefetchHintDistance t)"
  by (frule core_eqD) (auto simp: align_SoftwarePrefetchHintDistance_def intro!: cores)

lemma core_widen_ContendedPaddingWidth [cores]:
  "core s = core t \<Longrightarrow> core (widen_ContendedPaddingWidth e s) = core (widen_ContendedPaddingWidth e t)"
  by (frule core_eqD) (auto simp: widen_ContendedPaddingWidth_def intro!: cores)

lemma core_publish_flush_size [simp]:
  "core (publish_flush_size e s) = core s"
  by (simp add: publish_flush_size_def)

lemma core_prefetch_rules [cores]:
  "core s = core t \<Longrightarrow> core (prefetch_rules e s) = core (prefetch_rules e t)"
  by (simp add: prefetch_rules_def, (rule cores | simp)+)

lemma core_rule_eMAG [simp]:
  "core (rule_eMAG e s) = core s"
  by (simp add: rule_eMAG_def)

lemma core_rule_Ampere [cores]:
  "core s = core t \<Longrightarrow> core (rule_Ampere e s) = core (rule_Ampere e t)"
  by (frule core_eqD) (auto simp: rule_Ampere_def intro!: cores)

lemma core_rule_ThunderX2 [simp]:
  "core (rule_ThunderX2 s) = core s"
  by (simp add: rule_ThunderX2_def)

lemma core_rule_TSV110 [simp]:
  "core (rule_TSV110 s) = core s"
  by (simp add: rule_TSV110_def)

lemma core_rule_A53 [cores]:
  "core s = core t \<Longrightarrow> core (rule_A53 s) = core (rule_A53 t)"
  by (frule core_eqD) (auto simp: rule_A53_def intro!: cores)

lemma core_rule_A73 [cores]:
  "core s = core t \<Longrightarrow> core (rule_A73 s) = core (rule_A73 t)"
  by (frule core_eqD) (auto simp: rule_A73_def intro!: cores)

lemma core_rule_Neoverse [cores]:
  "core s = core t \<Longrightarrow> core (rule_Neoverse s) = core (rule_Neoverse t)"
  by (frule core_eqD) (auto simp: rule_Neoverse_def model_is_def intro!: cores)

lemma core_rule_ARM_signum [simp]:
  "core (rule_ARM_signum s) = core s"
  by (simp add: rule_ARM_signum_def)

lemma core_rule_STXR_PREFETCH [cores]:
  "core s = core t \<Longrightarrow> core (rule_STXR_PREFETCH s) = core (rule_STXR_PREFETCH t)"
  by (frule core_eqD) (auto simp: rule_STXR_PREFETCH_def intro!: cores)

lemma core_vendor_rules_after_ThunderX [cores]:
  "core s = core t \<Longrightarrow> core (vendor_rules_after_ThunderX s) = core (vendor_rules_after_ThunderX t)"
  by (simp add: vendor_rules_after_ThunderX_def, (rule cores | simp)+)

lemma core_default_UseCRC32 [simp]:
  "core (default_UseCRC32 s) = core s"
  by (simp add: default_UseCRC32_def)

lemma core_check_UseCRC32 [simp]:
  "core (check_UseCRC32 s) = core s"
  by (simp add: check_UseCRC32_def)

lemma core_rule_UseCRC32 [simp]:
  "core (rule_UseCRC32 s) = core s"
  by (simp add: rule_UseCRC32_def)

lemma core_rule_UseLSE [simp]:
  "core (rule_UseLSE s) = core s"
  by (simp add: rule_UseLSE_def)

lemma core_enable_UseAES [simp]:
  "core (enable_UseAES s) = core s"
  by (simp add: enable_UseAES_def)

lemma core_enable_UseAESIntrinsics [simp]:
  "core (enable_UseAESIntrinsics s) = core s"
  by (simp add: enable_UseAESIntrinsics_def)

lemma core_force_UseAES [simp]:
  "core (force_UseAES s) = core s"
  by (simp add: force_UseAES_def)

lemma core_rule_AES [simp]:
  "core (rule_AES s) = core s"
  by (simp add: rule_AES_def)

lemma core_rule_UseCRC32CIntrinsics [simp]:
  "core (rule_UseCRC32CIntrinsics s) = core s"
  by (simp add: rule_UseCRC32CIntrinsics_def)

lemma core_rule_UseSHA [simp]:
  "core (rule_UseSHA s) = core s"
  by (simp add: rule_UseSHA_def)

lemma core_rule_UseSHA1Intrinsics [simp]:
  "core (rule_UseSHA1Intrinsics s) = core s"
  by (simp add: rule_UseSHA1Intrinsics_def)

lemma core_rule_UseSHA256Intrinsics [simp]:
  "core (rule_UseSHA256Intrinsics s) = core s"
  by (simp add: rule_UseSHA256Intrinsics_def)

lemma core_rule_UseSHA3Intrinsics [simp]:
  "core (rule_UseSHA3Intrinsics s) = core s"
  by (simp add: rule_UseSHA3Intrinsics_def)

lemma core_rule_UseSHA512Intrinsics [simp]:
  "core (rule_UseSHA512Intrinsics s) = core s"
  by (simp add: rule_UseSHA512Intrinsics_def)

lemma core_reset_UseSHA [simp]:
  "core (reset_UseSHA s) = core s"
  by (simp add: reset_UseSHA_def)

lemma core_rule_UseGHASHIntrinsics [simp]:
  "core (rule_UseGHASHIntrinsics s) = core s"
  by (simp add: rule_UseGHASHIntrinsics_def)

lemma core_rule_UseBlockZeroing [cores]:
  "core s = core t \<Longrightarrow> core (rule_UseBlockZeroing e s) = core (rule_UseBlockZeroing e t)"
  by (frule core_eqD) (auto simp: rule_UseBlockZeroing_def intro!: cores)

lemma core_feature_rules [cores]:
  "core s = core t \<Longrightarrow> core (feature_rules e s) = core (feature_rules e t)"
  by (simp add: feature_rules_def, (rule cores | simp)+)

lemma core_rule_UseSVE [cores]:
  "core s = core t \<Longrightarrow> core (rule_UseSVE s) = core (rule_UseSVE t)"
  apply (frule core_eqD)
  apply (simp add: rule_UseSVE_def)
  apply (intro conjI impI cores; simp)
  done

lemma core_detect_sve_vector_length [cores]:
  "core s = core t \<Longrightarrow> core (detect_sve_vector_length e s) = core (detect_sve_vector_length e t)"
  apply (frule core_eqD)
  apply (simp add: detect_sve_vector_length_def)
  apply (intro conjI impI cores; simp)
  done

lemma core_force_UsePopCountInstruction [simp]:
  "core (force_UsePopCountInstruction s) = core s"
  by (simp add: force_UsePopCountInstruction_def)

lemma core_rule_UsePopCountInstruction [simp]:
  "core (rule_UsePopCountInstruction s) = core s"
  by (simp add: rule_UsePopCountInstruction_def)

lemma core_flag_rules [cores]:
  "core s = core t \<Longrightarrow> core (flag_rules e s) = core (flag_rules e t)"
  by (simp add: flag_rules_def, (rule cores | simp)+)

lemma core_c2_intrinsics [simp]:
  "core (c2_intrinsics s) = core s"
  by (simp add: c2_intrinsics_def)

lemma core_default_AlignVector [simp]:
  "core (default_AlignVector s) = core s"
  by (simp add: default_AlignVector_def)

lemma core_c2_tail [simp]:
  "core (c2_tail s) = core s"
  by (simp add: c2_tail_def)

lemma core_UNSUPPORTED_OPTION [simp]:
  "core (UNSUPPORTED_OPTION k m s) = core s"
  by (simp add: UNSUPPORTED_OPTION_def)

lemma core_result_and_then:
  "core_result r = core_result r' \<Longrightarrow>
   (\<And>s t. core s = core t \<Longrightarrow> core_result (f s) = core_result (g t)) \<Longrightarrow>
   core_result (and_then r f) = core_result (and_then r' g)"
  by (cases r; cases r') auto

lemma core_rule_ThunderX:
  "core s = core t \<Longrightarrow> core_result (rule_ThunderX s) = core_result (rule_ThunderX t)"
  by (frule core_eqD) (simp add: rule_ThunderX_def)

lemma core_vendor_rules:
  "core s = core t \<Longrightarrow> core_result (vendor_rules e s) = core_result (vendor_rules e t)"
  unfolding vendor_rules_def
  by (intro core_result_and_then core_rule_ThunderX) (simp_all, (rule cores | simp)+)

lemma core_MaxVectorSize_sve:
  "core s = core t \<Longrightarrow>
   core_result (MaxVectorSize_sve e s) = core_result (MaxVectorSize_sve e t)"
  apply (frule core_eqD)
  apply (simp add: MaxVectorSize_sve_def Let_def)
  apply (intro conjI impI; (rule cores | simp)+)
  done

lemma core_MaxVectorSize_neon:
  "core s = core t \<Longrightarrow> core_result (MaxVectorSize_neon s) = core_result (MaxVectorSize_neon t)"
  apply (frule core_eqD)
  apply (simp add: MaxVectorSize_neon_def)
  apply (intro conjI impI; (rule cores | simp)+)
  done

lemma core_c2_rules:
  "core s = core t \<Longrightarrow> core_result (c2_rules e s) = core_result (c2_rules e t)"
  unfolding c2_rules_def
  by (auto intro!: core_result_and_then core_MaxVectorSize_sve core_MaxVectorSize_neon)

lemma core_set_spin_wait:
  "core s = core t \<Longrightarrow> core_result (set_spin_wait s) = core_result (set_spin_wait t)"
  by (frule core_eqD) (simp add: set_spin_wait_def get_spin_wait_desc_def)

lemma core_scan_lines [simp]:
  "core (snd (scan_lines virt1 vt1 virt2 vt2 ls s)) = core s"
  by (induction ls) auto

lemma core_check_info_file [simp]:
  "core (snd (check_info_file e fpath virt1 vt1 virt2 vt2 s)) = core s"
  by (simp add: check_info_file_def split: option.splits)

lemma core_check_virtualizations [simp]:
  "core (check_virtualizations e s) = core s"
proof (cases "check_info_file e pname_file ''KVM'' KVM (Some ''VMWare'') VMWare s")
  case (Pair found x2)
  with core_check_info_file [of e pname_file "''KVM''" KVM "Some ''VMWare''" VMWare s]
  have "core x2 = core s" by simp
  with Pair show ?thesis
    by (cases found) (simp_all add: check_virtualizations_def)
qed

lemma core_finish [simp]: "core (finish e s) = core s"
  by (simp add: finish_def)

text \<open>
  Neither the values nor the origins of the boolean flags have any influence on whether
  \<open>initialize\<close> ends in a fatal error, on which one, or on what it leaves in the other
  fields.
\<close>

lemma core_initialize:
  "core s = core t \<Longrightarrow> core_result (initialize e s) = core_result (initialize e t)"
  unfolding initialize_def
  by (intro core_result_and_then core_vendor_rules core_c2_rules core_set_spin_wait)
     (simp_all, (rule cores | simp)+)

lemma isl_core_result: "isl (core_result r) = isl r"
  by (cases r) auto

lemma initialize_isl_bflag:
  "isl (initialize e (s\<lparr>bflag := b, b_default := d\<rparr>)) = isl (initialize e s)"
proof -
  have "core (s\<lparr>bflag := b, b_default := d\<rparr>) = core s"
    by (simp add: core_def)
  from core_initialize [OF this, of e] show ?thesis
    by (metis isl_core_result)
qed

subsection \<open>C7: AES intrinsics requested on a CPU without AES\<close>

lemma initialize_completes:
  assumes "\<not> (cpu s = CPU_CAVIUM \<and> model s = 0xA1 \<and> variant s = 0)"
    and "i_default s MaxVectorSize"
    and "OnSpinWaitInst s \<in> {''nop'', ''isb'', ''yield'', ''none''}"
    and "i_default s OnSpinWaitInstCount"
  shows "\<exists>s'. initialize e s = Inr s'"
proof -
  have p: "changes_only {} UNIV s (prefetch_rules e s)"
    by (auto intro!: keeps)
  then have id: "cpu (prefetch_rules e s) = cpu s" "model (prefetch_rules e s) = model s"
    "variant (prefetch_rules e s) = variant s"
    unfolding changes_only_def by auto
  from vendor_rules_cases [of e "prefetch_rules e s"] assms(1) id
  obtain s1 where s1: "vendor_rules e (prefetch_rules e s) = Inr s1"
    by (auto dest: vendor_rules_Inl)
  define t where "t = flag_rules e s1"
  have st: "changes_only UNIV UNIV s t"
  proof -
    from before_flag_rules [OF s1] have "changes_only UNIV UNIV s s1"
      unfolding changes_only_def by simp
    then show ?thesis
      unfolding t_def by (auto intro!: keeps)
  qed
  then have "i_default t MaxVectorSize"
    using assms(2) unfolding changes_only_def by simp
  then obtain s2 where s2: "c2_rules e t = Inr s2"
    using c2_rules_default by blast
  from st have "changes_only UNIV UNIV s (final_state (c2_rules e t))"
    by (intro changes_only_c2_rules) auto
  with s2 have "changes_only UNIV UNIV s s2"
    by simp
  then have "OnSpinWaitInst s2 \<in> {''nop'', ''isb'', ''yield'', ''none''}"
    "i_default s2 OnSpinWaitInstCount"
    using assms(3,4) unfolding changes_only_def by auto
  then obtain s3 where "set_spin_wait s2 = Inr s3"
    using set_spin_wait_valid by blast
  with s1 s2 show ?thesis
    by (simp add: initialize_def t_def)
qed

text \<open>
  C7. When the CPU lacks the AES bit and \<open>UseAESIntrinsics\<close> was switched on: every
  completed run of \<open>initialize\<close> ends with \<open>UseAES\<close>, \<open>UseAESIntrinsics\<close> and
  \<open>UseAESCTRIntrinsics\<close> false and has warned ``AES intrinsics are not available on this
  CPU'' (and likewise for \<open>UseAES\<close> and \<open>UseAESCTRIntrinsics\<close> if they were on). The
  request is no cause of a fatal exit: whether \<open>initialize\<close> ends in a fatal error is the
  same for every setting of the boolean flags and of their origins, so it is the same
  with and without the request; and \<open>initialize\<close> does complete as long as the CPU is not
  a pre-release ThunderX, \<open>MaxVectorSize\<close> is at its default, \<open>OnSpinWaitInst\<close> has one of
  its four values and \<open>OnSpinWaitInstCount\<close> is at its default.
\<close>

theorem AES_requested_but_unsupported:
  "CPU_AES \<notin> features s \<Longrightarrow> bflag s UseAESIntrinsics \<Longrightarrow>
   (\<forall>s'. initialize e s = Inr s' \<longrightarrow>
      \<not> bflag s' UseAES \<and> \<not> bflag s' UseAESIntrinsics \<and> \<not> bflag s' UseAESCTRIntrinsics \<and>
      (''AES intrinsics are not available on this CPU'', []) \<in> set (warnings s') \<and>
      (bflag s UseAES \<longrightarrow>
         (''AES instructions are not available on this CPU'', []) \<in> set (warnings s')) \<and>
      (bflag s UseAESCTRIntrinsics \<longrightarrow>
         (''AES/CTR intrinsics are not available on this CPU'', []) \<in> set (warnings s'))) \<and>
   (\<forall>b d. isl (initialize e (s\<lparr>bflag := b, b_default := d\<rparr>)) = isl (initialize e s)) \<and>
   (\<not> (cpu s = CPU_CAVIUM \<and> model s = 0xA1 \<and> variant s = 0) \<and>
    i_default s MaxVectorSize \<and>
    OnSpinWaitInst s \<in> {''nop'', ''isb'', ''yield'', ''none''} \<and>
    i_default s OnSpinWaitInstCount \<longrightarrow>
      (\<exists>s'. initialize e s = Inr s'))"
proof -
  assume noaes: "CPU_AES \<notin> features s" and req: "bflag s UseAESIntrinsics"
  have A: "\<not> bflag s' UseAES \<and> \<not> bflag s' UseAESIntrinsics \<and> \<not> bflag s' UseAESCTRIntrinsics \<and>
      (''AES intrinsics are not available on this CPU'', []) \<in> set (warnings s') \<and>
      (bflag s UseAES \<longrightarrow>
         (''AES instructions are not available on this CPU'', []) \<in> set (warnings s')) \<and>
      (bflag s UseAESCTRIntrinsics \<longrightarrow>
         (''AES/CTR intrinsics are not available on this CPU'', []) \<in> set (warnings s'))"
    if run: "initialize e s = Inr s'" for s'
  proof -
    from run obtain pre where pre:
      "bflag pre UseAES = bflag s UseAES"
      "bflag pre UseAESIntrinsics = bflag s UseAESIntrinsics"
      "bflag pre UseAESCTRIntrinsics = bflag s UseAESCTRIntrinsics"
      "CPU_AES \<in> features pre \<longleftrightarrow> CPU_AES \<in> features s"
      "bflag s' UseAES = bflag (rule_AES pre) UseAES"
      "bflag s' UseAESIntrinsics = bflag (rule_AES pre) UseAESIntrinsics"
      "bflag s' UseAESCTRIntrinsics = bflag (rule_AES pre) UseAESCTRIntrinsics"
      "set (warnings (rule_AES pre)) \<subseteq> set (warnings s')"
      by (rule initialize_AES)
    from pre noaes have off: "\<not> bflag s' UseAES" "\<not> bflag s' UseAESIntrinsics"
      "\<not> bflag s' UseAESCTRIntrinsics"
      by (simp_all add: rule_AES_effect)
    from rule_AES_warnings(3) [of pre] pre noaes req
    have w1: "(''AES intrinsics are not available on this CPU'', []) \<in> set (warnings s')"
      by auto
    from rule_AES_warnings(2) [of pre] pre noaes
    have w2: "bflag s UseAES \<longrightarrow>
        (''AES instructions are not available on this CPU'', []) \<in> set (warnings s')"
      by auto
    from rule_AES_warnings(4) [of pre] pre noaes
    have w3: "bflag s UseAESCTRIntrinsics \<longrightarrow>
        (''AES/CTR intrinsics are not available on this CPU'', []) \<in> set (warnings s')"
      by auto
    from off w1 w2 w3 show ?thesis by simp
  qed
  show ?thesis
    apply (rule conjI)
     apply (intro allI impI)
     apply (rule A, assumption)
    apply (rule conjI)
     apply (intro allI)
     apply (rule initialize_isl_bflag)
    apply (rule impI)
    apply (rule initialize_completes; simp)
    done
qed

theorem AES_requested_but_unsupported_witness:
  "CPU_AES \<notin> features wants_AES_intrinsics \<and> bflag wants_AES_intrinsics UseAESIntrinsics \<and>
   \<not> b_default wants_AES_intrinsics UseAESIntrinsics \<and>
   initialize plain_env wants_AES_intrinsics =
     Inr (projr (initialize plain_env wants_AES_intrinsics)) \<and>
   \<not> bflag (projr (initialize plain_env wants_AES_intrinsics)) UseAES \<and>
   \<not> bflag (projr (initialize plain_env wants_AES_intrinsics)) UseAESIntrinsics \<and>
   (''AES intrinsics are not available on this CPU'', [])
     \<in> set (warnings (projr (initialize plain_env wants_AES_intrinsics)))"
proof -
  have h: "CPU_AES \<notin> features wants_AES_intrinsics" "bflag wants_AES_intrinsics UseAESIntrinsics"
    "\<not> b_default wants_AES_intrinsics UseAESIntrinsics"
    by (simp_all add: wants_AES_intrinsics_def plain_state_def)
  have ok: "\<not> (cpu wants_AES_intrinsics = CPU_CAVIUM \<and> model wants_AES_intrinsics = 0xA1 \<and>
        variant wants_AES_intrinsics = 0) \<and>
    i_default wants_AES_intrinsics MaxVectorSize \<and>
    OnSpinWaitInst wants_AES_intrinsics \<in> {''nop'', ''isb'', ''yield'', ''none''} \<and>
    i_default wants_AES_intrinsics OnSpinWaitInstCount"
    by (simp add: wants_AES_intrinsics_def plain_state_def)
  note t = AES_requested_but_unsupported [OF h(1) h(2), of plain_env]
  from t ok obtain s' where s': "initialize plain_env wants_AES_intrinsics = Inr s'"
    by blast
  then have run: "initialize plain_env wants_AES_intrinsics =
     Inr (projr (initialize plain_env wants_AES_intrinsics))"
    by simp
  with t have "\<not> bflag (projr (initialize plain_env wants_AES_intrinsics)) UseAES \<and>
   \<not> bflag (projr (initialize plain_env wants_AES_intrinsics)) UseAESIntrinsics \<and>
   (''AES intrinsics are not available on this CPU'', [])
     \<in> set (warnings (projr (initialize plain_env wants_AES_intrinsics)))"
    by blast
  with h run show ?thesis by simp
qed

end
